theory Spec2Isabelle
  imports Complex_Main "HOL-Library.Char_ord" "HOL-Library.List_Lexorder"
begin

section \<open>JavaScript values as the route handlers see them\<close>

text \<open>
  A request body is the object that \<^verbatim>\<open>request.json()\<close> returns. Its members are JSON
  scalars; a member that is absent reads as \<^verbatim>\<open>undefined\<close>. Numbers are IEEE doubles in
  the source; they are embedded as exact rationals extended by the three special values,
  so that every comparison of the handlers (\<^verbatim>\<open><= 0\<close>, \<^verbatim>\<open>< 0\<close>, \<^verbatim>\<open>> 100\<close>, \<^verbatim>\<open>isNaN\<close>) is
  decided as JavaScript decides it. Rounding, overflow and underflow of doubles are not
  part of the embedding. Strings are lists of 8-bit characters.
\<close>

datatype jsnum = NaN | NegInf | Fin rat | PosInf

datatype jv = JUndef | JNull | JBool bool | JNum jsnum | JStr string

type_synonym jobject = "(string \<times> jv) list"

type_synonym params = "(string \<times> string) list"

definition field :: "jobject \<Rightarrow> string \<Rightarrow> jv" where
  "field body k = (case map_of body k of Some v \<Rightarrow> v | None \<Rightarrow> JUndef)"

definition js_le :: "jsnum \<Rightarrow> jsnum \<Rightarrow> bool" where
  "js_le a b =
     (case a of
        NaN \<Rightarrow> False
      | NegInf \<Rightarrow> b \<noteq> NaN
      | Fin x \<Rightarrow> (case b of NaN \<Rightarrow> False | NegInf \<Rightarrow> False | Fin y \<Rightarrow> x \<le> y | PosInf \<Rightarrow> True)
      | PosInf \<Rightarrow> b = PosInf)"

definition js_lt :: "jsnum \<Rightarrow> jsnum \<Rightarrow> bool" where
  "js_lt a b =
     (case a of
        NaN \<Rightarrow> False
      | NegInf \<Rightarrow> b \<noteq> NaN \<and> b \<noteq> NegInf
      | Fin x \<Rightarrow> (case b of NaN \<Rightarrow> False | NegInf \<Rightarrow> False | Fin y \<Rightarrow> x < y | PosInf \<Rightarrow> True)
      | PosInf \<Rightarrow> False)"

text \<open>\<^verbatim>\<open>!v\<close> is \<open>\<not> truthy v\<close>.\<close>

fun truthy :: "jv \<Rightarrow> bool" where
  "truthy JUndef = False"
| "truthy JNull = False"
| "truthy (JBool b) = b"
| "truthy (JNum n) = (n \<noteq> NaN \<and> n \<noteq> Fin 0)"
| "truthy (JStr s) = (s \<noteq> [])"

text \<open>\<^verbatim>\<open>typeof v === 'number'\<close> and \<^verbatim>\<open>typeof v === 'string'\<close>.\<close>

fun is_number :: "jv \<Rightarrow> bool" where
  "is_number (JNum n) = True"
| "is_number v = False"

fun is_string :: "jv \<Rightarrow> bool" where
  "is_string (JStr s) = True"
| "is_string v = False"

text \<open>\<^verbatim>\<open>Number.isInteger(v)\<close>: a finite number without a fractional part.\<close>

fun isInteger :: "jv \<Rightarrow> bool" where
  "isInteger (JNum (Fin r)) = (of_int \<lfloor>r\<rfloor> = r)"
| "isInteger v = False"

text \<open>The numeric value used when a non-string scalar is compared or passed to
  \<^verbatim>\<open>isNaN\<close> (\<^verbatim>\<open>ToNumber\<close> without the string case, which the handlers never reach).\<close>

fun toNumber :: "jv \<Rightarrow> jsnum" where
  "toNumber JUndef = NaN"
| "toNumber JNull = Fin 0"
| "toNumber (JBool b) = (if b then Fin 1 else Fin 0)"
| "toNumber (JNum n) = n"
| "toNumber (JStr s) = NaN"

subsection \<open>Strings\<close>

text \<open>White space removed by \<^verbatim>\<open>String.prototype.trim\<close> and skipped by \<^verbatim>\<open>parseInt\<close> and
  \<^verbatim>\<open>parseFloat\<close>, in the 8-bit range: tab, line feed, vertical tab, form feed, carriage
  return, space.\<close>

definition is_ws :: "char \<Rightarrow> bool" where
  "is_ws c = (c \<in> set [CHR 0x09, CHR 0x0A, CHR 0x0B, CHR 0x0C, CHR 0x0D, CHR '' ''])"

definition trim :: "string \<Rightarrow> string" where
  "trim s = rev (dropWhile is_ws (rev (dropWhile is_ws s)))"

definition lower_char :: "char \<Rightarrow> char" where
  "lower_char c =
     (case map_of (zip ''ABCDEFGHIJKLMNOPQRSTUVWXYZ'' ''abcdefghijklmnopqrstuvwxyz'') c of
        Some d \<Rightarrow> d
      | None \<Rightarrow> c)"

definition toLowerCase :: "string \<Rightarrow> string" where
  "toLowerCase s = map lower_char s"

fun starts_with :: "string \<Rightarrow> string \<Rightarrow> bool" where
  "starts_with s [] = True"
| "starts_with [] (p # ps) = False"
| "starts_with (c # cs) (p # ps) = (c = p \<and> starts_with cs ps)"

text \<open>\<^verbatim>\<open>s.includes(sub)\<close>.\<close>

fun str_includes :: "string \<Rightarrow> string \<Rightarrow> bool" where
  "str_includes [] sub = (sub = [])"
| "str_includes (c # cs) sub = (starts_with (c # cs) sub \<or> str_includes cs sub)"

text \<open>\<^verbatim>\<open>v.trim()\<close> on a value that may not be a string: only strings have the method, every
  other value raises a \<^verbatim>\<open>TypeError\<close>, which is \<open>None\<close> here.\<close>

fun trim_of :: "jv \<Rightarrow> string option" where
  "trim_of (JStr s) = Some (trim s)"
| "trim_of v = None"

subsection \<open>Parsing numbers\<close>

definition digit_val :: "char \<Rightarrow> nat option" where
  "digit_val c = map_of (zip ''0123456789'' [0 ..< 10]) c"

definition hex_val :: "char \<Rightarrow> nat option" where
  "hex_val c =
     map_of (zip ''0123456789abcdefABCDEF'' ([0 ..< 16] @ [10 ..< 16])) c"

definition digits_value :: "nat \<Rightarrow> (char \<Rightarrow> nat option) \<Rightarrow> string \<Rightarrow> nat" where
  "digits_value base val ds = foldl (\<lambda>acc c. acc * base + the (val c)) 0 ds"

definition take_digits :: "(char \<Rightarrow> nat option) \<Rightarrow> string \<Rightarrow> string" where
  "take_digits val s = takeWhile (\<lambda>c. val c \<noteq> None) s"

definition split_sign :: "string \<Rightarrow> bool \<times> string" where
  "split_sign s =
     (case s of
        [] \<Rightarrow> (False, [])
      | c # cs \<Rightarrow> if c = CHR ''-'' then (True, cs) else if c = CHR ''+'' then (False, cs)
                 else (False, s))"

text \<open>\<^verbatim>\<open>parseInt(s)\<close> with no radix: leading white space, a sign, then hexadecimal digits
  after \<^verbatim>\<open>0x\<close>/\<^verbatim>\<open>0X\<close> or decimal digits; \<open>None\<close> is \<^verbatim>\<open>NaN\<close>.\<close>

definition parseInt :: "string \<Rightarrow> int option" where
  "parseInt s =
     (let (neg, u) = split_sign (dropWhile is_ws s);
          hex = starts_with u ''0x'' \<or> starts_with u ''0X'';
          ds = (if hex then take_digits hex_val (drop 2 u) else take_digits digit_val u);
          n = int (if hex then digits_value 16 hex_val ds else digits_value 10 digit_val ds)
      in if ds = [] then None else Some (if neg then - n else n))"

text \<open>\<^verbatim>\<open>parseFloat(s)\<close>: leading white space, a sign, \<^verbatim>\<open>Infinity\<close> or a decimal literal
  with optional fraction and exponent; the longest prefix that is a literal counts.\<close>

definition parse_exponent :: "string \<Rightarrow> int" where
  "parse_exponent s =
     (case s of
        [] \<Rightarrow> 0
      | c # cs \<Rightarrow>
          if c = CHR ''e'' \<or> c = CHR ''E'' then
            (let (neg, u) = split_sign cs; ds = take_digits digit_val u;
                 n = int (digits_value 10 digit_val ds)
             in if ds = [] then 0 else if neg then - n else n)
          else 0)"

definition parseFloat :: "string \<Rightarrow> jsnum" where
  "parseFloat s =
     (let (neg, u) = split_sign (dropWhile is_ws s) in
      if starts_with u ''Infinity'' then (if neg then NegInf else PosInf)
      else
        (let ip = take_digits digit_val u;
             r1 = drop (length ip) u;
             fp = (case r1 of [] \<Rightarrow> [] | c # cs \<Rightarrow>
                     if c = CHR ''.'' then take_digits digit_val cs else []);
             dot = (case r1 of [] \<Rightarrow> False | c # cs \<Rightarrow> c = CHR ''.'');
             r2 = (if dot \<and> (ip \<noteq> [] \<or> fp \<noteq> []) then drop (Suc (length fp)) r1 else r1);
             e = parse_exponent r2;
             m = of_nat (digits_value 10 digit_val (ip @ fp)) / (10 ^ length fp);
             v = (if 0 \<le> e then m * 10 ^ nat e else m / 10 ^ nat (- e))
         in if ip = [] \<and> fp = [] then NaN else Fin (if neg then - v else v)))"

text \<open>\<^verbatim>\<open>parseFloat(v)\<close> and \<^verbatim>\<open>parseInt(v)\<close> on a scalar that need not be a string: the
  argument is converted to a string first. \<^verbatim>\<open>String(true)\<close>, \<^verbatim>\<open>String(null)\<close> and
  \<^verbatim>\<open>String(undefined)\<close> do not start with a digit. A finite number prints in decimal
  notation (exponent notation, used beyond \<open>10\<^sup>2\<^sup>1\<close> and below \<open>10\<^sup>-\<^sup>6\<close>, is not
  embedded), so that \<^verbatim>\<open>parseInt\<close> truncates it towards zero.\<close>

fun parseFloat_jv :: "jv \<Rightarrow> jsnum" where
  "parseFloat_jv (JStr s) = parseFloat s"
| "parseFloat_jv (JNum n) = n"
| "parseFloat_jv v = NaN"

fun parseInt_jv :: "jv \<Rightarrow> int option" where
  "parseInt_jv (JStr s) = parseInt s"
| "parseInt_jv (JNum (Fin r)) = Some (if 0 \<le> r then \<lfloor>r\<rfloor> else \<lceil>r\<rceil>)"
| "parseInt_jv v = None"

text \<open>\<^verbatim>\<open>n.toString()\<close> for a natural number.\<close>

fun show_nat :: "nat \<Rightarrow> string" where
  "show_nat n =
     (if n < 10 then [''0123456789'' ! n]
      else show_nat (n div 10) @ [''0123456789'' ! (n mod 10)])"

section \<open>Control flow of a handler\<close>

text \<open>
  The body of a handler runs inside \<^verbatim>\<open>try { ... } catch (error) { ... }\<close>. A validation
  step either goes on with a value (\<open>Next\<close>), leaves the handler with a response
  (\<open>Return\<close>), or raises an exception carrying a message (\<open>Throw\<close>).
\<close>

datatype ('r, 'a) step = Next 'a | Return 'r | Throw string

definition bind :: "('r, 'a) step \<Rightarrow> ('a \<Rightarrow> ('r, 'b) step) \<Rightarrow> ('r, 'b) step" where
  "bind m f = (case m of Next a \<Rightarrow> f a | Return r \<Rightarrow> Return r | Throw e \<Rightarrow> Throw e)"

text \<open>A response is \<^verbatim>\<open>NextResponse.json(body, { status })\<close>. An error body is
  \<^verbatim>\<open>{ error, code }\<close>, with \<open>None\<close> when the object has no \<^verbatim>\<open>code\<close> member; a deletion
  answers \<^verbatim>\<open>{ message, <entity>: row }\<close>.\<close>

datatype 'r body = Err string "string option" | Row 'r | Rows "'r list"
  | Deleted string "'r option" | NoBody

datatype 'r response = Response (resp_status: nat) (resp_body: "'r body")

definition bad_request :: "string \<Rightarrow> string \<Rightarrow> 'r response" where
  "bad_request msg code = Response 400 (Err msg (Some code))"

definition not_found :: "string \<Rightarrow> string \<Rightarrow> 'r response" where
  "not_found msg code = Response 404 (Err msg (Some code))"

text \<open>The \<^verbatim>\<open>catch\<close> block of every handler.\<close>

definition internal_error :: "string \<Rightarrow> 'r response" where
  "internal_error msg = Response 500 (Err (''Internal server error: '' @ msg) None)"

text \<open>The message of the \<^verbatim>\<open>TypeError\<close> raised by \<^verbatim>\<open>name.trim()\<close> on a non-string.\<close>

definition trim_error :: "string \<Rightarrow> jv \<Rightarrow> string" where
  "trim_error name v =
     (if v = JUndef then ''Cannot read properties of undefined (reading 'trim')''
      else if v = JNull then ''Cannot read properties of null (reading 'trim')''
      else name @ ''.trim is not a function'')"

definition trimmed :: "string \<Rightarrow> jv \<Rightarrow> ('r, string) step" where
  "trimmed name v = (case trim_of v of Some t \<Rightarrow> Next t | None \<Rightarrow> Throw (trim_error name v))"

text \<open>\<^verbatim>\<open>!v || v.trim() === ''\<close>.\<close>

definition blank :: "string \<Rightarrow> jv \<Rightarrow> ('r, bool) step" where
  "blank name v = (if \<not> truthy v then Next True else bind (trimmed name v) (\<lambda>t. Next (t = [])))"

text \<open>\<^verbatim>\<open>searchParams.get(k)\<close>; \<open>None\<close> is \<^verbatim>\<open>null\<close>.\<close>

definition get :: "params \<Rightarrow> string \<Rightarrow> string option" where
  "get ps k = map_of ps k"

text \<open>\<^verbatim>\<open>!id || isNaN(parseInt(id))\<close> fails exactly when \<open>parse_id\<close> is \<open>None\<close>; otherwise
  \<^verbatim>\<open>parseInt(id)\<close> is the value.\<close>

definition parse_id :: "string option \<Rightarrow> int option" where
  "parse_id idp = (case idp of None \<Rightarrow> None | Some s \<Rightarrow> if s = [] then None else parseInt s)"

text \<open>\<^verbatim>\<open>Math.min(parseInt(searchParams.get('limit') ?? '10'), 100)\<close> and
  \<^verbatim>\<open>parseInt(searchParams.get('offset') ?? '0')\<close>, the first two lines of every list
  branch; \<open>None\<close> is \<^verbatim>\<open>NaN\<close>.\<close>

definition page_limit :: "params \<Rightarrow> int option" where
  "page_limit ps =
     (case parseInt (case get ps ''limit'' of None \<Rightarrow> ''10'' | Some s \<Rightarrow> s) of
        None \<Rightarrow> None
      | Some n \<Rightarrow> Some (min n 100))"

definition page_offset :: "params \<Rightarrow> int option" where
  "page_offset ps = parseInt (case get ps ''offset'' of None \<Rightarrow> ''0'' | Some s \<Rightarrow> s)"

section \<open>The database\<close>

text \<open>
  The tables of \<^verbatim>\<open>src/db/schema.ts\<close>. Every table has an \<^verbatim>\<open>AUTOINCREMENT\<close> primary key, so
  a table is its rows together with the largest key handed out so far.
\<close>

record 'r table =
  rows :: "'r list"
  seq :: int

text \<open>Modelled from the spec: the storage engine behind \<^verbatim>\<open>@/db\<close> is ``a standard SQL
  database'' (SQLite through drizzle). A \<^verbatim>\<open>LIMIT\<close>/\<^verbatim>\<open>OFFSET\<close> that is not an integer is a
  statement error, a negative \<^verbatim>\<open>LIMIT\<close> is no limit, a negative \<^verbatim>\<open>OFFSET\<close> is none.\<close>

definition db_page :: "int option \<Rightarrow> int option \<Rightarrow> 'r list \<Rightarrow> string + 'r list" where
  "db_page limit offset xs =
     (case limit of
        None \<Rightarrow> Inl ''datatype mismatch''
      | Some l \<Rightarrow>
          (case offset of
             None \<Rightarrow> Inl ''datatype mismatch''
           | Some k \<Rightarrow> Inr (if l < 0 then drop (nat k) xs else take (nat l) (drop (nat k) xs))))"

text \<open>Modelled from the spec: \<^verbatim>\<open>LIKE\<close> of the storage engine; \<^verbatim>\<open>%\<close> matches any run of
  characters, \<^verbatim>\<open>_\<close> any one character, letters match without regard to case.\<close>

fun like :: "string \<Rightarrow> string \<Rightarrow> bool" where
  "like [] t = (t = [])"
| "like (p # ps) [] = (p = CHR ''%'' \<and> like ps [])"
| "like (p # ps) (c # cs) =
     (if p = CHR ''%'' then like ps (c # cs) \<or> like (p # ps) cs
      else (p = CHR ''_'' \<or> lower_char p = lower_char c) \<and> like ps cs)"

text \<open>\<^verbatim>\<open>like(column, `%${search}%`)\<close>.\<close>

definition contains :: "string \<Rightarrow> string \<Rightarrow> bool" where
  "contains search col = like (''%'' @ search @ ''%'') col"

text \<open>Modelled from the spec: \<^verbatim>\<open>insert ... returning\<close> appends the row under the next key,
  \<^verbatim>\<open>update ... where id = n returning\<close> rewrites the rows with that key and returns them,
  \<^verbatim>\<open>delete ... where id = n returning\<close> removes and returns them.\<close>

definition db_insert :: "(int \<Rightarrow> 'r) \<Rightarrow> 'r table \<Rightarrow> 'r \<times> 'r table" where
  "db_insert mk t =
     (let r = mk (seq t + 1) in (r, t\<lparr>rows := rows t @ [r], seq := seq t + 1\<rparr>))"

definition db_select :: "('r \<Rightarrow> int) \<Rightarrow> int \<Rightarrow> 'r table \<Rightarrow> 'r list" where
  "db_select key n t = take 1 (filter (\<lambda>r. key r = n) (rows t))"

definition db_update :: "('r \<Rightarrow> int) \<Rightarrow> int \<Rightarrow> ('r \<Rightarrow> 'r) \<Rightarrow> 'r table \<Rightarrow> 'r list \<times> 'r table" where
  "db_update key n upd t =
     (map upd (filter (\<lambda>r. key r = n) (rows t)),
      t\<lparr>rows := map (\<lambda>r. if key r = n then upd r else r) (rows t)\<rparr>)"

definition db_delete :: "('r \<Rightarrow> int) \<Rightarrow> int \<Rightarrow> 'r table \<Rightarrow> 'r list \<times> 'r table" where
  "db_delete key n t =
     (filter (\<lambda>r. key r = n) (rows t), t\<lparr>rows := filter (\<lambda>r. key r \<noteq> n) (rows t)\<rparr>)"

text \<open>\<^verbatim>\<open>NextResponse.json(result[0], { status })\<close>.\<close>

definition first_row :: "nat \<Rightarrow> 'r list \<Rightarrow> 'r response" where
  "first_row st rs = (case rs of [] \<Rightarrow> Response st NoBody | r # _ \<Rightarrow> Response st (Row r))"

definition first_deleted :: "string \<Rightarrow> 'r list \<Rightarrow> 'r response" where
  "first_deleted msg rs =
     Response 200 (Deleted msg (case rs of [] \<Rightarrow> None | r # _ \<Rightarrow> Some r))"

text \<open>A step of a handler that fills its \<^verbatim>\<open>updateData\<close> object, and the steps in the
  order of the source: the first response or exception ends the handler.\<close>

fun chain :: "('a \<Rightarrow> ('r, 'a) step) list \<Rightarrow> 'a \<Rightarrow> ('r, 'a) step" where
  "chain [] u = Next u"
| "chain (f # fs) u = bind (f u) (chain fs)"

text \<open>\<^verbatim>\<open>if (param)\<close> on a query parameter: present and not the empty string.\<close>

definition present :: "string option \<Rightarrow> bool" where
  "present so = (case so of None \<Rightarrow> False | Some s \<Rightarrow> s \<noteq> [])"

text \<open>A filter condition that is pushed only when its query parameter is present.\<close>

definition opt_cond :: "string option \<Rightarrow> (string \<Rightarrow> bool) \<Rightarrow> bool" where
  "opt_cond so P = (case so of None \<Rightarrow> True | Some t \<Rightarrow> t = [] \<or> P t)"

text \<open>The end of every list branch: \<^verbatim>\<open>await query.limit(limit).offset(offset)\<close> on the
  rows the query selects, answered with status 200, or the \<^verbatim>\<open>catch\<close> block when the
  statement fails.\<close>

definition list_response :: "params \<Rightarrow> 'r list \<Rightarrow> 'r response" where
  "list_response ps xs =
     (case db_page (page_limit ps) (page_offset ps) xs of
        Inl e \<Rightarrow> internal_error e
      | Inr rs \<Rightarrow> Response 200 (Rows rs))"

text \<open>Modelled from the spec: the query builder refuses \<^verbatim>\<open>.set(updateData)\<close> when the
  object has no member, with this message.\<close>

definition no_values :: string where
  "no_values = ''No values to set''"

definition update_rows ::
  "bool \<Rightarrow> ('r \<Rightarrow> int) \<Rightarrow> int \<Rightarrow> ('r \<Rightarrow> 'r) \<Rightarrow> 'r table \<Rightarrow> string + 'r list \<times> 'r table" where
  "update_rows nothing key n upd t =
     (if nothing then Inl no_values else Inr (db_update key n upd t))"

text \<open>\<^verbatim>\<open>v ? v.trim() : null\<close>.\<close>

definition optional_text :: "string \<Rightarrow> jv \<Rightarrow> ('r, string option) step" where
  "optional_text name v =
     (if truthy v then bind (trimmed name v) (\<lambda>t. Next (Some t)) else Next None)"

subsection \<open>Rows\<close>

text \<open>A nullable column is an \<open>option\<close>. A column whose value the handlers store without
  fixing its type keeps the JSON value.\<close>

record shop =
  shop_id :: int
  shop_name :: string
  shop_address :: string
  shop_contact :: string
  shop_email :: string
  shop_createdAt :: string

record customer =
  customer_id :: int
  customer_name :: string
  customer_email :: string
  customer_phone :: string
  customer_address :: string
  customer_latitude :: "jsnum option"
  customer_longitude :: "jsnum option"
  customer_createdAt :: string

record menuItem =
  menuItem_id :: int
  menuItem_name :: string
  menuItem_category :: string
  menuItem_price :: jv
  menuItem_availability :: bool
  menuItem_description :: "string option"
  menuItem_imageUrl :: "string option"
  menuItem_createdAt :: string

record offer =
  offer_id :: int
  offer_title :: string
  offer_description :: "string option"
  offer_discountPercent :: jsnum
  offer_validFrom :: string
  offer_validUntil :: string
  offer_createdAt :: string

record order =
  order_id :: int
  order_customerId :: "jsnum option"
  order_tokenNumber :: string
  order_subtotal :: jsnum
  order_discount :: jsnum
  order_finalAmount :: jsnum
  order_status :: jv
  order_deliveryMode :: string
  order_paymentStatus :: jv
  order_estimatedReadyTime :: jv
  order_createdAt :: string
  order_updatedAt :: string

record orderItem =
  orderItem_id :: int
  orderItem_orderId :: "jsnum option"
  orderItem_menuItemId :: "jsnum option"
  orderItem_quantity :: jsnum
  orderItem_price :: jsnum
  orderItem_createdAt :: string

record payment =
  payment_id :: int
  payment_orderId :: "jsnum option"
  payment_transactionId :: string
  payment_paymentMode :: string
  payment_amountPaid :: jsnum
  payment_paymentStatus :: string
  payment_createdAt :: string

record receipt =
  receipt_id :: int
  receipt_orderId :: "int option"
  receipt_receiptData :: string
  receipt_createdAt :: string

record store =
  shops :: "shop table"
  customers :: "customer table"
  menuItems :: "menuItem table"
  offers :: "offer table"
  orders :: "order table"
  orderItems :: "orderItem table"
  payments :: "payment table"
  receipts :: "receipt table"

text \<open>The value of a column that holds a number or \<^verbatim>\<open>NULL\<close>.\<close>

fun nullable_num :: "jv \<Rightarrow> jsnum option" where
  "nullable_num (JNum n) = Some n"
| "nullable_num v = None"

section \<open>Orders: \<^verbatim>\<open>src/app/api/orders/route.ts\<close>\<close>

text \<open>Every handler takes \<open>now\<close>, the value of \<^verbatim>\<open>new Date().toISOString()\<close> at the request.\<close>

definition orders_query :: "params \<Rightarrow> store \<Rightarrow> order list" where
  "orders_query ps s =
     (let search = get ps ''search''; status = get ps ''status'';
          paymentStatus = get ps ''paymentStatus''; customerId = get ps ''customerId'';
          conditions = (\<lambda>r.
             opt_cond search (\<lambda>t. contains t (order_tokenNumber r)) \<and>
             opt_cond status (\<lambda>t. order_status r = JStr t) \<and>
             opt_cond paymentStatus (\<lambda>t. order_paymentStatus r = JStr t) \<and>
             opt_cond customerId (\<lambda>t. case parseInt t of None \<Rightarrow> True
                | Some n \<Rightarrow> order_customerId r = Some (Fin (of_int n))))
      in rev (sort_key order_createdAt (filter conditions (rows (orders s)))))"

definition orders_GET :: "params \<Rightarrow> store \<Rightarrow> order response" where
  "orders_GET ps s =
     (let id = get ps ''id'' in
      if present id then
        (case parse_id id of
           None \<Rightarrow> bad_request ''Valid ID is required'' ''INVALID_ID''
         | Some n \<Rightarrow>
             (case db_select order_id n (orders s) of
                [] \<Rightarrow> not_found ''Order not found'' ''ORDER_NOT_FOUND''
              | r # _ \<Rightarrow> Response 200 (Row r)))
      else list_response ps (orders_query ps s))"

text \<open>A destructuring default, \<^verbatim>\<open>{ discount = 0 } = body\<close>: used when the member is
  \<^verbatim>\<open>undefined\<close>.\<close>

definition default_to :: "jv \<Rightarrow> jv \<Rightarrow> jv" where
  "default_to d v = (if v = JUndef then d else v)"

text \<open>\<^verbatim>\<open>!v || typeof v !== 'number' || v <= 0\<close>.\<close>

definition not_positive_number :: "jv \<Rightarrow> bool" where
  "not_positive_number v = (\<not> truthy v \<or> \<not> is_number v \<or> js_le (toNumber v) (Fin 0))"

definition orders_POST_validate :: "string \<Rightarrow> jobject \<Rightarrow> (order response, int \<Rightarrow> order) step" where
  "orders_POST_validate now body =
     (let customerId = field body ''customerId'';
          tokenNumber = field body ''tokenNumber'';
          subtotal = field body ''subtotal'';
          discount = default_to (JNum (Fin 0)) (field body ''discount'');
          finalAmount = field body ''finalAmount'';
          status = default_to (JStr ''Order Received'') (field body ''status'');
          deliveryMode = field body ''deliveryMode'';
          paymentStatus = default_to (JStr ''Pending'') (field body ''paymentStatus'');
          estimatedReadyTime = field body ''estimatedReadyTime''
      in
      bind (blank ''tokenNumber'' tokenNumber) (\<lambda>b1.
      if b1 then Return (bad_request ''Token number is required'' ''MISSING_TOKEN_NUMBER'')
      else if not_positive_number subtotal
        then Return (bad_request ''Valid positive subtotal is required'' ''INVALID_SUBTOTAL'')
      else if not_positive_number finalAmount
        then Return (bad_request ''Valid positive final amount is required''
                       ''INVALID_FINAL_AMOUNT'')
      else
      bind (blank ''deliveryMode'' deliveryMode) (\<lambda>b2.
      if b2 then Return (bad_request ''Delivery mode is required'' ''MISSING_DELIVERY_MODE'')
      else if \<not> is_number discount \<or> js_lt (toNumber discount) (Fin 0)
        then Return (bad_request ''Discount must be a non-negative number'' ''INVALID_DISCOUNT'')
      else
      bind (trimmed ''tokenNumber'' tokenNumber) (\<lambda>tok.
      bind (trimmed ''deliveryMode'' deliveryMode) (\<lambda>mode.
      if customerId \<noteq> JUndef \<and> customerId \<noteq> JNull \<and>
         (\<not> is_number customerId \<or> js_le (toNumber customerId) (Fin 0))
        then Return (bad_request ''Customer ID must be a positive number''
                       ''INVALID_CUSTOMER_ID'')
      else
        Next (\<lambda>i. \<lparr>order_id = i,
                    order_customerId = nullable_num customerId,
                    order_tokenNumber = tok,
                    order_subtotal = toNumber subtotal,
                    order_discount = toNumber discount,
                    order_finalAmount = toNumber finalAmount,
                    order_status = (if truthy status then status else JStr ''Order Received''),
                    order_deliveryMode = mode,
                    order_paymentStatus =
                      (if truthy paymentStatus then paymentStatus else JStr ''Pending''),
                    order_estimatedReadyTime =
                      (if truthy estimatedReadyTime then estimatedReadyTime else JNull),
                    order_createdAt = now,
                    order_updatedAt = now\<rparr>))))))"

text \<open>Modelled from the spec: the unique index on \<^verbatim>\<open>orders.token_number\<close>. An insert that
  would repeat a token number fails with the engine's message and writes nothing.\<close>

definition orders_insert :: "(int \<Rightarrow> order) \<Rightarrow> store \<Rightarrow> string + order \<times> store" where
  "orders_insert mk s =
     (if order_tokenNumber (mk 0) \<in> set (map order_tokenNumber (rows (orders s)))
      then Inl ''UNIQUE constraint failed: orders.token_number''
      else (case db_insert mk (orders s) of (r, t) \<Rightarrow> Inr (r, s\<lparr>orders := t\<rparr>)))"

definition orders_POST :: "string \<Rightarrow> jobject \<Rightarrow> store \<Rightarrow> order response \<times> store" where
  "orders_POST now body s =
     (case orders_POST_validate now body of
        Throw e \<Rightarrow> (internal_error e, s)
      | Return r \<Rightarrow> (r, s)
      | Next insertData \<Rightarrow>
          (case orders_insert insertData s of
             Inl e \<Rightarrow>
               if str_includes e ''UNIQUE''
               then (bad_request ''Token number already exists'' ''DUPLICATE_TOKEN_NUMBER'', s)
               else (internal_error e, s)
           | Inr (r, s') \<Rightarrow> (Response 201 (Row r), s')))"

text \<open>The \<^verbatim>\<open>updateData\<close> object of \<^verbatim>\<open>PUT\<close>: a member is \<open>None\<close> while the key is not set.\<close>

record order_updateData =
  set_customerId :: "jsnum option option"
  set_status :: "string option"
  set_deliveryMode :: "string option"
  set_paymentStatus :: "string option"
  set_estimatedReadyTime :: "jv option"
  set_discount :: "jsnum option"
  set_finalAmount :: "jsnum option"
  set_updatedAt :: string

definition set_column :: "'a option \<Rightarrow> 'a \<Rightarrow> 'a" where
  "set_column new old = (case new of None \<Rightarrow> old | Some v \<Rightarrow> v)"

text \<open>\<^verbatim>\<open>db.update(orders).set(updateData)\<close> on one row.\<close>

definition orders_set :: "order_updateData \<Rightarrow> order \<Rightarrow> order" where
  "orders_set u r =
     r\<lparr>order_customerId := set_column (set_customerId u) (order_customerId r),
       order_status := set_column (map_option JStr (set_status u)) (order_status r),
       order_deliveryMode := set_column (set_deliveryMode u) (order_deliveryMode r),
       order_paymentStatus := set_column (map_option JStr (set_paymentStatus u))
                                (order_paymentStatus r),
       order_estimatedReadyTime := set_column (set_estimatedReadyTime u)
                                     (order_estimatedReadyTime r),
       order_discount := set_column (set_discount u) (order_discount r),
       order_finalAmount := set_column (set_finalAmount u) (order_finalAmount r),
       order_updatedAt := set_updatedAt u\<rparr>"

definition put_customerId :: "jobject \<Rightarrow> order_updateData \<Rightarrow> (order response, order_updateData) step" where
  "put_customerId body u =
     (let customerId = field body ''customerId'' in
      if customerId \<noteq> JUndef then
        (if customerId \<noteq> JNull \<and> (\<not> is_number customerId \<or> js_le (toNumber customerId) (Fin 0))
         then Return (bad_request ''Customer ID must be a positive number or null''
                        ''INVALID_CUSTOMER_ID'')
         else Next (u\<lparr>set_customerId := Some (nullable_num customerId)\<rparr>))
      else Next u)"

definition put_status :: "jobject \<Rightarrow> order_updateData \<Rightarrow> (order response, order_updateData) step" where
  "put_status body u =
     (let status = field body ''status'' in
      if status \<noteq> JUndef then
        bind (blank ''status'' status) (\<lambda>b.
          if b then Return (bad_request ''Status cannot be empty'' ''INVALID_STATUS'')
          else bind (trimmed ''status'' status) (\<lambda>t. Next (u\<lparr>set_status := Some t\<rparr>)))
      else Next u)"

definition put_deliveryMode :: "jobject \<Rightarrow> order_updateData \<Rightarrow> (order response, order_updateData) step" where
  "put_deliveryMode body u =
     (let deliveryMode = field body ''deliveryMode'' in
      if deliveryMode \<noteq> JUndef then
        bind (blank ''deliveryMode'' deliveryMode) (\<lambda>b.
          if b then Return (bad_request ''Delivery mode cannot be empty'' ''INVALID_DELIVERY_MODE'')
          else bind (trimmed ''deliveryMode'' deliveryMode)
                 (\<lambda>t. Next (u\<lparr>set_deliveryMode := Some t\<rparr>)))
      else Next u)"

definition put_paymentStatus :: "jobject \<Rightarrow> order_updateData \<Rightarrow> (order response, order_updateData) step" where
  "put_paymentStatus body u =
     (let paymentStatus = field body ''paymentStatus'' in
      if paymentStatus \<noteq> JUndef then
        bind (blank ''paymentStatus'' paymentStatus) (\<lambda>b.
          if b then Return (bad_request ''Payment status cannot be empty''
                              ''INVALID_PAYMENT_STATUS'')
          else bind (trimmed ''paymentStatus'' paymentStatus)
                 (\<lambda>t. Next (u\<lparr>set_paymentStatus := Some t\<rparr>)))
      else Next u)"

definition put_estimatedReadyTime :: "jobject \<Rightarrow> order_updateData \<Rightarrow> (order response, order_updateData) step" where
  "put_estimatedReadyTime body u =
     (let estimatedReadyTime = field body ''estimatedReadyTime'' in
      if estimatedReadyTime \<noteq> JUndef
      then Next (u\<lparr>set_estimatedReadyTime := Some estimatedReadyTime\<rparr>)
      else Next u)"

definition put_discount :: "jobject \<Rightarrow> order_updateData \<Rightarrow> (order response, order_updateData) step" where
  "put_discount body u =
     (let discount = field body ''discount'' in
      if discount \<noteq> JUndef then
        (if \<not> is_number discount \<or> js_lt (toNumber discount) (Fin 0)
         then Return (bad_request ''Discount must be a non-negative number'' ''INVALID_DISCOUNT'')
         else Next (u\<lparr>set_discount := Some (toNumber discount)\<rparr>))
      else Next u)"

definition put_finalAmount :: "jobject \<Rightarrow> order_updateData \<Rightarrow> (order response, order_updateData) step" where
  "put_finalAmount body u =
     (let finalAmount = field body ''finalAmount'' in
      if finalAmount \<noteq> JUndef then
        (if \<not> is_number finalAmount \<or> js_le (toNumber finalAmount) (Fin 0)
         then Return (bad_request ''Final amount must be a positive number''
                        ''INVALID_FINAL_AMOUNT'')
         else Next (u\<lparr>set_finalAmount := Some (toNumber finalAmount)\<rparr>))
      else Next u)"

definition orders_PUT_validate :: "string \<Rightarrow> jobject \<Rightarrow> (order response, order_updateData) step" where
  "orders_PUT_validate now body =
     chain [put_customerId body, put_status body, put_deliveryMode body,
            put_paymentStatus body, put_estimatedReadyTime body, put_discount body,
            put_finalAmount body]
       \<lparr>set_customerId = None, set_status = None, set_deliveryMode = None,
        set_paymentStatus = None, set_estimatedReadyTime = None, set_discount = None,
        set_finalAmount = None, set_updatedAt = now\<rparr>"

definition orders_PUT :: "string \<Rightarrow> params \<Rightarrow> jobject \<Rightarrow> store \<Rightarrow> order response \<times> store" where
  "orders_PUT now ps body s =
     (case parse_id (get ps ''id'') of
        None \<Rightarrow> (bad_request ''Valid ID is required'' ''INVALID_ID'', s)
      | Some n \<Rightarrow>
          (case db_select order_id n (orders s) of
             [] \<Rightarrow> (not_found ''Order not found'' ''ORDER_NOT_FOUND'', s)
           | existing # _ \<Rightarrow>
               (case orders_PUT_validate now body of
                  Throw e \<Rightarrow> (internal_error e, s)
                | Return r \<Rightarrow> (r, s)
                | Next updateData \<Rightarrow>
                    (case db_update order_id n (orders_set updateData) (orders s) of
                       (updated, t) \<Rightarrow> (first_row 200 updated, s\<lparr>orders := t\<rparr>)))))"

definition orders_DELETE :: "params \<Rightarrow> store \<Rightarrow> order response \<times> store" where
  "orders_DELETE ps s =
     (case parse_id (get ps ''id'') of
        None \<Rightarrow> (bad_request ''Valid ID is required'' ''INVALID_ID'', s)
      | Some n \<Rightarrow>
          (case db_select order_id n (orders s) of
             [] \<Rightarrow> (not_found ''Order not found'' ''ORDER_NOT_FOUND'', s)
           | existing # _ \<Rightarrow>
               (case db_delete order_id n (orders s) of
                  (deleted, t) \<Rightarrow>
                    (first_deleted ''Order deleted successfully'' deleted, s\<lparr>orders := t\<rparr>))))"

section \<open>Payments: \<^verbatim>\<open>src/app/api/payments/route.ts\<close>\<close>

definition payments_query :: "params \<Rightarrow> store \<Rightarrow> payment list" where
  "payments_query ps s =
     (let search = get ps ''search''; orderId = get ps ''orderId'';
          paymentStatus = get ps ''paymentStatus''; paymentMode = get ps ''paymentMode'';
          conditions = (\<lambda>r.
             opt_cond search (\<lambda>t. contains t (payment_transactionId r)) \<and>
             opt_cond orderId (\<lambda>t. case parseInt t of None \<Rightarrow> True
                | Some n \<Rightarrow> payment_orderId r = Some (Fin (of_int n))) \<and>
             opt_cond paymentStatus (\<lambda>t. payment_paymentStatus r = t) \<and>
             opt_cond paymentMode (\<lambda>t. payment_paymentMode r = t))
      in filter conditions (rows (payments s)))"

definition payments_GET :: "params \<Rightarrow> store \<Rightarrow> payment response" where
  "payments_GET ps s =
     (let id = get ps ''id'' in
      if present id then
        (case parse_id id of
           None \<Rightarrow> bad_request ''Valid ID is required'' ''INVALID_ID''
         | Some n \<Rightarrow>
             (case db_select payment_id n (payments s) of
                [] \<Rightarrow> not_found ''Payment not found'' ''PAYMENT_NOT_FOUND''
              | r # _ \<Rightarrow> Response 200 (Row r)))
      else list_response ps (payments_query ps s))"

text \<open>\<^verbatim>\<open>typeof v !== 'number' || isNaN(v)\<close>.\<close>

definition not_a_number :: "jv \<Rightarrow> bool" where
  "not_a_number v = (\<not> is_number v \<or> toNumber v = NaN)"

definition payments_POST_validate :: "string \<Rightarrow> jobject \<Rightarrow> (payment response, int \<Rightarrow> payment) step" where
  "payments_POST_validate now body =
     (let transactionId = field body ''transactionId'';
          paymentMode = field body ''paymentMode'';
          amountPaid = field body ''amountPaid'';
          paymentStatus = field body ''paymentStatus'';
          orderId = field body ''orderId''
      in
      bind (blank ''transactionId'' transactionId) (\<lambda>b1.
      if b1 then Return (bad_request ''Transaction ID is required and cannot be empty''
                           ''MISSING_TRANSACTION_ID'')
      else
      bind (blank ''paymentMode'' paymentMode) (\<lambda>b2.
      if b2 then Return (bad_request ''Payment mode is required'' ''MISSING_PAYMENT_MODE'')
      else if amountPaid = JUndef \<or> amountPaid = JNull
        then Return (bad_request ''Amount paid is required'' ''MISSING_AMOUNT_PAID'')
      else if \<not> is_number amountPaid \<or> js_le (toNumber amountPaid) (Fin 0)
        then Return (bad_request ''Amount paid must be a positive number''
                       ''INVALID_AMOUNT_PAID'')
      else
      bind (blank ''paymentStatus'' paymentStatus) (\<lambda>b3.
      if b3 then Return (bad_request ''Payment status is required'' ''MISSING_PAYMENT_STATUS'')
      else
      bind (trimmed ''transactionId'' transactionId) (\<lambda>txn.
      bind (trimmed ''paymentMode'' paymentMode) (\<lambda>mode.
      bind (trimmed ''paymentStatus'' paymentStatus) (\<lambda>pstatus.
      if orderId \<noteq> JUndef \<and> orderId \<noteq> JNull \<and> not_a_number orderId
        then Return (bad_request ''Order ID must be a valid number'' ''INVALID_ORDER_ID'')
      else
        Next (\<lambda>i. \<lparr>payment_id = i,
                    payment_orderId = nullable_num orderId,
                    payment_transactionId = txn,
                    payment_paymentMode = mode,
                    payment_amountPaid = toNumber amountPaid,
                    payment_paymentStatus = pstatus,
                    payment_createdAt = now\<rparr>))))))))"

text \<open>Modelled from the spec: the unique index on \<^verbatim>\<open>payments.transaction_id\<close>.\<close>

definition payments_insert :: "(int \<Rightarrow> payment) \<Rightarrow> store \<Rightarrow> string + payment \<times> store" where
  "payments_insert mk s =
     (if payment_transactionId (mk 0) \<in> set (map payment_transactionId (rows (payments s)))
      then Inl ''UNIQUE constraint failed: payments.transaction_id''
      else (case db_insert mk (payments s) of (r, t) \<Rightarrow> Inr (r, s\<lparr>payments := t\<rparr>)))"

definition payments_POST :: "string \<Rightarrow> jobject \<Rightarrow> store \<Rightarrow> payment response \<times> store" where
  "payments_POST now body s =
     (case payments_POST_validate now body of
        Throw e \<Rightarrow> (internal_error e, s)
      | Return r \<Rightarrow> (r, s)
      | Next insertData \<Rightarrow>
          (case payments_insert insertData s of
             Inl e \<Rightarrow>
               if str_includes e ''UNIQUE constraint failed''
               then (bad_request ''Transaction ID already exists'' ''DUPLICATE_TRANSACTION_ID'', s)
               else (internal_error e, s)
           | Inr (r, s') \<Rightarrow> (Response 201 (Row r), s')))"

record payment_updateData =
  pset_orderId :: "jsnum option option"
  pset_paymentMode :: "string option"
  pset_paymentStatus :: "string option"

definition payments_set :: "payment_updateData \<Rightarrow> payment \<Rightarrow> payment" where
  "payments_set u r =
     r\<lparr>payment_orderId := set_column (pset_orderId u) (payment_orderId r),
       payment_paymentMode := set_column (pset_paymentMode u) (payment_paymentMode r),
       payment_paymentStatus := set_column (pset_paymentStatus u) (payment_paymentStatus r)\<rparr>"

definition pput_orderId :: "jobject \<Rightarrow> payment_updateData \<Rightarrow> (payment response, payment_updateData) step" where
  "pput_orderId body u =
     (let orderId = field body ''orderId'' in
      if orderId \<noteq> JUndef then
        (if orderId = JNull then Next (u\<lparr>pset_orderId := Some None\<rparr>)
         else if \<not> not_a_number orderId then Next (u\<lparr>pset_orderId := Some (nullable_num orderId)\<rparr>)
         else Return (bad_request ''Order ID must be a valid number or null''
                        ''INVALID_ORDER_ID''))
      else Next u)"

definition pput_paymentMode :: "jobject \<Rightarrow> payment_updateData \<Rightarrow> (payment response, payment_updateData) step" where
  "pput_paymentMode body u =
     (let paymentMode = field body ''paymentMode'' in
      if paymentMode \<noteq> JUndef \<and> paymentMode \<noteq> JNull then
        bind (trimmed ''paymentMode'' paymentMode) (\<lambda>t.
          if t = [] then Return (bad_request ''Payment mode cannot be empty''
                                   ''INVALID_PAYMENT_MODE'')
          else Next (u\<lparr>pset_paymentMode := Some t\<rparr>))
      else Next u)"

definition pput_paymentStatus :: "jobject \<Rightarrow> payment_updateData \<Rightarrow> (payment response, payment_updateData) step" where
  "pput_paymentStatus body u =
     (let paymentStatus = field body ''paymentStatus'' in
      if paymentStatus \<noteq> JUndef \<and> paymentStatus \<noteq> JNull then
        bind (trimmed ''paymentStatus'' paymentStatus) (\<lambda>t.
          if t = [] then Return (bad_request ''Payment status cannot be empty''
                                   ''INVALID_PAYMENT_STATUS'')
          else Next (u\<lparr>pset_paymentStatus := Some t\<rparr>))
      else Next u)"

definition payments_PUT_validate :: "jobject \<Rightarrow> (payment response, payment_updateData) step" where
  "payments_PUT_validate body =
     chain [pput_orderId body, pput_paymentMode body, pput_paymentStatus body]
       \<lparr>pset_orderId = None, pset_paymentMode = None, pset_paymentStatus = None\<rparr>"

text \<open>\<^verbatim>\<open>Object.keys(updateData).length === 0\<close>.\<close>

definition payment_updateData_empty :: "payment_updateData \<Rightarrow> bool" where
  "payment_updateData_empty u =
     (pset_orderId u = None \<and> pset_paymentMode u = None \<and> pset_paymentStatus u = None)"

definition payments_PUT :: "params \<Rightarrow> jobject \<Rightarrow> store \<Rightarrow> payment response \<times> store" where
  "payments_PUT ps body s =
     (case parse_id (get ps ''id'') of
        None \<Rightarrow> (bad_request ''Valid ID is required'' ''INVALID_ID'', s)
      | Some n \<Rightarrow>
          (case db_select payment_id n (payments s) of
             [] \<Rightarrow> (not_found ''Payment not found'' ''PAYMENT_NOT_FOUND'', s)
           | existing # _ \<Rightarrow>
               (case payments_PUT_validate body of
                  Throw e \<Rightarrow> (internal_error e, s)
                | Return r \<Rightarrow> (r, s)
                | Next updateData \<Rightarrow>
                    if payment_updateData_empty updateData
                    then (bad_request ''No valid fields to update'' ''NO_UPDATE_FIELDS'', s)
                    else
                      (case db_update payment_id n (payments_set updateData) (payments s) of
                         (updated, t) \<Rightarrow> (first_row 200 updated, s\<lparr>payments := t\<rparr>)))))"

definition payments_DELETE :: "params \<Rightarrow> store \<Rightarrow> payment response \<times> store" where
  "payments_DELETE ps s =
     (case parse_id (get ps ''id'') of
        None \<Rightarrow> (bad_request ''Valid ID is required'' ''INVALID_ID'', s)
      | Some n \<Rightarrow>
          (case db_select payment_id n (payments s) of
             [] \<Rightarrow> (not_found ''Payment not found'' ''PAYMENT_NOT_FOUND'', s)
           | existing # _ \<Rightarrow>
               (case db_delete payment_id n (payments s) of
                  (deleted, t) \<Rightarrow>
                    (first_deleted ''Payment deleted successfully'' deleted,
                     s\<lparr>payments := t\<rparr>))))"

section \<open>Customers: \<^verbatim>\<open>src/app/api/customers/route.ts\<close>\<close>

definition customers_query :: "params \<Rightarrow> store \<Rightarrow> customer list" where
  "customers_query ps s =
     (let search = get ps ''search'' in
      filter (\<lambda>r. opt_cond search (\<lambda>t. contains t (customer_name r) \<or>
                       contains t (customer_email r) \<or> contains t (customer_phone r)))
        (rows (customers s)))"

definition customers_GET :: "params \<Rightarrow> store \<Rightarrow> customer response" where
  "customers_GET ps s =
     (let id = get ps ''id'' in
      if present id then
        (case parse_id id of
           None \<Rightarrow> bad_request ''Valid ID is required'' ''INVALID_ID''
         | Some n \<Rightarrow>
             (case db_select customer_id n (customers s) of
                [] \<Rightarrow> not_found ''Customer not found'' ''NOT_FOUND''
              | r # _ \<Rightarrow> Response 200 (Row r)))
      else list_response ps (customers_query ps s))"

text \<open>\<^verbatim>\<open>!v || typeof v !== 'string' || v.trim() === ''\<close>; no exception is possible.\<close>

fun missing_text :: "jv \<Rightarrow> bool" where
  "missing_text (JStr t) = (trim t = [])"
| "missing_text v = True"

text \<open>The value of \<^verbatim>\<open>v.trim()\<close> once \<open>v\<close> is known to be a string.\<close>

fun text_of :: "jv \<Rightarrow> string" where
  "text_of (JStr t) = trim t"
| "text_of v = []"

text \<open>\<^verbatim>\<open>parseFloat(v)\<close> for a coordinate that is neither \<^verbatim>\<open>undefined\<close> nor
  \<^verbatim>\<open>null\<close>; the column stays \<^verbatim>\<open>NULL\<close> otherwise.\<close>

definition coordinate :: "jv \<Rightarrow> jsnum option" where
  "coordinate v = (if v \<noteq> JUndef \<and> v \<noteq> JNull then Some (parseFloat_jv v) else None)"

definition customers_POST_validate :: "string \<Rightarrow> jobject \<Rightarrow> (customer response, int \<Rightarrow> customer) step" where
  "customers_POST_validate now body =
     (let name = field body ''name''; email = field body ''email'';
          phone = field body ''phone''; address = field body ''address'';
          latitude = field body ''latitude''; longitude = field body ''longitude''
      in
      if missing_text name
        then Return (bad_request ''Name is required and must not be empty'' ''MISSING_NAME'')
      else if missing_text email
        then Return (bad_request ''Email is required and must not be empty'' ''MISSING_EMAIL'')
      else if missing_text phone
        then Return (bad_request ''Phone is required and must not be empty'' ''MISSING_PHONE'')
      else if missing_text address
        then Return (bad_request ''Address is required and must not be empty''
                       ''MISSING_ADDRESS'')
      else
        Next (\<lambda>i. \<lparr>customer_id = i,
                    customer_name = text_of name,
                    customer_email = toLowerCase (text_of email),
                    customer_phone = text_of phone,
                    customer_address = text_of address,
                    customer_latitude = coordinate latitude,
                    customer_longitude = coordinate longitude,
                    customer_createdAt = now\<rparr>))"

text \<open>Modelled from the spec: the unique index on \<^verbatim>\<open>customers.email\<close>, for an insert and
  for an update that sets the email of row \<open>n\<close>.\<close>

definition customers_insert :: "(int \<Rightarrow> customer) \<Rightarrow> store \<Rightarrow> string + customer \<times> store" where
  "customers_insert mk s =
     (if customer_email (mk 0) \<in> set (map customer_email (rows (customers s)))
      then Inl ''UNIQUE constraint failed: customers.email''
      else (case db_insert mk (customers s) of (r, t) \<Rightarrow> Inr (r, s\<lparr>customers := t\<rparr>)))"

text \<open>The \<^verbatim>\<open>catch\<close> block of the customers \<^verbatim>\<open>POST\<close> and \<^verbatim>\<open>PUT\<close> handlers.\<close>

definition customers_catch :: "string \<Rightarrow> customer response" where
  "customers_catch e =
     (if str_includes e ''UNIQUE'' \<or> str_includes e ''unique''
      then bad_request ''Email already exists'' ''DUPLICATE_EMAIL''
      else internal_error e)"

definition customers_POST :: "string \<Rightarrow> jobject \<Rightarrow> store \<Rightarrow> customer response \<times> store" where
  "customers_POST now body s =
     (case customers_POST_validate now body of
        Throw e \<Rightarrow> (customers_catch e, s)
      | Return r \<Rightarrow> (r, s)
      | Next insertData \<Rightarrow>
          (case customers_insert insertData s of
             Inl e \<Rightarrow> (customers_catch e, s)
           | Inr (r, s') \<Rightarrow> (Response 201 (Row r), s')))"

record customer_updateData =
  cset_name :: "string option"
  cset_email :: "string option"
  cset_phone :: "string option"
  cset_address :: "string option"
  cset_latitude :: "jsnum option option"
  cset_longitude :: "jsnum option option"

definition customers_set :: "customer_updateData \<Rightarrow> customer \<Rightarrow> customer" where
  "customers_set u r =
     r\<lparr>customer_name := set_column (cset_name u) (customer_name r),
       customer_email := set_column (cset_email u) (customer_email r),
       customer_phone := set_column (cset_phone u) (customer_phone r),
       customer_address := set_column (cset_address u) (customer_address r),
       customer_latitude := set_column (cset_latitude u) (customer_latitude r),
       customer_longitude := set_column (cset_longitude u) (customer_longitude r)\<rparr>"

text \<open>\<^verbatim>\<open>typeof v !== 'string' || v.trim() === ''\<close> is \<open>missing_text v\<close> again, since the
  empty string trims to itself.\<close>

definition cput_name :: "jobject \<Rightarrow> customer_updateData \<Rightarrow> (customer response, customer_updateData) step" where
  "cput_name body u =
     (let name = field body ''name'' in
      if name \<noteq> JUndef then
        (if missing_text name then Return (bad_request ''Name must not be empty'' ''INVALID_NAME'')
         else Next (u\<lparr>cset_name := Some (text_of name)\<rparr>))
      else Next u)"

definition cput_email :: "jobject \<Rightarrow> customer_updateData \<Rightarrow> (customer response, customer_updateData) step" where
  "cput_email body u =
     (let email = field body ''email'' in
      if email \<noteq> JUndef then
        (if missing_text email
         then Return (bad_request ''Email must not be empty'' ''INVALID_EMAIL'')
         else Next (u\<lparr>cset_email := Some (toLowerCase (text_of email))\<rparr>))
      else Next u)"

definition cput_phone :: "jobject \<Rightarrow> customer_updateData \<Rightarrow> (customer response, customer_updateData) step" where
  "cput_phone body u =
     (let phone = field body ''phone'' in
      if phone \<noteq> JUndef then
        (if missing_text phone
         then Return (bad_request ''Phone must not be empty'' ''INVALID_PHONE'')
         else Next (u\<lparr>cset_phone := Some (text_of phone)\<rparr>))
      else Next u)"

definition cput_address :: "jobject \<Rightarrow> customer_updateData \<Rightarrow> (customer response, customer_updateData) step" where
  "cput_address body u =
     (let address = field body ''address'' in
      if address \<noteq> JUndef then
        (if missing_text address
         then Return (bad_request ''Address must not be empty'' ''INVALID_ADDRESS'')
         else Next (u\<lparr>cset_address := Some (text_of address)\<rparr>))
      else Next u)"

definition cput_latitude :: "jobject \<Rightarrow> customer_updateData \<Rightarrow> (customer response, customer_updateData) step" where
  "cput_latitude body u =
     (let latitude = field body ''latitude'' in
      if latitude \<noteq> JUndef then Next (u\<lparr>cset_latitude := Some (coordinate latitude)\<rparr>)
      else Next u)"

definition cput_longitude :: "jobject \<Rightarrow> customer_updateData \<Rightarrow> (customer response, customer_updateData) step" where
  "cput_longitude body u =
     (let longitude = field body ''longitude'' in
      if longitude \<noteq> JUndef then Next (u\<lparr>cset_longitude := Some (coordinate longitude)\<rparr>)
      else Next u)"

definition customers_PUT_validate :: "jobject \<Rightarrow> (customer response, customer_updateData) step" where
  "customers_PUT_validate body =
     chain [cput_name body, cput_email body, cput_phone body, cput_address body,
            cput_latitude body, cput_longitude body]
       \<lparr>cset_name = None, cset_email = None, cset_phone = None, cset_address = None,
        cset_latitude = None, cset_longitude = None\<rparr>"

definition customer_updateData_empty :: "customer_updateData \<Rightarrow> bool" where
  "customer_updateData_empty u =
     (cset_name u = None \<and> cset_email u = None \<and> cset_phone u = None \<and>
      cset_address u = None \<and> cset_latitude u = None \<and> cset_longitude u = None)"

definition customers_write :: "int \<Rightarrow> customer_updateData \<Rightarrow> store \<Rightarrow> string + customer list \<times> store" where
  "customers_write n u s =
     (case cset_email u of
        None \<Rightarrow>
          (case db_update customer_id n (customers_set u) (customers s) of
             (updated, t) \<Rightarrow> Inr (updated, s\<lparr>customers := t\<rparr>))
      | Some e \<Rightarrow>
          if e \<in> set (map customer_email (filter (\<lambda>r. customer_id r \<noteq> n) (rows (customers s))))
          then Inl ''UNIQUE constraint failed: customers.email''
          else
            (case db_update customer_id n (customers_set u) (customers s) of
               (updated, t) \<Rightarrow> Inr (updated, s\<lparr>customers := t\<rparr>)))"

definition customers_PUT :: "params \<Rightarrow> jobject \<Rightarrow> store \<Rightarrow> customer response \<times> store" where
  "customers_PUT ps body s =
     (case parse_id (get ps ''id'') of
        None \<Rightarrow> (bad_request ''Valid ID is required'' ''INVALID_ID'', s)
      | Some n \<Rightarrow>
          (case db_select customer_id n (customers s) of
             [] \<Rightarrow> (not_found ''Customer not found'' ''NOT_FOUND'', s)
           | existing # _ \<Rightarrow>
               (case customers_PUT_validate body of
                  Throw e \<Rightarrow> (customers_catch e, s)
                | Return r \<Rightarrow> (r, s)
                | Next updateData \<Rightarrow>
                    if customer_updateData_empty updateData
                    then (Response 200 (Row existing), s)
                    else
                      (case customers_write n updateData s of
                         Inl e \<Rightarrow> (customers_catch e, s)
                       | Inr (updated, s') \<Rightarrow> (first_row 200 updated, s')))))"

definition customers_DELETE :: "params \<Rightarrow> store \<Rightarrow> customer response \<times> store" where
  "customers_DELETE ps s =
     (case parse_id (get ps ''id'') of
        None \<Rightarrow> (bad_request ''Valid ID is required'' ''INVALID_ID'', s)
      | Some n \<Rightarrow>
          (case db_select customer_id n (customers s) of
             [] \<Rightarrow> (not_found ''Customer not found'' ''NOT_FOUND'', s)
           | existing # _ \<Rightarrow>
               (case db_delete customer_id n (customers s) of
                  (deleted, t) \<Rightarrow>
                    (first_deleted ''Customer deleted successfully'' deleted,
                     s\<lparr>customers := t\<rparr>))))"

section \<open>Offers: \<^verbatim>\<open>src/app/api/offers/route.ts\<close>\<close>

text \<open>\<open>toISO v\<close> stands for \<^verbatim>\<open>new Date(v)\<close>: \<open>None\<close> when \<^verbatim>\<open>getTime()\<close> is \<^verbatim>\<open>NaN\<close>, else the
  value of \<^verbatim>\<open>toISOString()\<close>. Parsing of dates belongs to the JavaScript engine and is a
  parameter of the handlers. Timestamps are compared as the text columns they are.\<close>

type_synonym date_parser = "jv \<Rightarrow> string option"

definition offers_query :: "string \<Rightarrow> params \<Rightarrow> store \<Rightarrow> offer list" where
  "offers_query now ps s =
     (let search = get ps ''search''; activeFilter = get ps ''active'';
          conditions = (\<lambda>r.
             opt_cond search (\<lambda>t. contains t (offer_title r) \<or>
                (case offer_description r of None \<Rightarrow> False | Some d \<Rightarrow> contains t d)) \<and>
             (activeFilter = Some ''true'' \<longrightarrow> offer_validFrom r \<le> now \<and> now \<le> offer_validUntil r))
      in filter conditions (rows (offers s)))"

definition offers_GET :: "string \<Rightarrow> params \<Rightarrow> store \<Rightarrow> offer response" where
  "offers_GET now ps s =
     (let id = get ps ''id'' in
      if present id then
        (case parse_id id of
           None \<Rightarrow> bad_request ''Valid ID is required'' ''INVALID_ID''
         | Some n \<Rightarrow>
             (case db_select offer_id n (offers s) of
                [] \<Rightarrow> Response 404 (Err ''Offer not found'' None)
              | r # _ \<Rightarrow> Response 200 (Row r)))
      else list_response ps (offers_query now ps s))"

text \<open>\<^verbatim>\<open>isNaN(discount) || discount < 0 || discount > 100\<close>.\<close>

definition bad_percent :: "jsnum \<Rightarrow> bool" where
  "bad_percent d = (d = NaN \<or> js_lt d (Fin 0) \<or> js_lt (Fin 100) d)"

definition offers_POST_validate ::
  "string \<Rightarrow> date_parser \<Rightarrow> jobject \<Rightarrow> (offer response, int \<Rightarrow> offer) step" where
  "offers_POST_validate now toISO body =
     (let title = field body ''title''; description = field body ''description'';
          discountPercent = field body ''discountPercent'';
          validFrom = field body ''validFrom''; validUntil = field body ''validUntil''
      in
      bind (blank ''title'' title) (\<lambda>b1.
      if b1 then Return (bad_request ''Title is required and cannot be empty''
                           ''MISSING_REQUIRED_FIELD'')
      else if discountPercent = JUndef \<or> discountPercent = JNull
        then Return (bad_request ''Discount percent is required'' ''MISSING_REQUIRED_FIELD'')
      else if \<not> truthy validFrom
        then Return (bad_request ''Valid from date is required'' ''MISSING_REQUIRED_FIELD'')
      else if \<not> truthy validUntil
        then Return (bad_request ''Valid until date is required'' ''MISSING_REQUIRED_FIELD'')
      else if bad_percent (parseFloat_jv discountPercent)
        then Return (bad_request ''Discount percent must be a number between 0 and 100''
                       ''INVALID_DISCOUNT_PERCENT'')
      else
        (case toISO validFrom of
           None \<Rightarrow> Return (bad_request ''Valid from must be a valid ISO timestamp''
                             ''INVALID_DATE_FORMAT'')
         | Some vf \<Rightarrow>
             (case toISO validUntil of
                None \<Rightarrow> Return (bad_request ''Valid until must be a valid ISO timestamp''
                                  ''INVALID_DATE_FORMAT'')
              | Some vu \<Rightarrow>
                  bind (trimmed ''title'' title) (\<lambda>t.
                  bind (optional_text ''description'' description) (\<lambda>d.
                    Next (\<lambda>i. \<lparr>offer_id = i,
                                offer_title = t,
                                offer_description = d,
                                offer_discountPercent = parseFloat_jv discountPercent,
                                offer_validFrom = vf,
                                offer_validUntil = vu,
                                offer_createdAt = now\<rparr>)))))))"

definition offers_POST ::
  "string \<Rightarrow> date_parser \<Rightarrow> jobject \<Rightarrow> store \<Rightarrow> offer response \<times> store" where
  "offers_POST now toISO body s =
     (case offers_POST_validate now toISO body of
        Throw e \<Rightarrow> (internal_error e, s)
      | Return r \<Rightarrow> (r, s)
      | Next insertData \<Rightarrow>
          (case db_insert insertData (offers s) of
             (r, t) \<Rightarrow> (Response 201 (Row r), s\<lparr>offers := t\<rparr>)))"

record offer_updateData =
  fset_title :: "string option"
  fset_description :: "string option option"
  fset_discountPercent :: "jsnum option"
  fset_validFrom :: "string option"
  fset_validUntil :: "string option"

definition offers_set :: "offer_updateData \<Rightarrow> offer \<Rightarrow> offer" where
  "offers_set u r =
     r\<lparr>offer_title := set_column (fset_title u) (offer_title r),
       offer_description := set_column (fset_description u) (offer_description r),
       offer_discountPercent := set_column (fset_discountPercent u) (offer_discountPercent r),
       offer_validFrom := set_column (fset_validFrom u) (offer_validFrom r),
       offer_validUntil := set_column (fset_validUntil u) (offer_validUntil r)\<rparr>"

definition fput_title :: "jobject \<Rightarrow> offer_updateData \<Rightarrow> (offer response, offer_updateData) step" where
  "fput_title body u =
     (let title = field body ''title'' in
      if title \<noteq> JUndef then
        bind (trimmed ''title'' title) (\<lambda>t.
          if t = [] then Return (bad_request ''Title cannot be empty'' ''INVALID_TITLE'')
          else Next (u\<lparr>fset_title := Some t\<rparr>))
      else Next u)"

definition fput_description :: "jobject \<Rightarrow> offer_updateData \<Rightarrow> (offer response, offer_updateData) step" where
  "fput_description body u =
     (let description = field body ''description'' in
      if description \<noteq> JUndef then
        bind (optional_text ''description'' description)
          (\<lambda>d. Next (u\<lparr>fset_description := Some d\<rparr>))
      else Next u)"

definition fput_discountPercent :: "jobject \<Rightarrow> offer_updateData \<Rightarrow> (offer response, offer_updateData) step" where
  "fput_discountPercent body u =
     (let discountPercent = field body ''discountPercent'' in
      if discountPercent \<noteq> JUndef then
        (if bad_percent (parseFloat_jv discountPercent)
         then Return (bad_request ''Discount percent must be a number between 0 and 100''
                        ''INVALID_DISCOUNT_PERCENT'')
         else Next (u\<lparr>fset_discountPercent := Some (parseFloat_jv discountPercent)\<rparr>))
      else Next u)"

definition fput_validFrom ::
  "date_parser \<Rightarrow> jobject \<Rightarrow> offer_updateData \<Rightarrow> (offer response, offer_updateData) step" where
  "fput_validFrom toISO body u =
     (let validFrom = field body ''validFrom'' in
      if validFrom \<noteq> JUndef then
        (case toISO validFrom of
           None \<Rightarrow> Return (bad_request ''Valid from must be a valid ISO timestamp''
                             ''INVALID_DATE_FORMAT'')
         | Some vf \<Rightarrow> Next (u\<lparr>fset_validFrom := Some vf\<rparr>))
      else Next u)"

definition fput_validUntil ::
  "date_parser \<Rightarrow> jobject \<Rightarrow> offer_updateData \<Rightarrow> (offer response, offer_updateData) step" where
  "fput_validUntil toISO body u =
     (let validUntil = field body ''validUntil'' in
      if validUntil \<noteq> JUndef then
        (case toISO validUntil of
           None \<Rightarrow> Return (bad_request ''Valid until must be a valid ISO timestamp''
                             ''INVALID_DATE_FORMAT'')
         | Some vu \<Rightarrow> Next (u\<lparr>fset_validUntil := Some vu\<rparr>))
      else Next u)"

definition offers_PUT_validate ::
  "date_parser \<Rightarrow> jobject \<Rightarrow> (offer response, offer_updateData) step" where
  "offers_PUT_validate toISO body =
     chain [fput_title body, fput_description body, fput_discountPercent body,
            fput_validFrom toISO body, fput_validUntil toISO body]
       \<lparr>fset_title = None, fset_description = None, fset_discountPercent = None,
        fset_validFrom = None, fset_validUntil = None\<rparr>"

definition offer_updateData_empty :: "offer_updateData \<Rightarrow> bool" where
  "offer_updateData_empty u =
     (fset_title u = None \<and> fset_description u = None \<and> fset_discountPercent u = None \<and>
      fset_validFrom u = None \<and> fset_validUntil u = None)"

definition offers_PUT ::
  "date_parser \<Rightarrow> params \<Rightarrow> jobject \<Rightarrow> store \<Rightarrow> offer response \<times> store" where
  "offers_PUT toISO ps body s =
     (case parse_id (get ps ''id'') of
        None \<Rightarrow> (bad_request ''Valid ID is required'' ''INVALID_ID'', s)
      | Some n \<Rightarrow>
          (case db_select offer_id n (offers s) of
             [] \<Rightarrow> (Response 404 (Err ''Offer not found'' None), s)
           | existing # _ \<Rightarrow>
               (case offers_PUT_validate toISO body of
                  Throw e \<Rightarrow> (internal_error e, s)
                | Return r \<Rightarrow> (r, s)
                | Next updateData \<Rightarrow>
                    (case update_rows (offer_updateData_empty updateData) offer_id n
                            (offers_set updateData) (offers s) of
                       Inl e \<Rightarrow> (internal_error e, s)
                     | Inr (updated, t) \<Rightarrow> (first_row 200 updated, s\<lparr>offers := t\<rparr>)))))"

definition offers_DELETE :: "params \<Rightarrow> store \<Rightarrow> offer response \<times> store" where
  "offers_DELETE ps s =
     (case parse_id (get ps ''id'') of
        None \<Rightarrow> (bad_request ''Valid ID is required'' ''INVALID_ID'', s)
      | Some n \<Rightarrow>
          (case db_select offer_id n (offers s) of
             [] \<Rightarrow> (Response 404 (Err ''Offer not found'' None), s)
           | existing # _ \<Rightarrow>
               (case db_delete offer_id n (offers s) of
                  (deleted, t) \<Rightarrow>
                    (first_deleted ''Offer deleted successfully'' deleted, s\<lparr>offers := t\<rparr>))))"

section \<open>Shops: \<^verbatim>\<open>src/app/api/shops/route.ts\<close>\<close>

definition shops_query :: "params \<Rightarrow> store \<Rightarrow> shop list" where
  "shops_query ps s =
     (let search = get ps ''search'' in
      filter (\<lambda>r. opt_cond search (\<lambda>t. contains t (shop_name r) \<or>
                       contains t (shop_address r) \<or> contains t (shop_email r)))
        (rows (shops s)))"

definition shops_GET :: "params \<Rightarrow> store \<Rightarrow> shop response" where
  "shops_GET ps s =
     (let id = get ps ''id'' in
      if present id then
        (case parse_id id of
           None \<Rightarrow> bad_request ''Valid ID is required'' ''INVALID_ID''
         | Some n \<Rightarrow>
             (case db_select shop_id n (shops s) of
                [] \<Rightarrow> not_found ''Shop not found'' ''SHOP_NOT_FOUND''
              | r # _ \<Rightarrow> Response 200 (Row r)))
      else list_response ps (shops_query ps s))"

text \<open>\<^verbatim>\<open>!v || !v.trim()\<close> is \<open>blank\<close>: the trimmed string is falsy exactly when empty.\<close>

definition shops_POST_validate :: "string \<Rightarrow> jobject \<Rightarrow> (shop response, int \<Rightarrow> shop) step" where
  "shops_POST_validate now body =
     (let name = field body ''name''; address = field body ''address'';
          contact = field body ''contact''; email = field body ''email''
      in
      bind (blank ''name'' name) (\<lambda>b1.
      if b1 then Return (bad_request ''Name is required and cannot be empty'' ''MISSING_NAME'')
      else
      bind (blank ''address'' address) (\<lambda>b2.
      if b2 then Return (bad_request ''Address is required and cannot be empty''
                           ''MISSING_ADDRESS'')
      else
      bind (blank ''contact'' contact) (\<lambda>b3.
      if b3 then Return (bad_request ''Contact is required and cannot be empty''
                           ''MISSING_CONTACT'')
      else
      bind (blank ''email'' email) (\<lambda>b4.
      if b4 then Return (bad_request ''Email is required and cannot be empty'' ''MISSING_EMAIL'')
      else
      bind (trimmed ''name'' name) (\<lambda>sanitizedName.
      bind (trimmed ''address'' address) (\<lambda>sanitizedAddress.
      bind (trimmed ''contact'' contact) (\<lambda>sanitizedContact.
      bind (trimmed ''email'' email) (\<lambda>trimmedEmail.
        Next (\<lambda>i. \<lparr>shop_id = i,
                    shop_name = sanitizedName,
                    shop_address = sanitizedAddress,
                    shop_contact = sanitizedContact,
                    shop_email = toLowerCase trimmedEmail,
                    shop_createdAt = now\<rparr>))))))))))"

definition shops_POST :: "string \<Rightarrow> jobject \<Rightarrow> store \<Rightarrow> shop response \<times> store" where
  "shops_POST now body s =
     (case shops_POST_validate now body of
        Throw e \<Rightarrow> (internal_error e, s)
      | Return r \<Rightarrow> (r, s)
      | Next insertData \<Rightarrow>
          (case db_insert insertData (shops s) of
             (r, t) \<Rightarrow> (Response 201 (Row r), s\<lparr>shops := t\<rparr>)))"

record shop_updateData =
  sset_name :: "string option"
  sset_address :: "string option"
  sset_contact :: "string option"
  sset_email :: "string option"

definition shops_set :: "shop_updateData \<Rightarrow> shop \<Rightarrow> shop" where
  "shops_set u r =
     r\<lparr>shop_name := set_column (sset_name u) (shop_name r),
       shop_address := set_column (sset_address u) (shop_address r),
       shop_contact := set_column (sset_contact u) (shop_contact r),
       shop_email := set_column (sset_email u) (shop_email r)\<rparr>"

definition sput_name :: "jobject \<Rightarrow> shop_updateData \<Rightarrow> (shop response, shop_updateData) step" where
  "sput_name body u =
     (let name = field body ''name'' in
      if name \<noteq> JUndef then
        bind (trimmed ''name'' name) (\<lambda>trimmedName.
          if trimmedName = [] then Return (bad_request ''Name cannot be empty'' ''INVALID_NAME'')
          else Next (u\<lparr>sset_name := Some trimmedName\<rparr>))
      else Next u)"

definition sput_address :: "jobject \<Rightarrow> shop_updateData \<Rightarrow> (shop response, shop_updateData) step" where
  "sput_address body u =
     (let address = field body ''address'' in
      if address \<noteq> JUndef then
        bind (trimmed ''address'' address) (\<lambda>trimmedAddress.
          if trimmedAddress = []
          then Return (bad_request ''Address cannot be empty'' ''INVALID_ADDRESS'')
          else Next (u\<lparr>sset_address := Some trimmedAddress\<rparr>))
      else Next u)"

definition sput_contact :: "jobject \<Rightarrow> shop_updateData \<Rightarrow> (shop response, shop_updateData) step" where
  "sput_contact body u =
     (let contact = field body ''contact'' in
      if contact \<noteq> JUndef then
        bind (trimmed ''contact'' contact) (\<lambda>trimmedContact.
          if trimmedContact = []
          then Return (bad_request ''Contact cannot be empty'' ''INVALID_CONTACT'')
          else Next (u\<lparr>sset_contact := Some trimmedContact\<rparr>))
      else Next u)"

definition sput_email :: "jobject \<Rightarrow> shop_updateData \<Rightarrow> (shop response, shop_updateData) step" where
  "sput_email body u =
     (let email = field body ''email'' in
      if email \<noteq> JUndef then
        bind (trimmed ''email'' email) (\<lambda>trimmedEmail.
          if trimmedEmail = [] then Return (bad_request ''Email cannot be empty'' ''INVALID_EMAIL'')
          else Next (u\<lparr>sset_email := Some (toLowerCase trimmedEmail)\<rparr>))
      else Next u)"

definition shops_PUT_validate :: "jobject \<Rightarrow> (shop response, shop_updateData) step" where
  "shops_PUT_validate body =
     chain [sput_name body, sput_address body, sput_contact body, sput_email body]
       \<lparr>sset_name = None, sset_address = None, sset_contact = None, sset_email = None\<rparr>"

definition shop_updateData_empty :: "shop_updateData \<Rightarrow> bool" where
  "shop_updateData_empty u =
     (sset_name u = None \<and> sset_address u = None \<and> sset_contact u = None \<and> sset_email u = None)"

definition shops_PUT :: "params \<Rightarrow> jobject \<Rightarrow> store \<Rightarrow> shop response \<times> store" where
  "shops_PUT ps body s =
     (case parse_id (get ps ''id'') of
        None \<Rightarrow> (bad_request ''Valid ID is required'' ''INVALID_ID'', s)
      | Some n \<Rightarrow>
          (case db_select shop_id n (shops s) of
             [] \<Rightarrow> (not_found ''Shop not found'' ''SHOP_NOT_FOUND'', s)
           | existing # _ \<Rightarrow>
               (case shops_PUT_validate body of
                  Throw e \<Rightarrow> (internal_error e, s)
                | Return r \<Rightarrow> (r, s)
                | Next updateData \<Rightarrow>
                    (case update_rows (shop_updateData_empty updateData) shop_id n
                            (shops_set updateData) (shops s) of
                       Inl e \<Rightarrow> (internal_error e, s)
                     | Inr (updated, t) \<Rightarrow> (first_row 200 updated, s\<lparr>shops := t\<rparr>)))))"

definition shops_DELETE :: "params \<Rightarrow> store \<Rightarrow> shop response \<times> store" where
  "shops_DELETE ps s =
     (case parse_id (get ps ''id'') of
        None \<Rightarrow> (bad_request ''Valid ID is required'' ''INVALID_ID'', s)
      | Some n \<Rightarrow>
          (case db_select shop_id n (shops s) of
             [] \<Rightarrow> (not_found ''Shop not found'' ''SHOP_NOT_FOUND'', s)
           | existing # _ \<Rightarrow>
               (case db_delete shop_id n (shops s) of
                  (deleted, t) \<Rightarrow>
                    (first_deleted ''Shop deleted successfully'' deleted, s\<lparr>shops := t\<rparr>))))"


section \<open>Menu items: \<^verbatim>\<open>src/app/api/menu-items/route.ts\<close>\<close>

definition menuItems_query :: "params \<Rightarrow> store \<Rightarrow> menuItem list" where
  "menuItems_query ps s =
     (let search = get ps ''search''; category = get ps ''category'';
          availability = get ps ''availability'';
          conditions = (\<lambda>r.
             opt_cond search (\<lambda>t. contains t (menuItem_name r) \<or>
                contains t (menuItem_category r) \<or>
                (case menuItem_description r of None \<Rightarrow> False | Some d \<Rightarrow> contains t d)) \<and>
             opt_cond category (\<lambda>t. menuItem_category r = t) \<and>
             (case availability of
                None \<Rightarrow> True
              | Some a \<Rightarrow> menuItem_availability r = (a = ''true'' \<or> a = ''1'')))
      in filter conditions (rows (menuItems s)))"

definition menuItems_GET :: "params \<Rightarrow> store \<Rightarrow> menuItem response" where
  "menuItems_GET ps s =
     (let id = get ps ''id'' in
      if present id then
        (case parse_id id of
           None \<Rightarrow> bad_request ''Valid ID is required'' ''INVALID_ID''
         | Some n \<Rightarrow>
             (case db_select menuItem_id n (menuItems s) of
                [] \<Rightarrow> not_found ''Menu item not found'' ''NOT_FOUND''
              | r # _ \<Rightarrow> Response 200 (Row r)))
      else list_response ps (menuItems_query ps s))"

text \<open>\<^verbatim>\<open>typeof price === 'string' ? parseFloat(price) : price\<close>, and the test
  \<^verbatim>\<open>isNaN(parsedPrice) || parsedPrice <= 0\<close> on it.\<close>

definition parsedPrice :: "jv \<Rightarrow> jv" where
  "parsedPrice price = (case price of JStr t \<Rightarrow> JNum (parseFloat t) | _ \<Rightarrow> price)"

definition bad_price :: "jv \<Rightarrow> bool" where
  "bad_price p = (toNumber p = NaN \<or> js_le (toNumber p) (Fin 0))"

definition menuItems_POST_validate :: "string \<Rightarrow> jobject \<Rightarrow> (menuItem response, int \<Rightarrow> menuItem) step" where
  "menuItems_POST_validate now body =
     (let name = field body ''name''; category = field body ''category'';
          price = field body ''price''; availability = field body ''availability'';
          description = field body ''description''; imageUrl = field body ''imageUrl''
      in
      if missing_text name
        then Return (bad_request ''Name is required and must not be empty'' ''MISSING_NAME'')
      else if missing_text category
        then Return (bad_request ''Category is required and must not be empty''
                       ''MISSING_CATEGORY'')
      else if price = JUndef \<or> price = JNull
        then Return (bad_request ''Price is required'' ''MISSING_PRICE'')
      else if bad_price (parsedPrice price)
        then Return (bad_request ''Price must be a positive number'' ''INVALID_PRICE'')
      else
        bind (optional_text ''description'' description) (\<lambda>d.
        bind (optional_text ''imageUrl'' imageUrl) (\<lambda>img.
          Next (\<lambda>i. \<lparr>menuItem_id = i,
                      menuItem_name = text_of name,
                      menuItem_category = text_of category,
                      menuItem_price = parsedPrice price,
                      menuItem_availability =
                        (if availability \<noteq> JUndef then truthy availability else True),
                      menuItem_description = d,
                      menuItem_imageUrl = img,
                      menuItem_createdAt = now\<rparr>))))"

definition menuItems_POST :: "string \<Rightarrow> jobject \<Rightarrow> store \<Rightarrow> menuItem response \<times> store" where
  "menuItems_POST now body s =
     (case menuItems_POST_validate now body of
        Throw e \<Rightarrow> (internal_error e, s)
      | Return r \<Rightarrow> (r, s)
      | Next insertData \<Rightarrow>
          (case db_insert insertData (menuItems s) of
             (r, t) \<Rightarrow> (Response 201 (Row r), s\<lparr>menuItems := t\<rparr>)))"

record menuItem_updateData =
  mset_name :: "string option"
  mset_category :: "string option"
  mset_price :: "jv option"
  mset_availability :: "bool option"
  mset_description :: "string option option"
  mset_imageUrl :: "string option option"

definition menuItems_set :: "menuItem_updateData \<Rightarrow> menuItem \<Rightarrow> menuItem" where
  "menuItems_set u r =
     r\<lparr>menuItem_name := set_column (mset_name u) (menuItem_name r),
       menuItem_category := set_column (mset_category u) (menuItem_category r),
       menuItem_price := set_column (mset_price u) (menuItem_price r),
       menuItem_availability := set_column (mset_availability u) (menuItem_availability r),
       menuItem_description := set_column (mset_description u) (menuItem_description r),
       menuItem_imageUrl := set_column (mset_imageUrl u) (menuItem_imageUrl r)\<rparr>"

definition mput_name :: "jobject \<Rightarrow> menuItem_updateData \<Rightarrow> (menuItem response, menuItem_updateData) step" where
  "mput_name body u =
     (let name = field body ''name'' in
      if name \<noteq> JUndef then
        (if missing_text name then Return (bad_request ''Name must not be empty'' ''INVALID_NAME'')
         else Next (u\<lparr>mset_name := Some (text_of name)\<rparr>))
      else Next u)"

definition mput_category :: "jobject \<Rightarrow> menuItem_updateData \<Rightarrow> (menuItem response, menuItem_updateData) step" where
  "mput_category body u =
     (let category = field body ''category'' in
      if category \<noteq> JUndef then
        (if missing_text category
         then Return (bad_request ''Category must not be empty'' ''INVALID_CATEGORY'')
         else Next (u\<lparr>mset_category := Some (text_of category)\<rparr>))
      else Next u)"

definition mput_price :: "jobject \<Rightarrow> menuItem_updateData \<Rightarrow> (menuItem response, menuItem_updateData) step" where
  "mput_price body u =
     (let price = field body ''price'' in
      if price \<noteq> JUndef then
        (if bad_price (parsedPrice price)
         then Return (bad_request ''Price must be a positive number'' ''INVALID_PRICE'')
         else Next (u\<lparr>mset_price := Some (parsedPrice price)\<rparr>))
      else Next u)"

definition mput_availability :: "jobject \<Rightarrow> menuItem_updateData \<Rightarrow> (menuItem response, menuItem_updateData) step" where
  "mput_availability body u =
     (let availability = field body ''availability'' in
      if availability \<noteq> JUndef then Next (u\<lparr>mset_availability := Some (truthy availability)\<rparr>)
      else Next u)"

definition mput_description :: "jobject \<Rightarrow> menuItem_updateData \<Rightarrow> (menuItem response, menuItem_updateData) step" where
  "mput_description body u =
     (let description = field body ''description'' in
      if description \<noteq> JUndef then
        bind (optional_text ''description'' description)
          (\<lambda>d. Next (u\<lparr>mset_description := Some d\<rparr>))
      else Next u)"

definition mput_imageUrl :: "jobject \<Rightarrow> menuItem_updateData \<Rightarrow> (menuItem response, menuItem_updateData) step" where
  "mput_imageUrl body u =
     (let imageUrl = field body ''imageUrl'' in
      if imageUrl \<noteq> JUndef then
        bind (optional_text ''imageUrl'' imageUrl) (\<lambda>d. Next (u\<lparr>mset_imageUrl := Some d\<rparr>))
      else Next u)"

definition menuItems_PUT_validate :: "jobject \<Rightarrow> (menuItem response, menuItem_updateData) step" where
  "menuItems_PUT_validate body =
     chain [mput_name body, mput_category body, mput_price body, mput_availability body,
            mput_description body, mput_imageUrl body]
       \<lparr>mset_name = None, mset_category = None, mset_price = None, mset_availability = None,
        mset_description = None, mset_imageUrl = None\<rparr>"

definition menuItem_updateData_empty :: "menuItem_updateData \<Rightarrow> bool" where
  "menuItem_updateData_empty u =
     (mset_name u = None \<and> mset_category u = None \<and> mset_price u = None \<and>
      mset_availability u = None \<and> mset_description u = None \<and> mset_imageUrl u = None)"

definition menuItems_PUT :: "params \<Rightarrow> jobject \<Rightarrow> store \<Rightarrow> menuItem response \<times> store" where
  "menuItems_PUT ps body s =
     (case parse_id (get ps ''id'') of
        None \<Rightarrow> (bad_request ''Valid ID is required'' ''INVALID_ID'', s)
      | Some n \<Rightarrow>
          (case db_select menuItem_id n (menuItems s) of
             [] \<Rightarrow> (not_found ''Menu item not found'' ''NOT_FOUND'', s)
           | existing # _ \<Rightarrow>
               (case menuItems_PUT_validate body of
                  Throw e \<Rightarrow> (internal_error e, s)
                | Return r \<Rightarrow> (r, s)
                | Next updateData \<Rightarrow>
                    (case update_rows (menuItem_updateData_empty updateData) menuItem_id n
                            (menuItems_set updateData) (menuItems s) of
                       Inl e \<Rightarrow> (internal_error e, s)
                     | Inr (updated, t) \<Rightarrow> (first_row 200 updated, s\<lparr>menuItems := t\<rparr>)))))"

definition menuItems_DELETE :: "params \<Rightarrow> store \<Rightarrow> menuItem response \<times> store" where
  "menuItems_DELETE ps s =
     (case parse_id (get ps ''id'') of
        None \<Rightarrow> (bad_request ''Valid ID is required'' ''INVALID_ID'', s)
      | Some n \<Rightarrow>
          (case db_select menuItem_id n (menuItems s) of
             [] \<Rightarrow> (not_found ''Menu item not found'' ''NOT_FOUND'', s)
           | existing # _ \<Rightarrow>
               (case db_delete menuItem_id n (menuItems s) of
                  (deleted, t) \<Rightarrow>
                    (first_deleted ''Menu item deleted successfully'' deleted,
                     s\<lparr>menuItems := t\<rparr>))))"

section \<open>Order items: \<^verbatim>\<open>src/app/api/order-items/route.ts\<close>\<close>

definition orderItems_query :: "params \<Rightarrow> store \<Rightarrow> orderItem list" where
  "orderItems_query ps s =
     (let orderIdParam = get ps ''orderId''; menuItemIdParam = get ps ''menuItemId'';
          conditions = (\<lambda>r.
             opt_cond orderIdParam (\<lambda>t. case parseInt t of None \<Rightarrow> True
                | Some n \<Rightarrow> orderItem_orderId r = Some (Fin (of_int n))) \<and>
             opt_cond menuItemIdParam (\<lambda>t. case parseInt t of None \<Rightarrow> True
                | Some n \<Rightarrow> orderItem_menuItemId r = Some (Fin (of_int n))))
      in filter conditions (rows (orderItems s)))"

definition orderItems_GET :: "params \<Rightarrow> store \<Rightarrow> orderItem response" where
  "orderItems_GET ps s =
     (let id = get ps ''id'' in
      if present id then
        (case parse_id id of
           None \<Rightarrow> bad_request ''Valid ID is required'' ''INVALID_ID''
         | Some n \<Rightarrow>
             (case db_select orderItem_id n (orderItems s) of
                [] \<Rightarrow> not_found ''Order item not found'' ''NOT_FOUND''
              | r # _ \<Rightarrow> Response 200 (Row r)))
      else list_response ps (orderItems_query ps s))"

text \<open>\<^verbatim>\<open>!Number.isInteger(v) || v <= 0\<close>.\<close>

definition not_positive_integer :: "jv \<Rightarrow> bool" where
  "not_positive_integer v = (\<not> isInteger v \<or> js_le (toNumber v) (Fin 0))"

text \<open>The four checks shared by \<^verbatim>\<open>POST\<close> and \<^verbatim>\<open>PUT\<close>, each skipped when the member is
  \<^verbatim>\<open>undefined\<close> or \<^verbatim>\<open>null\<close>.\<close>

definition supplied :: "jv \<Rightarrow> bool" where
  "supplied v = (v \<noteq> JUndef \<and> v \<noteq> JNull)"

definition orderItems_checks :: "jobject \<Rightarrow> orderItem response option" where
  "orderItems_checks body =
     (let orderId = field body ''orderId''; menuItemId = field body ''menuItemId'';
          quantity = field body ''quantity''; price = field body ''price''
      in
      if supplied quantity \<and> not_positive_integer quantity
        then Some (bad_request ''Quantity must be a positive integer'' ''INVALID_QUANTITY'')
      else if supplied price \<and> (\<not> is_number price \<or> js_le (toNumber price) (Fin 0))
        then Some (bad_request ''Price must be a positive number'' ''INVALID_PRICE'')
      else if supplied orderId \<and> not_positive_integer orderId
        then Some (bad_request ''Order ID must be a positive integer'' ''INVALID_ORDER_ID'')
      else if supplied menuItemId \<and> not_positive_integer menuItemId
        then Some (bad_request ''Menu item ID must be a positive integer''
                     ''INVALID_MENU_ITEM_ID'')
      else None)"

definition orderItems_POST_validate :: "string \<Rightarrow> jobject \<Rightarrow> (orderItem response, int \<Rightarrow> orderItem) step" where
  "orderItems_POST_validate now body =
     (let orderId = field body ''orderId''; menuItemId = field body ''menuItemId'';
          quantity = field body ''quantity''; price = field body ''price''
      in
      if \<not> supplied quantity
        then Return (bad_request ''Quantity is required'' ''MISSING_QUANTITY'')
      else if \<not> supplied price
        then Return (bad_request ''Price is required'' ''MISSING_PRICE'')
      else
        (case orderItems_checks body of
           Some r \<Rightarrow> Return r
         | None \<Rightarrow>
             Next (\<lambda>i. \<lparr>orderItem_id = i,
                         orderItem_orderId = nullable_num orderId,
                         orderItem_menuItemId = nullable_num menuItemId,
                         orderItem_quantity = toNumber quantity,
                         orderItem_price = toNumber price,
                         orderItem_createdAt = now\<rparr>)))"

definition orderItems_POST :: "string \<Rightarrow> jobject \<Rightarrow> store \<Rightarrow> orderItem response \<times> store" where
  "orderItems_POST now body s =
     (case orderItems_POST_validate now body of
        Throw e \<Rightarrow> (internal_error e, s)
      | Return r \<Rightarrow> (r, s)
      | Next insertData \<Rightarrow>
          (case db_insert insertData (orderItems s) of
             (r, t) \<Rightarrow> (Response 201 (Row r), s\<lparr>orderItems := t\<rparr>)))"

record orderItem_updateData =
  iset_orderId :: "jsnum option option"
  iset_menuItemId :: "jsnum option option"
  iset_quantity :: "jsnum option"
  iset_price :: "jsnum option"

definition orderItems_set :: "orderItem_updateData \<Rightarrow> orderItem \<Rightarrow> orderItem" where
  "orderItems_set u r =
     r\<lparr>orderItem_orderId := set_column (iset_orderId u) (orderItem_orderId r),
       orderItem_menuItemId := set_column (iset_menuItemId u) (orderItem_menuItemId r),
       orderItem_quantity := set_column (iset_quantity u) (orderItem_quantity r),
       orderItem_price := set_column (iset_price u) (orderItem_price r)\<rparr>"

definition orderItems_PUT_validate :: "jobject \<Rightarrow> (orderItem response, orderItem_updateData) step" where
  "orderItems_PUT_validate body =
     (let orderId = field body ''orderId''; menuItemId = field body ''menuItemId'';
          quantity = field body ''quantity''; price = field body ''price''
      in
      case orderItems_checks body of
        Some r \<Rightarrow> Return r
      | None \<Rightarrow>
          Next \<lparr>iset_orderId = (if orderId \<noteq> JUndef then Some (nullable_num orderId) else None),
                iset_menuItemId =
                  (if menuItemId \<noteq> JUndef then Some (nullable_num menuItemId) else None),
                iset_quantity = (if supplied quantity then Some (toNumber quantity) else None),
                iset_price = (if supplied price then Some (toNumber price) else None)\<rparr>)"

definition orderItem_updateData_empty :: "orderItem_updateData \<Rightarrow> bool" where
  "orderItem_updateData_empty u =
     (iset_orderId u = None \<and> iset_menuItemId u = None \<and> iset_quantity u = None \<and>
      iset_price u = None)"

definition orderItems_PUT :: "params \<Rightarrow> jobject \<Rightarrow> store \<Rightarrow> orderItem response \<times> store" where
  "orderItems_PUT ps body s =
     (case parse_id (get ps ''id'') of
        None \<Rightarrow> (bad_request ''Valid ID is required'' ''INVALID_ID'', s)
      | Some n \<Rightarrow>
          (case db_select orderItem_id n (orderItems s) of
             [] \<Rightarrow> (not_found ''Order item not found'' ''NOT_FOUND'', s)
           | existing # _ \<Rightarrow>
               (case orderItems_PUT_validate body of
                  Throw e \<Rightarrow> (internal_error e, s)
                | Return r \<Rightarrow> (r, s)
                | Next updateData \<Rightarrow>
                    (case update_rows (orderItem_updateData_empty updateData) orderItem_id n
                            (orderItems_set updateData) (orderItems s) of
                       Inl e \<Rightarrow> (internal_error e, s)
                     | Inr (updated, t) \<Rightarrow> (first_row 200 updated, s\<lparr>orderItems := t\<rparr>)))))"

definition orderItems_DELETE :: "params \<Rightarrow> store \<Rightarrow> orderItem response \<times> store" where
  "orderItems_DELETE ps s =
     (case parse_id (get ps ''id'') of
        None \<Rightarrow> (bad_request ''Valid ID is required'' ''INVALID_ID'', s)
      | Some n \<Rightarrow>
          (case db_select orderItem_id n (orderItems s) of
             [] \<Rightarrow> (not_found ''Order item not found'' ''NOT_FOUND'', s)
           | existing # _ \<Rightarrow>
               (case db_delete orderItem_id n (orderItems s) of
                  (deleted, t) \<Rightarrow>
                    (first_deleted ''Order item deleted successfully'' deleted,
                     s\<lparr>orderItems := t\<rparr>))))"

section \<open>Receipts: \<^verbatim>\<open>src/app/api/receipts/route.ts\<close>\<close>

definition receipts_query :: "params \<Rightarrow> store \<Rightarrow> receipt list" where
  "receipts_query ps s =
     (let orderId = get ps ''orderId'' in
      filter (\<lambda>r. opt_cond orderId (\<lambda>t. case parseInt t of None \<Rightarrow> True
                       | Some n \<Rightarrow> receipt_orderId r = Some n))
        (rows (receipts s)))"

definition receipts_GET :: "params \<Rightarrow> store \<Rightarrow> receipt response" where
  "receipts_GET ps s =
     (let id = get ps ''id'' in
      if present id then
        (case parse_id id of
           None \<Rightarrow> bad_request ''Valid ID is required'' ''INVALID_ID''
         | Some n \<Rightarrow>
             (case db_select receipt_id n (receipts s) of
                [] \<Rightarrow> not_found ''Receipt not found'' ''RECEIPT_NOT_FOUND''
              | r # _ \<Rightarrow> Response 200 (Row r)))
      else list_response ps (receipts_query ps s))"

definition receipts_POST_validate :: "string \<Rightarrow> jobject \<Rightarrow> (receipt response, int \<Rightarrow> receipt) step" where
  "receipts_POST_validate now body =
     (let receiptData = field body ''receiptData''; orderId = field body ''orderId'' in
      if \<not> truthy receiptData
        then Return (bad_request ''Receipt data is required'' ''MISSING_RECEIPT_DATA'')
      else
        bind (trimmed ''receiptData'' receiptData) (\<lambda>trimmedReceiptData.
          if length trimmedReceiptData = 0
          then Return (bad_request ''Receipt data must not be empty'' ''EMPTY_RECEIPT_DATA'')
          else
            Next (\<lambda>i. \<lparr>receipt_id = i,
                        receipt_orderId = (if supplied orderId then parseInt_jv orderId else None),
                        receipt_receiptData = trimmedReceiptData,
                        receipt_createdAt = now\<rparr>)))"

definition receipts_POST :: "string \<Rightarrow> jobject \<Rightarrow> store \<Rightarrow> receipt response \<times> store" where
  "receipts_POST now body s =
     (case receipts_POST_validate now body of
        Throw e \<Rightarrow> (internal_error e, s)
      | Return r \<Rightarrow> (r, s)
      | Next insertData \<Rightarrow>
          (case db_insert insertData (receipts s) of
             (r, t) \<Rightarrow> (Response 201 (Row r), s\<lparr>receipts := t\<rparr>)))"

record receipt_updateData =
  rset_receiptData :: "string option"
  rset_orderId :: "int option option"

definition receipts_set :: "receipt_updateData \<Rightarrow> receipt \<Rightarrow> receipt" where
  "receipts_set u r =
     r\<lparr>receipt_receiptData := set_column (rset_receiptData u) (receipt_receiptData r),
       receipt_orderId := set_column (rset_orderId u) (receipt_orderId r)\<rparr>"

definition rput_receiptData :: "jobject \<Rightarrow> receipt_updateData \<Rightarrow> (receipt response, receipt_updateData) step" where
  "rput_receiptData body u =
     (let receiptData = field body ''receiptData'' in
      if receiptData \<noteq> JUndef then
        bind (trimmed ''receiptData'' receiptData) (\<lambda>trimmedReceiptData.
          if length trimmedReceiptData = 0
          then Return (bad_request ''Receipt data must not be empty'' ''EMPTY_RECEIPT_DATA'')
          else Next (u\<lparr>rset_receiptData := Some trimmedReceiptData\<rparr>))
      else Next u)"

definition rput_orderId :: "jobject \<Rightarrow> receipt_updateData \<Rightarrow> (receipt response, receipt_updateData) step" where
  "rput_orderId body u =
     (let orderId = field body ''orderId'' in
      if orderId \<noteq> JUndef then
        (if orderId = JNull then Next (u\<lparr>rset_orderId := Some None\<rparr>)
         else (case parseInt_jv orderId of
                 None \<Rightarrow> Next u
               | Some orderIdInt \<Rightarrow> Next (u\<lparr>rset_orderId := Some (Some orderIdInt)\<rparr>)))
      else Next u)"

definition receipts_PUT_validate :: "jobject \<Rightarrow> (receipt response, receipt_updateData) step" where
  "receipts_PUT_validate body =
     chain [rput_receiptData body, rput_orderId body]
       \<lparr>rset_receiptData = None, rset_orderId = None\<rparr>"

definition receipt_updateData_empty :: "receipt_updateData \<Rightarrow> bool" where
  "receipt_updateData_empty u = (rset_receiptData u = None \<and> rset_orderId u = None)"

definition receipts_PUT :: "params \<Rightarrow> jobject \<Rightarrow> store \<Rightarrow> receipt response \<times> store" where
  "receipts_PUT ps body s =
     (case parse_id (get ps ''id'') of
        None \<Rightarrow> (bad_request ''Valid ID is required'' ''INVALID_ID'', s)
      | Some n \<Rightarrow>
          (case db_select receipt_id n (receipts s) of
             [] \<Rightarrow> (not_found ''Receipt not found'' ''RECEIPT_NOT_FOUND'', s)
           | existing # _ \<Rightarrow>
               (case receipts_PUT_validate body of
                  Throw e \<Rightarrow> (internal_error e, s)
                | Return r \<Rightarrow> (r, s)
                | Next updateData \<Rightarrow>
                    (case update_rows (receipt_updateData_empty updateData) receipt_id n
                            (receipts_set updateData) (receipts s) of
                       Inl e \<Rightarrow> (internal_error e, s)
                     | Inr (updated, t) \<Rightarrow> (first_row 200 updated, s\<lparr>receipts := t\<rparr>)))))"

definition receipts_DELETE :: "params \<Rightarrow> store \<Rightarrow> receipt response \<times> store" where
  "receipts_DELETE ps s =
     (case parse_id (get ps ''id'') of
        None \<Rightarrow> (bad_request ''Valid ID is required'' ''INVALID_ID'', s)
      | Some n \<Rightarrow>
          (case db_select receipt_id n (receipts s) of
             [] \<Rightarrow> (not_found ''Receipt not found'' ''RECEIPT_NOT_FOUND'', s)
           | existing # _ \<Rightarrow>
               (case db_delete receipt_id n (receipts s) of
                  (deleted, t) \<Rightarrow>
                    (first_deleted ''Receipt deleted successfully'' deleted,
                     s\<lparr>receipts := t\<rparr>))))"


section \<open>Checkout: \<^verbatim>\<open>handleCheckout\<close> of the checkout page\<close>

text \<open>
  The page keeps the cart, the logged-in customer, the chosen modes and the guest form in
  component state; the cart is mirrored under the key \<^verbatim>\<open>cart\<close> of \<^verbatim>\<open>localStorage\<close>. Prices
  and quantities of cart lines are finite numbers.
\<close>

record cartItem =
  cartItem_id :: int
  cartItem_name :: string
  cartItem_price :: rat
  cartItem_quantity :: rat

datatype toast = Toast_success string | Toast_error string

record page =
  cart :: "cartItem list"
  customer :: "int option"
  deliveryMode :: string
  paymentMode :: string
  guestName :: string
  guestPhone :: string
  isProcessing :: bool
  localStorage_cart :: "cartItem list option"
  toasts :: "toast list"
  pushed :: "string option"

text \<open>What one run of the handler reads from outside the page: the clock and the random
  numbers behind the token number and the transaction id, the rendering of the estimated
  ready time, the clock of the server at each request, and which calls of \<^verbatim>\<open>fetch\<close> reject
  (a rejected call does not reach the server). \<open>customer\<close> above is \<^verbatim>\<open>customer?.id\<close>.\<close>

record run =
  token_now :: nat
  token_random :: nat
  txn_now :: nat
  txn_random :: nat
  estimatedReadyTime :: string
  server_now :: string
  order_fetch_rejects :: bool
  item_fetch_rejects :: "nat \<Rightarrow> bool"
  payment_fetch_rejects :: bool

text \<open>\<^verbatim>\<open>cart.reduce((sum, item) => sum + item.price * item.quantity, 0)\<close>.\<close>

definition subtotal :: "cartItem list \<Rightarrow> rat" where
  "subtotal c = foldl (\<lambda>sum item. sum + cartItem_price item * cartItem_quantity item) 0 c"

definition discount :: rat where
  "discount = 0"

definition finalAmount :: "cartItem list \<Rightarrow> rat" where
  "finalAmount c = subtotal c - discount"

text \<open>\<^verbatim>\<open>s.slice(-6)\<close> and \<^verbatim>\<open>s.padStart(3, "0")\<close>.\<close>

definition slice_last6 :: "string \<Rightarrow> string" where
  "slice_last6 t = drop (length t - 6) t"

definition padStart3 :: "string \<Rightarrow> string" where
  "padStart3 t = replicate (3 - length t) CHR ''0'' @ t"

definition generateTokenNumber :: "run \<Rightarrow> string" where
  "generateTokenNumber e =
     ''TKN'' @ slice_last6 (show_nat (token_now e)) @ padStart3 (show_nat (token_random e))"

definition transactionId :: "run \<Rightarrow> string" where
  "transactionId e = ''TXN'' @ show_nat (txn_now e) @ show_nat (txn_random e)"

text \<open>The bodies of the three kinds of request, as \<^verbatim>\<open>JSON.stringify\<close> sends them.\<close>

definition order_body :: "run \<Rightarrow> page \<Rightarrow> jobject" where
  "order_body e p =
     [(''customerId'', case customer p of None \<Rightarrow> JUndef | Some i \<Rightarrow> JNum (Fin (of_int i))),
      (''tokenNumber'', JStr (generateTokenNumber e)),
      (''subtotal'', JNum (Fin (subtotal (cart p)))),
      (''discount'', JNum (Fin discount)),
      (''finalAmount'', JNum (Fin (finalAmount (cart p)))),
      (''status'', JStr ''Order Received''),
      (''deliveryMode'', JStr (deliveryMode p)),
      (''paymentStatus'', JStr (if paymentMode p = ''Cash'' then ''Pending'' else ''Paid'')),
      (''estimatedReadyTime'', JStr (estimatedReadyTime e))]"

definition item_body :: "int \<Rightarrow> cartItem \<Rightarrow> jobject" where
  "item_body orderId item =
     [(''orderId'', JNum (Fin (of_int orderId))),
      (''menuItemId'', JNum (Fin (of_int (cartItem_id item)))),
      (''quantity'', JNum (Fin (cartItem_quantity item))),
      (''price'', JNum (Fin (cartItem_price item)))]"

definition payment_body :: "run \<Rightarrow> page \<Rightarrow> int \<Rightarrow> jobject" where
  "payment_body e p orderId =
     [(''orderId'', JNum (Fin (of_int orderId))),
      (''transactionId'', JStr (transactionId e)),
      (''paymentMode'', JStr (paymentMode p)),
      (''amountPaid'', JNum (Fin (finalAmount (cart p)))),
      (''paymentStatus'', JStr (if paymentMode p = ''Cash'' then ''Pending'' else ''Completed''))]"

text \<open>\<^verbatim>\<open>response.ok\<close>.\<close>

definition ok :: "'r response \<Rightarrow> bool" where
  "ok r = (200 \<le> resp_status r \<and> resp_status r \<le> 299)"

text \<open>The requests of \<^verbatim>\<open>cart.map((item) => fetch("/api/order-items", ...))\<close>, served in the
  order of the cart; the result tells whether some call rejected, which is when
  \<^verbatim>\<open>Promise.all\<close> rejects. The responses themselves are never looked at.\<close>

fun post_items :: "run \<Rightarrow> int \<Rightarrow> nat \<Rightarrow> cartItem list \<Rightarrow> store \<Rightarrow> bool \<times> store" where
  "post_items e orderId k [] s = (False, s)"
| "post_items e orderId k (item # rest) s =
     (if item_fetch_rejects e k then
        (case post_items e orderId (Suc k) rest s of (rej, s') \<Rightarrow> (True, s'))
      else
        (case orderItems_POST (server_now e) (item_body orderId item) s of
           (r, s1) \<Rightarrow> post_items e orderId (Suc k) rest s1))"

text \<open>The \<^verbatim>\<open>catch\<close> and \<^verbatim>\<open>finally\<close> blocks.\<close>

definition checkout_failed :: "page \<Rightarrow> page" where
  "checkout_failed p =
     p\<lparr>toasts := toasts p @ [Toast_error ''Failed to place order. Please try again.''],
       isProcessing := False\<rparr>"

definition checkout_done :: "run \<Rightarrow> int \<Rightarrow> page \<Rightarrow> page" where
  "checkout_done e orderId p =
     p\<lparr>localStorage_cart := None,
       toasts := toasts p @ [Toast_success (''Order placed! Token: '' @ generateTokenNumber e)],
       pushed := Some (''/order-status/'' @ show_nat (nat orderId)),
       isProcessing := False\<rparr>"

definition handleCheckout :: "run \<Rightarrow> page \<Rightarrow> store \<Rightarrow> page \<times> store" where
  "handleCheckout e p s =
     (if length (cart p) = 0 then (p\<lparr>toasts := toasts p @ [Toast_error ''Your cart is empty'']\<rparr>, s)
      else if customer p = None \<and> (guestName p = [] \<or> guestPhone p = [])
        then (p\<lparr>toasts := toasts p @ [Toast_error ''Please enter your name and phone number'']\<rparr>, s)
      else if order_fetch_rejects e then (checkout_failed p, s)
      else
        (case orders_POST (server_now e) (order_body e p) s of
           (orderResponse, s1) \<Rightarrow>
             if \<not> ok orderResponse then (checkout_failed p, s1)
             else
               (case resp_body orderResponse of
                  Row order \<Rightarrow>
                    (case post_items e (order_id order) 0 (cart p) s1 of
                       (rejected, s2) \<Rightarrow>
                         if rejected then (checkout_failed p, s2)
                         else if payment_fetch_rejects e then (checkout_failed p, s2)
                         else
                           (case payments_POST (server_now e)
                                   (payment_body e p (order_id order)) s2 of
                              (paymentResponse, s3) \<Rightarrow>
                                (checkout_done e (order_id order) p, s3)))
                | _ \<Rightarrow> (checkout_failed p, s1))))"


section \<open>The API as a whole\<close>

text \<open>
  A request names a route and a method and carries the query parameters and the body
  that the handler reads. What a client observes of a response is its status and, when
  the body is an error object, the message and the code. \<open>api\<close> is the routing of the
  framework: each request runs the handler of its route file.
\<close>

datatype request =
    Shops_GET params | Shops_POST jobject | Shops_PUT params jobject | Shops_DELETE params
  | Customers_GET params | Customers_POST jobject | Customers_PUT params jobject | Customers_DELETE params
  | MenuItems_GET params | MenuItems_POST jobject | MenuItems_PUT params jobject | MenuItems_DELETE params
  | Offers_GET params | Offers_POST jobject | Offers_PUT params jobject | Offers_DELETE params
  | Orders_GET params | Orders_POST jobject | Orders_PUT params jobject | Orders_DELETE params
  | OrderItems_GET params | OrderItems_POST jobject | OrderItems_PUT params jobject | OrderItems_DELETE params
  | Payments_GET params | Payments_POST jobject | Payments_PUT params jobject | Payments_DELETE params
  | Receipts_GET params | Receipts_POST jobject | Receipts_PUT params jobject | Receipts_DELETE params

datatype answer = Answer (answer_status: nat) (answer_error: "(string \<times> string option) option")

definition summary :: "'r response \<Rightarrow> answer" where
  "summary r = Answer (resp_status r) (case resp_body r of Err m c \<Rightarrow> Some (m, c) | _ \<Rightarrow> None)"

definition answered :: "'r response \<times> store \<Rightarrow> answer \<times> store" where
  "answered rs = (summary (fst rs), snd rs)"

fun api :: "string \<Rightarrow> date_parser \<Rightarrow> request \<Rightarrow> store \<Rightarrow> answer \<times> store" where
  "api now toISO (Shops_GET ps) s = (summary (shops_GET ps s), s)"
| "api now toISO (Shops_POST body) s = answered (shops_POST now body s)"
| "api now toISO (Shops_PUT ps body) s = answered (shops_PUT ps body s)"
| "api now toISO (Shops_DELETE ps) s = answered (shops_DELETE ps s)"
| "api now toISO (Customers_GET ps) s = (summary (customers_GET ps s), s)"
| "api now toISO (Customers_POST body) s = answered (customers_POST now body s)"
| "api now toISO (Customers_PUT ps body) s = answered (customers_PUT ps body s)"
| "api now toISO (Customers_DELETE ps) s = answered (customers_DELETE ps s)"
| "api now toISO (MenuItems_GET ps) s = (summary (menuItems_GET ps s), s)"
| "api now toISO (MenuItems_POST body) s = answered (menuItems_POST now body s)"
| "api now toISO (MenuItems_PUT ps body) s = answered (menuItems_PUT ps body s)"
| "api now toISO (MenuItems_DELETE ps) s = answered (menuItems_DELETE ps s)"
| "api now toISO (Offers_GET ps) s = (summary (offers_GET now ps s), s)"
| "api now toISO (Offers_POST body) s = answered (offers_POST now toISO body s)"
| "api now toISO (Offers_PUT ps body) s = answered (offers_PUT toISO ps body s)"
| "api now toISO (Offers_DELETE ps) s = answered (offers_DELETE ps s)"
| "api now toISO (Orders_GET ps) s = (summary (orders_GET ps s), s)"
| "api now toISO (Orders_POST body) s = answered (orders_POST now body s)"
| "api now toISO (Orders_PUT ps body) s = answered (orders_PUT now ps body s)"
| "api now toISO (Orders_DELETE ps) s = answered (orders_DELETE ps s)"
| "api now toISO (OrderItems_GET ps) s = (summary (orderItems_GET ps s), s)"
| "api now toISO (OrderItems_POST body) s = answered (orderItems_POST now body s)"
| "api now toISO (OrderItems_PUT ps body) s = answered (orderItems_PUT ps body s)"
| "api now toISO (OrderItems_DELETE ps) s = answered (orderItems_DELETE ps s)"
| "api now toISO (Payments_GET ps) s = (summary (payments_GET ps s), s)"
| "api now toISO (Payments_POST body) s = answered (payments_POST now body s)"
| "api now toISO (Payments_PUT ps body) s = answered (payments_PUT ps body s)"
| "api now toISO (Payments_DELETE ps) s = answered (payments_DELETE ps s)"
| "api now toISO (Receipts_GET ps) s = (summary (receipts_GET ps s), s)"
| "api now toISO (Receipts_POST body) s = answered (receipts_POST now body s)"
| "api now toISO (Receipts_PUT ps body) s = answered (receipts_PUT ps body s)"
| "api now toISO (Receipts_DELETE ps) s = answered (receipts_DELETE ps s)"


section \<open>Sample data\<close>

definition empty_table :: "'r table" where
  "empty_table = \<lparr>rows = [], seq = 0\<rparr>"

definition empty_store :: store where
  "empty_store =
     \<lparr>shops = empty_table, customers = empty_table, menuItems = empty_table,
      offers = empty_table, orders = empty_table, orderItems = empty_table,
      payments = empty_table, receipts = empty_table\<rparr>"

definition sample_customer :: customer where
  "sample_customer =
     \<lparr>customer_id = 1, customer_name = ''Asha'', customer_email = ''asha@example.com'',
      customer_phone = ''5550100'', customer_address = ''12 Hill Road'',
      customer_latitude = None, customer_longitude = None,
      customer_createdAt = ''2025-01-01T09:00:00.000Z''\<rparr>"

definition sample_order :: order where
  "sample_order =
     \<lparr>order_id = 1, order_customerId = Some (Fin 1), order_tokenNumber = ''TKN123456007'',
      order_subtotal = Fin 100, order_discount = Fin 0, order_finalAmount = Fin 100,
      order_status = JStr ''Order Received'', order_deliveryMode = ''Pickup'',
      order_paymentStatus = JStr ''Pending'',
      order_estimatedReadyTime = JStr ''2025-01-01T10:30:00.000Z'',
      order_createdAt = ''2025-01-01T10:00:00.000Z'',
      order_updatedAt = ''2025-01-01T10:00:00.000Z''\<rparr>"

definition sample_payment :: payment where
  "sample_payment =
     \<lparr>payment_id = 1, payment_orderId = Some (Fin 1),
      payment_transactionId = ''TXN17357256000007'', payment_paymentMode = ''Cash'',
      payment_amountPaid = Fin 100, payment_paymentStatus = ''Pending'',
      payment_createdAt = ''2025-01-01T10:00:01.000Z''\<rparr>"

definition sample_toISO :: date_parser where
  "sample_toISO v =
     (if v = JStr ''2025-01-01'' then Some ''2025-01-01T00:00:00.000Z''
      else if v = JStr ''2025-12-31'' then Some ''2025-12-31T00:00:00.000Z''
      else None)"


definition sample_now :: string where
  "sample_now = ''2025-01-02T08:00:00.000Z''"

definition sample_menuItem :: menuItem where
  "sample_menuItem =
     \<lparr>menuItem_id = 1, menuItem_name = ''Burger'', menuItem_category = ''Mains'',
      menuItem_price = JNum (Fin 100), menuItem_availability = True,
      menuItem_description = None, menuItem_imageUrl = None,
      menuItem_createdAt = ''2025-01-01T08:00:00.000Z''\<rparr>"

definition sample_offer :: offer where
  "sample_offer =
     \<lparr>offer_id = 1, offer_title = ''New year'', offer_description = None,
      offer_discountPercent = Fin 10, offer_validFrom = ''2025-01-01T00:00:00.000Z'',
      offer_validUntil = ''2025-12-31T00:00:00.000Z'',
      offer_createdAt = ''2025-01-01T08:00:00.000Z''\<rparr>"

definition sample_orderItem :: orderItem where
  "sample_orderItem =
     \<lparr>orderItem_id = 1, orderItem_orderId = Some (Fin 1), orderItem_menuItemId = Some (Fin 1),
      orderItem_quantity = Fin 1, orderItem_price = Fin 100,
      orderItem_createdAt = ''2025-01-01T10:00:00.500Z''\<rparr>"

definition sample_store :: store where
  "sample_store =
     empty_store
       \<lparr>customers := \<lparr>rows = [sample_customer], seq = 1\<rparr>,
        menuItems := \<lparr>rows = [sample_menuItem], seq = 1\<rparr>,
        offers := \<lparr>rows = [sample_offer], seq = 1\<rparr>,
        orders := \<lparr>rows = [sample_order], seq = 1\<rparr>,
        orderItems := \<lparr>rows = [sample_orderItem], seq = 1\<rparr>,
        payments := \<lparr>rows = [sample_payment], seq = 1\<rparr>\<rparr>"

definition duplicate_customer :: jobject where
  "duplicate_customer =
     [(''name'', JStr ''Asha R''), (''email'', JStr '' Asha@Example.COM ''),
      (''phone'', JStr ''5550111''), (''address'', JStr ''4 Lake View'')]"

definition duplicate_order :: jobject where
  "duplicate_order =
     [(''tokenNumber'', JStr ''TKN123456007''), (''subtotal'', JNum (Fin 250)),
      (''finalAmount'', JNum (Fin 250)), (''deliveryMode'', JStr ''Pickup'')]"

definition duplicate_payment :: jobject where
  "duplicate_payment =
     [(''transactionId'', JStr ''TXN17357256000007''), (''paymentMode'', JStr ''Card''),
      (''amountPaid'', JNum (Fin 250)), (''paymentStatus'', JStr ''Completed'')]"

section \<open>Predicates used in the statements\<close>

text \<open>What validation leaves in \<^verbatim>\<open>updateData\<close> of the orders \<^verbatim>\<open>PUT\<close> handler: the fresh
  \<^verbatim>\<open>updatedAt\<close>, and no key for a member the body does not supply.\<close>

definition untouched :: "string \<Rightarrow> jobject \<Rightarrow> order_updateData \<Rightarrow> bool" where
  "untouched now body u =
     (set_updatedAt u = now \<and>
      (field body ''customerId'' = JUndef \<longrightarrow> set_customerId u = None) \<and>
      (field body ''status'' = JUndef \<longrightarrow> set_status u = None) \<and>
      (field body ''deliveryMode'' = JUndef \<longrightarrow> set_deliveryMode u = None) \<and>
      (field body ''paymentStatus'' = JUndef \<longrightarrow> set_paymentStatus u = None) \<and>
      (field body ''estimatedReadyTime'' = JUndef \<longrightarrow> set_estimatedReadyTime u = None) \<and>
      (field body ''discount'' = JUndef \<longrightarrow> set_discount u = None) \<and>
      (field body ''finalAmount'' = JUndef \<longrightarrow> set_finalAmount u = None))"

text \<open>A validation step that leaves the handler does so with a 400 response carrying a
  code.\<close>

definition rejects_400 :: "('r response, 'a) step \<Rightarrow> bool" where
  "rejects_400 m = (\<forall>r. m = Return r \<longrightarrow> (\<exists>msg code. r = bad_request msg code))"

text \<open>The shape of an answer: a success without error object, a 400 with a code, a 404
  that has a code whenever \<open>coded\<close> holds, a 500 with the message alone.\<close>

definition shaped :: "bool \<Rightarrow> answer \<Rightarrow> bool" where
  "shaped coded a =
     (((answer_status a = 200 \<or> answer_status a = 201) \<and> answer_error a = None) \<or>
      (answer_status a = 400 \<and> (\<exists>m c. answer_error a = Some (m, Some c))) \<or>
      (answer_status a = 404 \<and> (\<exists>m c. answer_error a = Some (m, c) \<and> (coded \<longrightarrow> c \<noteq> None))) \<or>
      (answer_status a = 500 \<and> (\<exists>m. answer_error a = Some (m, None))))"

text \<open>The members of a body named by \<open>ks\<close> are strings wherever they are supplied.\<close>

definition texts :: "string list \<Rightarrow> jobject \<Rightarrow> bool" where
  "texts ks body = (\<forall>k\<in>set ks. field body k = JUndef \<or> is_string (field body k))"

text \<open>The uniqueness constraints of the schema: customer email, order token number and
  payment transaction id. Every email the customers handlers write is trimmed and in lower
  case, and the primary key of the customers table is unique and never above the counter
  of the table.\<close>

definition unique_keys :: "store \<Rightarrow> bool" where
  "unique_keys s =
     (distinct (map customer_email (rows (customers s))) \<and>
      distinct (map order_tokenNumber (rows (orders s))) \<and>
      distinct (map payment_transactionId (rows (payments s))))"

definition emails_normalised :: "store \<Rightarrow> bool" where
  "emails_normalised s =
     (\<forall>c\<in>set (rows (customers s)). toLowerCase (trim (customer_email c)) = customer_email c)"

definition customer_ids :: "store \<Rightarrow> bool" where
  "customer_ids s =
     (distinct (map customer_id (rows (customers s))) \<and>
      (\<forall>c\<in>set (rows (customers s)). customer_id c \<le> seq (customers s)))"

definition store_invariant :: "store \<Rightarrow> bool" where
  "store_invariant s = (unique_keys s \<and> emails_normalised s \<and> customer_ids s)"

section \<open>Properties of the handlers\<close>

subsection \<open>Auxiliary facts\<close>

lemma db_select_Nil: "db_select key n t = [] \<longleftrightarrow> (\<forall>r\<in>set (rows t). key r \<noteq> n)"
  by (simp add: db_select_def filter_empty_conv)

lemma db_select_Cons:
  assumes "db_select key n t = x # xs"
  shows "xs = []" and "x \<in> set (rows t)" and "key x = n"
    and "\<exists>ys. filter (\<lambda>r. key r = n) (rows t) = x # ys"
proof -
  obtain ys where f: "filter (\<lambda>r. key r = n) (rows t) = x # ys" and "xs = []"
    using assms by (cases "filter (\<lambda>r. key r = n) (rows t)") (auto simp: db_select_def)
  then show "xs = []" by simp
  from f have "x \<in> set (filter (\<lambda>r. key r = n) (rows t))" by simp
  then show "x \<in> set (rows t)" and "key x = n" by auto
  from f show "\<exists>ys. filter (\<lambda>r. key r = n) (rows t) = x # ys" by blast
qed

lemma db_select_exists:
  assumes "\<exists>r\<in>set (rows t). key r = n"
  obtains x where "db_select key n t = [x]" and "x \<in> set (rows t)" and "key x = n"
proof -
  from assms have "db_select key n t \<noteq> []" by (simp add: db_select_Nil)
  then obtain x xs where e: "db_select key n t = x # xs" by (cases "db_select key n t") auto
  from db_select_Cons[OF e] e have "db_select key n t = [x]" "x \<in> set (rows t)" "key x = n"
    by simp_all
  then show ?thesis by (rule that)
qed

lemma chain_invariant:
  assumes "\<forall>f\<in>set fs. \<forall>u u'. P u \<longrightarrow> f u = Next u' \<longrightarrow> P u'"
    and "P u" and "chain fs u = Next u'"
  shows "P u'"
  using assms
proof (induction fs arbitrary: u)
  case Nil
  from Nil(3) have "u' = u" by simp
  with Nil(2) show ?case by blast
next
  case (Cons f fs)
  from Cons.prems(3) obtain v where v: "f u = Next v" and rest: "chain fs v = Next u'"
    by (cases "f u") (simp_all add: bind_def)
  have "f \<in> set (f # fs)" by simp
  with Cons.prems(1) have "\<forall>u u'. P u \<longrightarrow> f u = Next u' \<longrightarrow> P u'" by (rule bspec)
  with Cons.prems(2) v have pv: "P v" by blast
  have all: "\<forall>g\<in>set fs. \<forall>u u'. P u \<longrightarrow> g u = Next u' \<longrightarrow> P u'"
  proof
    fix g assume "g \<in> set fs"
    then have "g \<in> set (f # fs)" by simp
    with Cons.prems(1) show "\<forall>u u'. P u \<longrightarrow> g u = Next u' \<longrightarrow> P u'" by (rule bspec)
  qed
  show ?case by (rule Cons.IH[OF all pv rest])
qed

lemma blank_JStr: "blank name (JStr s) = Next (trim s = [])"
  by (auto simp: blank_def bind_def trimmed_def trim_def)

lemma payments_PUT_no_fields:
  assumes "parse_id (get ps ''id'') = Some n"
    and "\<exists>r\<in>set (rows (payments s)). payment_id r = n"
    and "field body ''orderId'' = JUndef"
    and "field body ''paymentMode'' = JUndef \<or> field body ''paymentMode'' = JNull"
    and "field body ''paymentStatus'' = JUndef \<or> field body ''paymentStatus'' = JNull"
  shows "payments_PUT ps body s = (bad_request ''No valid fields to update'' ''NO_UPDATE_FIELDS'', s)"
proof -
  obtain x where x: "db_select payment_id n (payments s) = [x]"
    using assms(2) by (rule db_select_exists)
  have v: "payments_PUT_validate body =
      Next \<lparr>pset_orderId = None, pset_paymentMode = None, pset_paymentStatus = None\<rparr>"
    using assms(3-5)
    by (auto simp: payments_PUT_validate_def bind_def pput_orderId_def pput_paymentMode_def
        pput_paymentStatus_def)
  show ?thesis
    by (simp add: payments_PUT_def assms(1) x v payment_updateData_empty_def)
qed

lemma customers_PUT_no_fields:
  assumes "parse_id (get ps ''id'') = Some n"
    and "\<exists>r\<in>set (rows (customers s)). customer_id r = n"
    and "field body ''name'' = JUndef" and "field body ''email'' = JUndef"
    and "field body ''phone'' = JUndef" and "field body ''address'' = JUndef"
    and "field body ''latitude'' = JUndef" and "field body ''longitude'' = JUndef"
  shows "\<exists>r\<in>set (rows (customers s)). customer_id r = n \<and>
           customers_PUT ps body s = (Response 200 (Row r), s)"
proof -
  obtain x where x: "db_select customer_id n (customers s) = [x]"
    and m: "x \<in> set (rows (customers s))" "customer_id x = n"
    using assms(2) by (rule db_select_exists)
  have v: "customers_PUT_validate body =
      Next \<lparr>cset_name = None, cset_email = None, cset_phone = None, cset_address = None,
        cset_latitude = None, cset_longitude = None\<rparr>"
    using assms(3-8)
    by (simp add: customers_PUT_validate_def bind_def cput_name_def cput_email_def
        cput_phone_def cput_address_def cput_latitude_def cput_longitude_def)
  have "customers_PUT ps body s = (Response 200 (Row x), s)"
    by (simp add: customers_PUT_def assms(1) x v customer_updateData_empty_def)
  with m show ?thesis by blast
qed

lemma list_response_page:
  "page_limit ps = Some m \<Longrightarrow> page_offset ps = Some off \<Longrightarrow> 0 \<le> m \<Longrightarrow>
   list_response ps xs = Response 200 (Rows (take (nat m) (drop (nat off) xs)))"
  by (simp add: list_response_def db_page_def)









lemma orders_set_keeps:
  "order_id (orders_set u r) = order_id r"
  "order_tokenNumber (orders_set u r) = order_tokenNumber r"
  "order_subtotal (orders_set u r) = order_subtotal r"
  "order_createdAt (orders_set u r) = order_createdAt r"
  "order_updatedAt (orders_set u r) = set_updatedAt u"
  by (simp_all add: orders_set_def)

lemma text_step_Next:
  assumes "bind (blank name v) (\<lambda>b. if b then Return r else bind (trimmed name v) (\<lambda>t. Next (f t))) = Next u'"
  shows "\<exists>t. u' = f t"
  using assms by (auto simp: bind_def blank_def trimmed_def split: if_splits step.splits option.splits)

lemma put_customerId_shape:
  "put_customerId body u = Next u' \<Longrightarrow>
   (field body ''customerId'' = JUndef \<and> u' = u) \<or>
   (field body ''customerId'' \<noteq> JUndef \<and> (\<exists>x. u' = u\<lparr>set_customerId := Some x\<rparr>))"
  by (cases "field body ''customerId'' = JUndef") (auto simp: put_customerId_def Let_def split: if_splits)

lemma untouched_customerId:
  "untouched now body u \<Longrightarrow> put_customerId body u = Next u' \<Longrightarrow> untouched now body u'"
  by (drule put_customerId_shape) (elim disjE conjE exE, simp_all add: untouched_def)

lemma put_status_shape:
  "put_status body u = Next u' \<Longrightarrow>
   (field body ''status'' = JUndef \<and> u' = u) \<or>
   (field body ''status'' \<noteq> JUndef \<and> (\<exists>x. u' = u\<lparr>set_status := Some x\<rparr>))"
  by (cases "field body ''status'' = JUndef") (auto simp: put_status_def Let_def dest!: text_step_Next)

lemma untouched_status:
  "untouched now body u \<Longrightarrow> put_status body u = Next u' \<Longrightarrow> untouched now body u'"
  by (drule put_status_shape) (elim disjE conjE exE, simp_all add: untouched_def)

lemma put_deliveryMode_shape:
  "put_deliveryMode body u = Next u' \<Longrightarrow>
   (field body ''deliveryMode'' = JUndef \<and> u' = u) \<or>
   (field body ''deliveryMode'' \<noteq> JUndef \<and> (\<exists>x. u' = u\<lparr>set_deliveryMode := Some x\<rparr>))"
  by (cases "field body ''deliveryMode'' = JUndef") (auto simp: put_deliveryMode_def Let_def dest!: text_step_Next)

lemma untouched_deliveryMode:
  "untouched now body u \<Longrightarrow> put_deliveryMode body u = Next u' \<Longrightarrow> untouched now body u'"
  by (drule put_deliveryMode_shape) (elim disjE conjE exE, simp_all add: untouched_def)

lemma put_paymentStatus_shape:
  "put_paymentStatus body u = Next u' \<Longrightarrow>
   (field body ''paymentStatus'' = JUndef \<and> u' = u) \<or>
   (field body ''paymentStatus'' \<noteq> JUndef \<and> (\<exists>x. u' = u\<lparr>set_paymentStatus := Some x\<rparr>))"
  by (cases "field body ''paymentStatus'' = JUndef") (auto simp: put_paymentStatus_def Let_def dest!: text_step_Next)

lemma untouched_paymentStatus:
  "untouched now body u \<Longrightarrow> put_paymentStatus body u = Next u' \<Longrightarrow> untouched now body u'"
  by (drule put_paymentStatus_shape) (elim disjE conjE exE, simp_all add: untouched_def)

lemma put_estimatedReadyTime_shape:
  "put_estimatedReadyTime body u = Next u' \<Longrightarrow>
   (field body ''estimatedReadyTime'' = JUndef \<and> u' = u) \<or>
   (field body ''estimatedReadyTime'' \<noteq> JUndef \<and> (\<exists>x. u' = u\<lparr>set_estimatedReadyTime := Some x\<rparr>))"
  by (cases "field body ''estimatedReadyTime'' = JUndef") (auto simp: put_estimatedReadyTime_def Let_def )

lemma untouched_estimatedReadyTime:
  "untouched now body u \<Longrightarrow> put_estimatedReadyTime body u = Next u' \<Longrightarrow> untouched now body u'"
  by (drule put_estimatedReadyTime_shape) (elim disjE conjE exE, simp_all add: untouched_def)

lemma put_discount_shape:
  "put_discount body u = Next u' \<Longrightarrow>
   (field body ''discount'' = JUndef \<and> u' = u) \<or>
   (field body ''discount'' \<noteq> JUndef \<and> (\<exists>x. u' = u\<lparr>set_discount := Some x\<rparr>))"
  by (cases "field body ''discount'' = JUndef") (auto simp: put_discount_def Let_def split: if_splits)

lemma untouched_discount:
  "untouched now body u \<Longrightarrow> put_discount body u = Next u' \<Longrightarrow> untouched now body u'"
  by (drule put_discount_shape) (elim disjE conjE exE, simp_all add: untouched_def)

lemma put_finalAmount_shape:
  "put_finalAmount body u = Next u' \<Longrightarrow>
   (field body ''finalAmount'' = JUndef \<and> u' = u) \<or>
   (field body ''finalAmount'' \<noteq> JUndef \<and> (\<exists>x. u' = u\<lparr>set_finalAmount := Some x\<rparr>))"
  by (cases "field body ''finalAmount'' = JUndef") (auto simp: put_finalAmount_def Let_def split: if_splits)

lemma untouched_finalAmount:
  "untouched now body u \<Longrightarrow> put_finalAmount body u = Next u' \<Longrightarrow> untouched now body u'"
  by (drule put_finalAmount_shape) (elim disjE conjE exE, simp_all add: untouched_def)

lemma rej_Next: "rejects_400 (Next x)"
  by (simp add: rejects_400_def)

lemma rej_Throw: "rejects_400 (Throw e)"
  by (simp add: rejects_400_def)

lemma rej_Return: "rejects_400 (Return (bad_request m c))"
  by (auto simp: rejects_400_def)

lemma rej_bind: "rejects_400 m \<Longrightarrow> (\<And>x. rejects_400 (f x)) \<Longrightarrow> rejects_400 (bind m f)"
  by (cases m) (auto simp: rejects_400_def bind_def)

lemma rej_if: "(c \<Longrightarrow> rejects_400 a) \<Longrightarrow> (\<not> c \<Longrightarrow> rejects_400 b) \<Longrightarrow> rejects_400 (if c then a else b)"
  by simp

lemma rej_option:
  "rejects_400 a \<Longrightarrow> (\<And>y. rejects_400 (f y)) \<Longrightarrow> rejects_400 (case x of None \<Rightarrow> a | Some y \<Rightarrow> f y)"
  by (cases x) simp_all

lemma rej_trimmed: "rejects_400 (trimmed name v)"
  by (simp add: trimmed_def rej_Next rej_Throw split: option.splits)

lemma rej_blank: "rejects_400 (blank name v)"
  by (simp add: blank_def rej_Next rej_bind rej_trimmed)

lemma rej_optional_text: "rejects_400 (optional_text name v)"
  by (simp add: optional_text_def rej_Next rej_bind rej_trimmed)

lemma rej_chain: "(\<And>f u. f \<in> set fs \<Longrightarrow> rejects_400 (f u)) \<Longrightarrow> rejects_400 (chain fs u)"
proof (induction fs arbitrary: u)
  case Nil
  show ?case by (simp add: rej_Next)
next
  case (Cons f fs)
  have "rejects_400 (f u)" by (rule Cons.prems) simp
  moreover have "rejects_400 (chain fs v)" for v
    by (rule Cons.IH, rule Cons.prems) simp
  ultimately show ?case by (simp add: rej_bind)
qed

lemmas rej_rules = rej_Next rej_Throw rej_Return rej_bind rej_if rej_option rej_trimmed
  rej_blank rej_optional_text

lemma rej_orders_POST: "rejects_400 (orders_POST_validate now body)"
  unfolding orders_POST_validate_def Let_def by (intro rej_rules)

lemma rej_orders_PUT: "rejects_400 (orders_PUT_validate now body)"
  unfolding orders_PUT_validate_def
  by (rule rej_chain)
     (auto simp: put_customerId_def put_status_def put_deliveryMode_def put_paymentStatus_def
        put_estimatedReadyTime_def put_discount_def put_finalAmount_def Let_def
        intro!: rej_rules)

lemma orders_PUT_validate_untouched:
  assumes "orders_PUT_validate now body = Next u"
  shows "untouched now body u"
proof -
  let ?fs = "[put_customerId body, put_status body, put_deliveryMode body,
            put_paymentStatus body, put_estimatedReadyTime body, put_discount body,
            put_finalAmount body]"
  have "\<forall>f\<in>set ?fs. \<forall>u u'. untouched now body u \<longrightarrow> f u = Next u' \<longrightarrow> untouched now body u'"
  proof (intro ballI allI impI)
    fix f u u' assume f: "f \<in> set ?fs" and un: "untouched now body u" and nx: "f u = Next u'"
    from f consider "f = put_customerId body" | "f = put_status body" | "f = put_deliveryMode body"
      | "f = put_paymentStatus body" | "f = put_estimatedReadyTime body" | "f = put_discount body"
      | "f = put_finalAmount body"
      by (simp only: set_simps insert_iff empty_iff) blast
    then show "untouched now body u'"
    proof cases
      case 1 with un nx show ?thesis using untouched_customerId by blast
    next
      case 2 with un nx show ?thesis using untouched_status by blast
    next
      case 3 with un nx show ?thesis using untouched_deliveryMode by blast
    next
      case 4 with un nx show ?thesis using untouched_paymentStatus by blast
    next
      case 5 with un nx show ?thesis using untouched_estimatedReadyTime by blast
    next
      case 6 with un nx show ?thesis using untouched_discount by blast
    next
      case 7 with un nx show ?thesis using untouched_finalAmount by blast
    qed
  qed
  moreover have "untouched now body \<lparr>set_customerId = None, set_status = None, set_deliveryMode = None,
        set_paymentStatus = None, set_estimatedReadyTime = None, set_discount = None,
        set_finalAmount = None, set_updatedAt = now\<rparr>"
    by (simp add: untouched_def)
  ultimately show ?thesis
    using assms unfolding orders_PUT_validate_def by (rule chain_invariant)
qed

lemma orders_PUT_success:
  assumes "orders_PUT now ps body s = (Response 200 b, s')"
  obtains n x u where "parse_id (get ps ''id'') = Some n"
    and "db_select order_id n (orders s) = [x]"
    and "orders_PUT_validate now body = Next u"
    and "s' = s\<lparr>orders := (orders s)\<lparr>rows := map (\<lambda>r. if order_id r = n then orders_set u r else r) (rows (orders s))\<rparr>\<rparr>"
proof -
  from assms obtain n where n: "parse_id (get ps ''id'') = Some n"
    by (cases "parse_id (get ps ''id'')") (auto simp: orders_PUT_def bad_request_def)
  from assms n obtain x xs where x: "db_select order_id n (orders s) = x # xs"
    by (cases "db_select order_id n (orders s)") (auto simp: orders_PUT_def not_found_def)
  then have x1: "db_select order_id n (orders s) = [x]"
    using db_select_Cons(1)[OF x] by simp
  have "\<exists>u. orders_PUT_validate now body = Next u"
  proof (cases "orders_PUT_validate now body")
    case (Next u)
    then show ?thesis by blast
  next
    case (Return r)
    with rej_orders_PUT[of now body] obtain m c where "r = bad_request m c"
      by (auto simp: rejects_400_def)
    with assms n x1 Return show ?thesis
      by (simp add: orders_PUT_def bad_request_def)
  next
    case (Throw e)
    with assms n x1 show ?thesis by (simp add: orders_PUT_def internal_error_def)
  qed
  then obtain u where u: "orders_PUT_validate now body = Next u" by blast
  have "s' = s\<lparr>orders := (orders s)\<lparr>rows := map (\<lambda>r. if order_id r = n then orders_set u r else r) (rows (orders s))\<rparr>\<rparr>"
    using assms n x1 u by (simp add: orders_PUT_def db_update_def)
  with n x1 u show ?thesis by (rule that)
qed

lemma id_one: "parse_id (get [(''id'', ''1'')] ''id'') = Some 1"
  by code_simp

lemma rej_case_jv_option:
  "rejects_400 a \<Longrightarrow> (\<And>y. rejects_400 (f y)) \<Longrightarrow> rejects_400 (case x of Some y \<Rightarrow> f y | None \<Rightarrow> a)"
  by (cases x) simp_all

lemma rej_payments_POST: "rejects_400 (payments_POST_validate now body)"
  unfolding payments_POST_validate_def Let_def by (intro rej_rules)

lemma rej_customers_POST: "rejects_400 (customers_POST_validate now body)"
  unfolding customers_POST_validate_def Let_def by (intro rej_rules)
















lemma shaped_weaken: "shaped True a \<Longrightarrow> shaped c a"
  by (auto simp: shaped_def)


































lemma id_nine: "parse_id (get [(''id'', ''9'')] ''id'') = Some 9"
  by code_simp





lemma texts_Nil: "texts [] body"
  by (simp add: texts_def)




lemma rejected_statuses:
  "resp_status (bad_request m c) = 400" "resp_status (not_found m c) = 404"
  "resp_status (internal_error e) = 500"
  by (simp_all add: bad_request_def not_found_def internal_error_def)

lemma Return_400: "rejects_400 v \<Longrightarrow> v = Return r \<Longrightarrow> resp_status r = 400"
  by (auto simp: rejects_400_def rejected_statuses)

































lemma present_parse_id: "parse_id i = Some n \<Longrightarrow> present i"
  by (cases i) (auto simp: parse_id_def present_def split: if_splits)

lemma shops_missing:
  assumes "parse_id (get ps ''id'') = Some n" and "\<forall>r\<in>set (rows (shops s)). shop_id r \<noteq> n"
  shows "shops_GET ps s = Response 404 (Err ''Shop not found'' (Some ''SHOP_NOT_FOUND''))"
    and "shops_PUT ps body s = (Response 404 (Err ''Shop not found'' (Some ''SHOP_NOT_FOUND'')), s)"
    and "shops_DELETE ps s = (Response 404 (Err ''Shop not found'' (Some ''SHOP_NOT_FOUND'')), s)"
proof -
  have sel: "db_select shop_id n (shops s) = []"
    using assms(2) by (simp add: db_select_Nil)
  show "shops_GET ps s = Response 404 (Err ''Shop not found'' (Some ''SHOP_NOT_FOUND''))"
    by (simp add: shops_GET_def present_parse_id[OF assms(1)] assms(1) sel not_found_def)
  show "shops_PUT ps body s = (Response 404 (Err ''Shop not found'' (Some ''SHOP_NOT_FOUND'')), s)"
    by (simp add: shops_PUT_def assms(1) sel not_found_def)
  show "shops_DELETE ps s = (Response 404 (Err ''Shop not found'' (Some ''SHOP_NOT_FOUND'')), s)"
    by (simp add: shops_DELETE_def assms(1) sel not_found_def)
qed

lemma customers_missing:
  assumes "parse_id (get ps ''id'') = Some n" and "\<forall>r\<in>set (rows (customers s)). customer_id r \<noteq> n"
  shows "customers_GET ps s = Response 404 (Err ''Customer not found'' (Some ''NOT_FOUND''))"
    and "customers_PUT ps body s = (Response 404 (Err ''Customer not found'' (Some ''NOT_FOUND'')), s)"
    and "customers_DELETE ps s = (Response 404 (Err ''Customer not found'' (Some ''NOT_FOUND'')), s)"
proof -
  have sel: "db_select customer_id n (customers s) = []"
    using assms(2) by (simp add: db_select_Nil)
  show "customers_GET ps s = Response 404 (Err ''Customer not found'' (Some ''NOT_FOUND''))"
    by (simp add: customers_GET_def present_parse_id[OF assms(1)] assms(1) sel not_found_def)
  show "customers_PUT ps body s = (Response 404 (Err ''Customer not found'' (Some ''NOT_FOUND'')), s)"
    by (simp add: customers_PUT_def assms(1) sel not_found_def)
  show "customers_DELETE ps s = (Response 404 (Err ''Customer not found'' (Some ''NOT_FOUND'')), s)"
    by (simp add: customers_DELETE_def assms(1) sel not_found_def)
qed





lemma payments_missing:
  assumes "parse_id (get ps ''id'') = Some n" and "\<forall>r\<in>set (rows (payments s)). payment_id r \<noteq> n"
  shows "payments_GET ps s = Response 404 (Err ''Payment not found'' (Some ''PAYMENT_NOT_FOUND''))"
    and "payments_PUT ps body s = (Response 404 (Err ''Payment not found'' (Some ''PAYMENT_NOT_FOUND'')), s)"
    and "payments_DELETE ps s = (Response 404 (Err ''Payment not found'' (Some ''PAYMENT_NOT_FOUND'')), s)"
proof -
  have sel: "db_select payment_id n (payments s) = []"
    using assms(2) by (simp add: db_select_Nil)
  show "payments_GET ps s = Response 404 (Err ''Payment not found'' (Some ''PAYMENT_NOT_FOUND''))"
    by (simp add: payments_GET_def present_parse_id[OF assms(1)] assms(1) sel not_found_def)
  show "payments_PUT ps body s = (Response 404 (Err ''Payment not found'' (Some ''PAYMENT_NOT_FOUND'')), s)"
    by (simp add: payments_PUT_def assms(1) sel not_found_def)
  show "payments_DELETE ps s = (Response 404 (Err ''Payment not found'' (Some ''PAYMENT_NOT_FOUND'')), s)"
    by (simp add: payments_DELETE_def assms(1) sel not_found_def)
qed

lemma receipts_missing:
  assumes "parse_id (get ps ''id'') = Some n" and "\<forall>r\<in>set (rows (receipts s)). receipt_id r \<noteq> n"
  shows "receipts_GET ps s = Response 404 (Err ''Receipt not found'' (Some ''RECEIPT_NOT_FOUND''))"
    and "receipts_PUT ps body s = (Response 404 (Err ''Receipt not found'' (Some ''RECEIPT_NOT_FOUND'')), s)"
    and "receipts_DELETE ps s = (Response 404 (Err ''Receipt not found'' (Some ''RECEIPT_NOT_FOUND'')), s)"
proof -
  have sel: "db_select receipt_id n (receipts s) = []"
    using assms(2) by (simp add: db_select_Nil)
  show "receipts_GET ps s = Response 404 (Err ''Receipt not found'' (Some ''RECEIPT_NOT_FOUND''))"
    by (simp add: receipts_GET_def present_parse_id[OF assms(1)] assms(1) sel not_found_def)
  show "receipts_PUT ps body s = (Response 404 (Err ''Receipt not found'' (Some ''RECEIPT_NOT_FOUND'')), s)"
    by (simp add: receipts_PUT_def assms(1) sel not_found_def)
  show "receipts_DELETE ps s = (Response 404 (Err ''Receipt not found'' (Some ''RECEIPT_NOT_FOUND'')), s)"
    by (simp add: receipts_DELETE_def assms(1) sel not_found_def)
qed

lemma lower_char_cases:
  "(c \<in> set ''ABCDEFGHIJKLMNOPQRSTUVWXYZ'' \<and> lower_char c \<in> set ''abcdefghijklmnopqrstuvwxyz'') \<or>
   (c \<notin> set ''ABCDEFGHIJKLMNOPQRSTUVWXYZ'' \<and> lower_char c = c)"
proof (cases "map_of (zip ''ABCDEFGHIJKLMNOPQRSTUVWXYZ'' ''abcdefghijklmnopqrstuvwxyz'') c")
  case None
  have len: "length ''ABCDEFGHIJKLMNOPQRSTUVWXYZ'' = length ''abcdefghijklmnopqrstuvwxyz''"
    by simp
  from None have "c \<notin> set ''ABCDEFGHIJKLMNOPQRSTUVWXYZ''"
    using map_of_zip_is_None[OF len, of c] by blast
  moreover from None have "lower_char c = c" unfolding lower_char_def by simp
  ultimately show ?thesis by blast
next
  case (Some d)
  then have "(c, d) \<in> set (zip ''ABCDEFGHIJKLMNOPQRSTUVWXYZ'' ''abcdefghijklmnopqrstuvwxyz'')"
    by (rule map_of_SomeD)
  then have "c \<in> set ''ABCDEFGHIJKLMNOPQRSTUVWXYZ''" and "d \<in> set ''abcdefghijklmnopqrstuvwxyz''"
    by (blast dest: set_zip_leftD, blast dest: set_zip_rightD)
  moreover from Some have "lower_char c = d" unfolding lower_char_def by simp
  ultimately show ?thesis by blast
qed

lemma lower_char_not_upper: "lower_char c \<notin> set ''ABCDEFGHIJKLMNOPQRSTUVWXYZ''"
proof -
  have disj: "set ''abcdefghijklmnopqrstuvwxyz'' \<inter> set ''ABCDEFGHIJKLMNOPQRSTUVWXYZ'' = {}"
    by simp
  from lower_char_cases[of c] show ?thesis
  proof
    assume "c \<in> set ''ABCDEFGHIJKLMNOPQRSTUVWXYZ'' \<and> lower_char c \<in> set ''abcdefghijklmnopqrstuvwxyz''"
    with disj show ?thesis by blast
  next
    assume "c \<notin> set ''ABCDEFGHIJKLMNOPQRSTUVWXYZ'' \<and> lower_char c = c"
    then show ?thesis by simp
  qed
qed

lemma lower_char_idem: "lower_char (lower_char c) = lower_char c"
  using lower_char_cases[of "lower_char c"] lower_char_not_upper[of c] by blast

lemma is_ws_lower_char: "is_ws (lower_char c) = is_ws c"
proof -
  have ws_up: "is_ws d \<Longrightarrow> d \<notin> set ''ABCDEFGHIJKLMNOPQRSTUVWXYZ''" for d
    by (auto simp: is_ws_def)
  have ws_low: "d \<in> set ''abcdefghijklmnopqrstuvwxyz'' \<Longrightarrow> \<not> is_ws d" for d
    by (auto simp: is_ws_def)
  from lower_char_cases[of c] show ?thesis
  proof
    assume a: "c \<in> set ''ABCDEFGHIJKLMNOPQRSTUVWXYZ'' \<and> lower_char c \<in> set ''abcdefghijklmnopqrstuvwxyz''"
    then have "\<not> is_ws c" using ws_up by blast
    moreover from a have "\<not> is_ws (lower_char c)" using ws_low by blast
    ultimately show ?thesis by simp
  next
    assume "c \<notin> set ''ABCDEFGHIJKLMNOPQRSTUVWXYZ'' \<and> lower_char c = c"
    then show ?thesis by simp
  qed
qed

lemma toLowerCase_idem: "toLowerCase (toLowerCase t) = toLowerCase t"
  by (simp add: toLowerCase_def lower_char_idem)

lemma dropWhile_lower:
  "dropWhile is_ws (map lower_char xs) = map lower_char (dropWhile is_ws xs)"
  by (induction xs) (simp_all add: is_ws_lower_char)

lemma trim_toLowerCase: "trim (toLowerCase t) = toLowerCase (trim t)"
  by (simp add: trim_def toLowerCase_def dropWhile_lower rev_map)

lemma dropWhile_self: "xs = [] \<or> \<not> P (hd xs) \<Longrightarrow> dropWhile P xs = xs"
  by (cases xs) auto

lemma trim_idem: "trim (trim t) = trim t"
proof -
  define a where "a = dropWhile is_ws t"
  define b where "b = dropWhile is_ws (rev a)"
  have tr: "trim t = rev b" by (simp add: trim_def a_def b_def)
  have b_hd: "b = [] \<or> \<not> is_ws (hd b)"
    unfolding b_def using hd_dropWhile[of is_ws "rev a"] by blast
  have a_hd: "a = [] \<or> \<not> is_ws (hd a)"
    unfolding a_def using hd_dropWhile[of is_ws t] by blast
  have front: "rev b = [] \<or> \<not> is_ws (hd (rev b))"
  proof (cases "b = []")
    case True
    then show ?thesis by simp
  next
    case False
    have "rev a = takeWhile is_ws (rev a) @ b"
      unfolding b_def by (rule takeWhile_dropWhile_id[symmetric])
    then have "rev (rev a) = rev (takeWhile is_ws (rev a) @ b)" by (rule arg_cong)
    then have "a = rev b @ rev (takeWhile is_ws (rev a))" by simp
    then obtain c where a_eq: "a = rev b @ c" by blast
    from False have nb: "rev b \<noteq> []" by simp
    have "hd a = hd (rev b)"
      unfolding a_eq using nb by (rule hd_append2)
    moreover have "a \<noteq> []" unfolding a_eq using nb by simp
    ultimately show ?thesis using a_hd by simp
  qed
  have 1: "dropWhile is_ws (rev b) = rev b" using front by (rule dropWhile_self)
  have 2: "dropWhile is_ws b = b" using b_hd by (rule dropWhile_self)
  have "trim (rev b) = rev b" by (simp add: trim_def 1 2)
  then show ?thesis by (simp add: tr)
qed

lemma normal_form_idem:
  "toLowerCase (trim (toLowerCase (trim t))) = toLowerCase (trim t)"
  by (simp add: trim_toLowerCase trim_idem toLowerCase_idem)

lemma store_invariant_other:
  "store_invariant (s\<lparr>shops := t1\<rparr>) = store_invariant s"
  "store_invariant (s\<lparr>menuItems := t2\<rparr>) = store_invariant s"
  "store_invariant (s\<lparr>offers := t3\<rparr>) = store_invariant s"
  "store_invariant (s\<lparr>orderItems := t4\<rparr>) = store_invariant s"
  "store_invariant (s\<lparr>receipts := t5\<rparr>) = store_invariant s"
  by (simp_all add: store_invariant_def unique_keys_def emails_normalised_def customer_ids_def)

lemma shops_keep:
  "snd (shops_POST now body s) = s \<or> (\<exists>t. snd (shops_POST now body s) = s\<lparr>shops := t\<rparr>)"
  "snd (shops_PUT ps body s) = s \<or> (\<exists>t. snd (shops_PUT ps body s) = s\<lparr>shops := t\<rparr>)"
  "snd (shops_DELETE ps s) = s \<or> (\<exists>t. snd (shops_DELETE ps s) = s\<lparr>shops := t\<rparr>)"
  by (auto simp: shops_POST_def shops_PUT_def shops_DELETE_def
      split: option.splits list.splits step.splits sum.splits prod.splits)

lemma shops_invariant:
  "store_invariant (snd (shops_POST now body s)) = store_invariant s"
  "store_invariant (snd (shops_PUT ps body s)) = store_invariant s"
  "store_invariant (snd (shops_DELETE ps s)) = store_invariant s"
proof -
  show "store_invariant (snd (shops_POST now body s)) = store_invariant s"
    using shops_keep(1)[of now body s] by (elim disjE exE) (simp_all add: store_invariant_other)
  show "store_invariant (snd (shops_PUT ps body s)) = store_invariant s"
    using shops_keep(2)[of ps body s] by (elim disjE exE) (simp_all add: store_invariant_other)
  show "store_invariant (snd (shops_DELETE ps s)) = store_invariant s"
    using shops_keep(3)[of ps s] by (elim disjE exE) (simp_all add: store_invariant_other)
qed

lemma menuItems_keep:
  "snd (menuItems_POST now body s) = s \<or> (\<exists>t. snd (menuItems_POST now body s) = s\<lparr>menuItems := t\<rparr>)"
  "snd (menuItems_PUT ps body s) = s \<or> (\<exists>t. snd (menuItems_PUT ps body s) = s\<lparr>menuItems := t\<rparr>)"
  "snd (menuItems_DELETE ps s) = s \<or> (\<exists>t. snd (menuItems_DELETE ps s) = s\<lparr>menuItems := t\<rparr>)"
  by (auto simp: menuItems_POST_def menuItems_PUT_def menuItems_DELETE_def
      split: option.splits list.splits step.splits sum.splits prod.splits)

lemma menuItems_invariant:
  "store_invariant (snd (menuItems_POST now body s)) = store_invariant s"
  "store_invariant (snd (menuItems_PUT ps body s)) = store_invariant s"
  "store_invariant (snd (menuItems_DELETE ps s)) = store_invariant s"
proof -
  show "store_invariant (snd (menuItems_POST now body s)) = store_invariant s"
    using menuItems_keep(1)[of now body s] by (elim disjE exE) (simp_all add: store_invariant_other)
  show "store_invariant (snd (menuItems_PUT ps body s)) = store_invariant s"
    using menuItems_keep(2)[of ps body s] by (elim disjE exE) (simp_all add: store_invariant_other)
  show "store_invariant (snd (menuItems_DELETE ps s)) = store_invariant s"
    using menuItems_keep(3)[of ps s] by (elim disjE exE) (simp_all add: store_invariant_other)
qed

lemma offers_keep:
  "snd (offers_POST now toISO body s) = s \<or> (\<exists>t. snd (offers_POST now toISO body s) = s\<lparr>offers := t\<rparr>)"
  "snd (offers_PUT toISO ps body s) = s \<or> (\<exists>t. snd (offers_PUT toISO ps body s) = s\<lparr>offers := t\<rparr>)"
  "snd (offers_DELETE ps s) = s \<or> (\<exists>t. snd (offers_DELETE ps s) = s\<lparr>offers := t\<rparr>)"
  by (auto simp: offers_POST_def offers_PUT_def offers_DELETE_def
      split: option.splits list.splits step.splits sum.splits prod.splits)

lemma offers_invariant:
  "store_invariant (snd (offers_POST now toISO body s)) = store_invariant s"
  "store_invariant (snd (offers_PUT toISO ps body s)) = store_invariant s"
  "store_invariant (snd (offers_DELETE ps s)) = store_invariant s"
proof -
  show "store_invariant (snd (offers_POST now toISO body s)) = store_invariant s"
    using offers_keep(1)[of now toISO body s] by (elim disjE exE) (simp_all add: store_invariant_other)
  show "store_invariant (snd (offers_PUT toISO ps body s)) = store_invariant s"
    using offers_keep(2)[of toISO ps body s] by (elim disjE exE) (simp_all add: store_invariant_other)
  show "store_invariant (snd (offers_DELETE ps s)) = store_invariant s"
    using offers_keep(3)[of ps s] by (elim disjE exE) (simp_all add: store_invariant_other)
qed

lemma orderItems_keep:
  "snd (orderItems_POST now body s) = s \<or> (\<exists>t. snd (orderItems_POST now body s) = s\<lparr>orderItems := t\<rparr>)"
  "snd (orderItems_PUT ps body s) = s \<or> (\<exists>t. snd (orderItems_PUT ps body s) = s\<lparr>orderItems := t\<rparr>)"
  "snd (orderItems_DELETE ps s) = s \<or> (\<exists>t. snd (orderItems_DELETE ps s) = s\<lparr>orderItems := t\<rparr>)"
  by (auto simp: orderItems_POST_def orderItems_PUT_def orderItems_DELETE_def
      split: option.splits list.splits step.splits sum.splits prod.splits)

lemma orderItems_invariant:
  "store_invariant (snd (orderItems_POST now body s)) = store_invariant s"
  "store_invariant (snd (orderItems_PUT ps body s)) = store_invariant s"
  "store_invariant (snd (orderItems_DELETE ps s)) = store_invariant s"
proof -
  show "store_invariant (snd (orderItems_POST now body s)) = store_invariant s"
    using orderItems_keep(1)[of now body s] by (elim disjE exE) (simp_all add: store_invariant_other)
  show "store_invariant (snd (orderItems_PUT ps body s)) = store_invariant s"
    using orderItems_keep(2)[of ps body s] by (elim disjE exE) (simp_all add: store_invariant_other)
  show "store_invariant (snd (orderItems_DELETE ps s)) = store_invariant s"
    using orderItems_keep(3)[of ps s] by (elim disjE exE) (simp_all add: store_invariant_other)
qed

lemma receipts_keep:
  "snd (receipts_POST now body s) = s \<or> (\<exists>t. snd (receipts_POST now body s) = s\<lparr>receipts := t\<rparr>)"
  "snd (receipts_PUT ps body s) = s \<or> (\<exists>t. snd (receipts_PUT ps body s) = s\<lparr>receipts := t\<rparr>)"
  "snd (receipts_DELETE ps s) = s \<or> (\<exists>t. snd (receipts_DELETE ps s) = s\<lparr>receipts := t\<rparr>)"
  by (auto simp: receipts_POST_def receipts_PUT_def receipts_DELETE_def
      split: option.splits list.splits step.splits sum.splits prod.splits)

lemma receipts_invariant:
  "store_invariant (snd (receipts_POST now body s)) = store_invariant s"
  "store_invariant (snd (receipts_PUT ps body s)) = store_invariant s"
  "store_invariant (snd (receipts_DELETE ps s)) = store_invariant s"
proof -
  show "store_invariant (snd (receipts_POST now body s)) = store_invariant s"
    using receipts_keep(1)[of now body s] by (elim disjE exE) (simp_all add: store_invariant_other)
  show "store_invariant (snd (receipts_PUT ps body s)) = store_invariant s"
    using receipts_keep(2)[of ps body s] by (elim disjE exE) (simp_all add: store_invariant_other)
  show "store_invariant (snd (receipts_DELETE ps s)) = store_invariant s"
    using receipts_keep(3)[of ps s] by (elim disjE exE) (simp_all add: store_invariant_other)
qed

lemma orders_POST_validate_token:
  assumes "orders_POST_validate now body = Next mk"
  shows "\<exists>t. field body ''tokenNumber'' = JStr t \<and> (\<forall>i. order_tokenNumber (mk i) = trim t)"
proof (cases "field body ''tokenNumber''")
  case (JStr t)
  have tr: "trimmed ''tokenNumber'' (JStr t) = Next (trim t)" by (simp add: trimmed_def)
  from assms have "\<forall>i. order_tokenNumber (mk i) = trim t"
    unfolding orders_POST_validate_def Let_def JStr tr blank_JStr
    by (auto simp: bind_def split: if_splits step.splits)
  with JStr show ?thesis by blast
next
  case JUndef
  with assms show ?thesis by (simp add: orders_POST_validate_def Let_def blank_def bind_def)
next
  case JNull
  with assms show ?thesis by (simp add: orders_POST_validate_def Let_def blank_def bind_def)
next
  case (JBool b)
  with assms show ?thesis
    by (cases b) (simp_all add: orders_POST_validate_def Let_def blank_def bind_def trimmed_def)
next
  case (JNum x)
  with assms show ?thesis
    by (cases "truthy (JNum x)")
       (simp_all add: orders_POST_validate_def Let_def blank_def bind_def trimmed_def)
qed

lemma orders_POST_cases:
  "(snd (orders_POST now body s) = s \<and>
      (resp_status (fst (orders_POST now body s)) = 400 \<or>
       resp_status (fst (orders_POST now body s)) = 500)) \<or>
   (\<exists>mk. orders_POST_validate now body = Next mk \<and>
      order_tokenNumber (mk 0) \<notin> set (map order_tokenNumber (rows (orders s))) \<and>
      orders_POST now body s =
        (Response 201 (Row (mk (seq (orders s) + 1))),
         s\<lparr>orders := (orders s)\<lparr>rows := rows (orders s) @ [mk (seq (orders s) + 1)],
                                 seq := seq (orders s) + 1\<rparr>\<rparr>))"
proof (cases "orders_POST_validate now body")
  case (Next mk)
  show ?thesis
  proof (cases "order_tokenNumber (mk 0) \<in> set (map order_tokenNumber (rows (orders s)))")
    case True
    then show ?thesis
      by (simp add: orders_POST_def Next orders_insert_def rejected_statuses)
  next
    case False
    then show ?thesis
      by (simp add: orders_POST_def Next orders_insert_def db_insert_def Let_def)
  qed
next
  case (Return r)
  with Return_400[OF rej_orders_POST Return] show ?thesis by (simp add: orders_POST_def)
next
  case (Throw e)
  then show ?thesis by (simp add: orders_POST_def rejected_statuses)
qed

lemma orders_POST_duplicate:
  assumes "r \<in> set (rows (orders s))" and "field body ''tokenNumber'' = JStr t"
    and "trim t = order_tokenNumber r"
  shows "snd (orders_POST now body s) = s"
    and "resp_status (fst (orders_POST now body s)) = 400 \<or>
         resp_status (fst (orders_POST now body s)) = 500"
    and "orders_POST_validate now body = Next mk \<Longrightarrow>
         fst (orders_POST now body s) =
           Response 400 (Err ''Token number already exists'' (Some ''DUPLICATE_TOKEN_NUMBER''))"
proof -
  have dup: "order_tokenNumber (mk' 0) \<in> set (map order_tokenNumber (rows (orders s)))"
    if "orders_POST_validate now body = Next mk'" for mk'
    using orders_POST_validate_token[OF that] assms by auto
  from orders_POST_cases[of now body s] dup
  show "snd (orders_POST now body s) = s"
    and "resp_status (fst (orders_POST now body s)) = 400 \<or>
         resp_status (fst (orders_POST now body s)) = 500"
    by blast+
  assume v: "orders_POST_validate now body = Next mk"
  show "fst (orders_POST now body s) =
           Response 400 (Err ''Token number already exists'' (Some ''DUPLICATE_TOKEN_NUMBER''))"
    using dup[OF v] by (simp add: orders_POST_def v orders_insert_def bad_request_def)
qed

lemma orders_POST_invariant:
  assumes "store_invariant s"
  shows "store_invariant (snd (orders_POST now body s))"
proof -
  from orders_POST_cases[of now body s] show ?thesis
  proof
    assume "snd (orders_POST now body s) = s \<and>
      (resp_status (fst (orders_POST now body s)) = 400 \<or>
       resp_status (fst (orders_POST now body s)) = 500)"
    with assms show ?thesis by simp
  next
    assume "\<exists>mk. orders_POST_validate now body = Next mk \<and>
      order_tokenNumber (mk 0) \<notin> set (map order_tokenNumber (rows (orders s))) \<and>
      orders_POST now body s =
        (Response 201 (Row (mk (seq (orders s) + 1))),
         s\<lparr>orders := (orders s)\<lparr>rows := rows (orders s) @ [mk (seq (orders s) + 1)],
                                 seq := seq (orders s) + 1\<rparr>\<rparr>)"
    then obtain mk where v: "orders_POST_validate now body = Next mk"
      and fresh: "order_tokenNumber (mk 0) \<notin> set (map order_tokenNumber (rows (orders s)))"
      and res: "snd (orders_POST now body s) =
         s\<lparr>orders := (orders s)\<lparr>rows := rows (orders s) @ [mk (seq (orders s) + 1)],
                                 seq := seq (orders s) + 1\<rparr>\<rparr>"
      by auto
    from orders_POST_validate_token[OF v]
    have same: "order_tokenNumber (mk (seq (orders s) + 1)) = order_tokenNumber (mk 0)" by auto
    show ?thesis
      using assms fresh unfolding res
      by (simp add: store_invariant_def unique_keys_def emails_normalised_def customer_ids_def same)
  qed
qed

lemma orders_PUT_tables:
  "customers (snd (orders_PUT now ps body s)) = customers s"
  "payments (snd (orders_PUT now ps body s)) = payments s"
  "map order_tokenNumber (rows (orders (snd (orders_PUT now ps body s)))) =
     map order_tokenNumber (rows (orders s))"
  by (auto simp: orders_PUT_def db_update_def orders_set_keeps
      split: option.splits list.splits step.splits)

lemma orders_PUT_invariant:
  "store_invariant s \<Longrightarrow> store_invariant (snd (orders_PUT now ps body s))"
  by (simp add: store_invariant_def unique_keys_def emails_normalised_def customer_ids_def
      orders_PUT_tables)

lemma orders_DELETE_tables:
  "customers (snd (orders_DELETE ps s)) = customers s"
  "payments (snd (orders_DELETE ps s)) = payments s"
  "\<exists>P. rows (orders (snd (orders_DELETE ps s))) = filter P (rows (orders s))"
proof -
  show "customers (snd (orders_DELETE ps s)) = customers s"
    "payments (snd (orders_DELETE ps s)) = payments s"
    by (auto simp: orders_DELETE_def db_delete_def split: option.splits list.splits)
  have "rows (orders (snd (orders_DELETE ps s))) = filter (\<lambda>r. True) (rows (orders s)) \<or>
        (\<exists>n. rows (orders (snd (orders_DELETE ps s))) = filter (\<lambda>r. order_id r \<noteq> n) (rows (orders s)))"
    by (auto simp: orders_DELETE_def db_delete_def split: option.splits list.splits)
  then show "\<exists>P. rows (orders (snd (orders_DELETE ps s))) = filter P (rows (orders s))"
    by blast
qed

lemma orders_DELETE_invariant:
  assumes "store_invariant s"
  shows "store_invariant (snd (orders_DELETE ps s))"
proof -
  from orders_DELETE_tables(3)[of ps s] obtain P
    where P: "rows (orders (snd (orders_DELETE ps s))) = filter P (rows (orders s))" by blast
  show ?thesis
    using assms
    by (simp add: store_invariant_def unique_keys_def emails_normalised_def customer_ids_def
        orders_DELETE_tables(1,2) P distinct_map_filter)
qed

lemma payments_POST_validate_txn:
  assumes "payments_POST_validate now body = Next mk"
  shows "\<exists>t. field body ''transactionId'' = JStr t \<and> (\<forall>i. payment_transactionId (mk i) = trim t)"
proof (cases "field body ''transactionId''")
  case (JStr t)
  have tr: "trimmed ''transactionId'' (JStr t) = Next (trim t)" by (simp add: trimmed_def)
  from assms have "\<forall>i. payment_transactionId (mk i) = trim t"
    unfolding payments_POST_validate_def Let_def JStr tr blank_JStr
    by (auto simp: bind_def split: if_splits step.splits)
  with JStr show ?thesis by blast
next
  case JUndef
  with assms show ?thesis by (simp add: payments_POST_validate_def Let_def blank_def bind_def)
next
  case JNull
  with assms show ?thesis by (simp add: payments_POST_validate_def Let_def blank_def bind_def)
next
  case (JBool b)
  with assms show ?thesis
    by (cases b) (simp_all add: payments_POST_validate_def Let_def blank_def bind_def trimmed_def)
next
  case (JNum x)
  with assms show ?thesis
    by (cases "truthy (JNum x)")
       (simp_all add: payments_POST_validate_def Let_def blank_def bind_def trimmed_def)
qed

lemma payments_POST_cases:
  "(snd (payments_POST now body s) = s \<and>
      (resp_status (fst (payments_POST now body s)) = 400 \<or>
       resp_status (fst (payments_POST now body s)) = 500)) \<or>
   (\<exists>mk. payments_POST_validate now body = Next mk \<and>
      payment_transactionId (mk 0) \<notin> set (map payment_transactionId (rows (payments s))) \<and>
      payments_POST now body s =
        (Response 201 (Row (mk (seq (payments s) + 1))),
         s\<lparr>payments := (payments s)\<lparr>rows := rows (payments s) @ [mk (seq (payments s) + 1)],
                                 seq := seq (payments s) + 1\<rparr>\<rparr>))"
proof (cases "payments_POST_validate now body")
  case (Next mk)
  show ?thesis
  proof (cases "payment_transactionId (mk 0) \<in> set (map payment_transactionId (rows (payments s)))")
    case True
    then show ?thesis
      by (simp add: payments_POST_def Next payments_insert_def rejected_statuses)
  next
    case False
    then show ?thesis
      by (simp add: payments_POST_def Next payments_insert_def db_insert_def Let_def)
  qed
next
  case (Return r)
  with Return_400[OF rej_payments_POST Return] show ?thesis by (simp add: payments_POST_def)
next
  case (Throw e)
  then show ?thesis by (simp add: payments_POST_def rejected_statuses)
qed

lemma payments_POST_duplicate:
  assumes "r \<in> set (rows (payments s))" and "field body ''transactionId'' = JStr t"
    and "trim t = payment_transactionId r"
  shows "snd (payments_POST now body s) = s"
    and "resp_status (fst (payments_POST now body s)) = 400 \<or>
         resp_status (fst (payments_POST now body s)) = 500"
    and "payments_POST_validate now body = Next mk \<Longrightarrow>
         fst (payments_POST now body s) =
           Response 400 (Err ''Transaction ID already exists'' (Some ''DUPLICATE_TRANSACTION_ID''))"
proof -
  have dup: "payment_transactionId (mk' 0) \<in> set (map payment_transactionId (rows (payments s)))"
    if "payments_POST_validate now body = Next mk'" for mk'
    using payments_POST_validate_txn[OF that] assms by auto
  from payments_POST_cases[of now body s] dup
  show "snd (payments_POST now body s) = s"
    and "resp_status (fst (payments_POST now body s)) = 400 \<or>
         resp_status (fst (payments_POST now body s)) = 500"
    by blast+
  assume v: "payments_POST_validate now body = Next mk"
  show "fst (payments_POST now body s) =
           Response 400 (Err ''Transaction ID already exists'' (Some ''DUPLICATE_TRANSACTION_ID''))"
    using dup[OF v] by (simp add: payments_POST_def v payments_insert_def bad_request_def)
qed

lemma payments_POST_invariant:
  assumes "store_invariant s"
  shows "store_invariant (snd (payments_POST now body s))"
proof -
  from payments_POST_cases[of now body s] show ?thesis
  proof
    assume "snd (payments_POST now body s) = s \<and>
      (resp_status (fst (payments_POST now body s)) = 400 \<or>
       resp_status (fst (payments_POST now body s)) = 500)"
    with assms show ?thesis by simp
  next
    assume "\<exists>mk. payments_POST_validate now body = Next mk \<and>
      payment_transactionId (mk 0) \<notin> set (map payment_transactionId (rows (payments s))) \<and>
      payments_POST now body s =
        (Response 201 (Row (mk (seq (payments s) + 1))),
         s\<lparr>payments := (payments s)\<lparr>rows := rows (payments s) @ [mk (seq (payments s) + 1)],
                                 seq := seq (payments s) + 1\<rparr>\<rparr>)"
    then obtain mk where v: "payments_POST_validate now body = Next mk"
      and fresh: "payment_transactionId (mk 0) \<notin> set (map payment_transactionId (rows (payments s)))"
      and res: "snd (payments_POST now body s) =
         s\<lparr>payments := (payments s)\<lparr>rows := rows (payments s) @ [mk (seq (payments s) + 1)],
                                 seq := seq (payments s) + 1\<rparr>\<rparr>"
      by auto
    from payments_POST_validate_txn[OF v]
    have same: "payment_transactionId (mk (seq (payments s) + 1)) = payment_transactionId (mk 0)"
      by auto
    show ?thesis
      using assms fresh unfolding res
      by (simp add: store_invariant_def unique_keys_def emails_normalised_def customer_ids_def same)
  qed
qed

lemma payments_set_keeps: "payment_transactionId (payments_set u r) = payment_transactionId r"
  by (simp add: payments_set_def)

lemma payments_PUT_tables:
  "customers (snd (payments_PUT ps body s)) = customers s"
  "orders (snd (payments_PUT ps body s)) = orders s"
  "map payment_transactionId (rows (payments (snd (payments_PUT ps body s)))) =
     map payment_transactionId (rows (payments s))"
  by (auto simp: payments_PUT_def db_update_def payments_set_keeps
      split: option.splits list.splits step.splits)

lemma payments_PUT_invariant:
  "store_invariant s \<Longrightarrow> store_invariant (snd (payments_PUT ps body s))"
  by (simp add: store_invariant_def unique_keys_def emails_normalised_def customer_ids_def
      payments_PUT_tables)

lemma payments_DELETE_tables:
  "customers (snd (payments_DELETE ps s)) = customers s"
  "orders (snd (payments_DELETE ps s)) = orders s"
  "\<exists>P. rows (payments (snd (payments_DELETE ps s))) = filter P (rows (payments s))"
proof -
  show "customers (snd (payments_DELETE ps s)) = customers s"
    "orders (snd (payments_DELETE ps s)) = orders s"
    by (auto simp: payments_DELETE_def db_delete_def split: option.splits list.splits)
  have "rows (payments (snd (payments_DELETE ps s))) = filter (\<lambda>r. True) (rows (payments s)) \<or>
        (\<exists>n. rows (payments (snd (payments_DELETE ps s))) =
               filter (\<lambda>r. payment_id r \<noteq> n) (rows (payments s)))"
    by (auto simp: payments_DELETE_def db_delete_def split: option.splits list.splits)
  then show "\<exists>P. rows (payments (snd (payments_DELETE ps s))) = filter P (rows (payments s))"
    by blast
qed

lemma payments_DELETE_invariant:
  assumes "store_invariant s"
  shows "store_invariant (snd (payments_DELETE ps s))"
proof -
  from payments_DELETE_tables(3)[of ps s] obtain P
    where P: "rows (payments (snd (payments_DELETE ps s))) = filter P (rows (payments s))" by blast
  show ?thesis
    using assms
    by (simp add: store_invariant_def unique_keys_def emails_normalised_def customer_ids_def
        payments_DELETE_tables(1,2) P distinct_map_filter)
qed

lemma customers_catch_unique:
  "customers_catch ''UNIQUE constraint failed: customers.email'' =
     bad_request ''Email already exists'' ''DUPLICATE_EMAIL''"
  by (simp add: customers_catch_def)

lemma missing_text_JStr: "\<not> missing_text v \<Longrightarrow> \<exists>t. v = JStr t \<and> trim t \<noteq> [] \<and> text_of v = trim t"
  by (cases v) auto

lemma normalised_text: "\<not> missing_text v \<Longrightarrow>
   toLowerCase (trim (toLowerCase (text_of v))) = toLowerCase (text_of v)"
  by (auto dest!: missing_text_JStr simp: normal_form_idem)

lemma customers_POST_validate_Next:
  assumes "customers_POST_validate now body = Next mk"
  shows "\<not> missing_text (field body ''name'')" and "\<not> missing_text (field body ''email'')"
    and "\<not> missing_text (field body ''phone'')" and "\<not> missing_text (field body ''address'')"
    and "customer_email (mk i) = toLowerCase (text_of (field body ''email''))"
    and "customer_id (mk i) = i"
  using assms by (auto simp: customers_POST_validate_def Let_def split: if_splits)

lemma customers_POST_validate_accepts:
  assumes "\<not> missing_text (field body ''name'')" and "\<not> missing_text (field body ''email'')"
    and "\<not> missing_text (field body ''phone'')" and "\<not> missing_text (field body ''address'')"
  shows "\<exists>mk. customers_POST_validate now body = Next mk"
  using assms by (simp add: customers_POST_validate_def Let_def)

lemma rej_customers_POST_400:
  "customers_POST_validate now body = Return r \<Longrightarrow> resp_status r = 400"
  by (rule Return_400[OF rej_customers_POST])

lemma customers_POST_never_Throw: "customers_POST_validate now body \<noteq> Throw e"
  by (simp add: customers_POST_validate_def Let_def)

lemma customers_POST_cases:
  "(snd (customers_POST now body s) = s \<and> resp_status (fst (customers_POST now body s)) = 400) \<or>
   (\<exists>mk. customers_POST_validate now body = Next mk \<and>
      customer_email (mk 0) \<notin> set (map customer_email (rows (customers s))) \<and>
      customers_POST now body s =
        (Response 201 (Row (mk (seq (customers s) + 1))),
         s\<lparr>customers := (customers s)\<lparr>rows := rows (customers s) @ [mk (seq (customers s) + 1)],
                                 seq := seq (customers s) + 1\<rparr>\<rparr>))"
proof (cases "customers_POST_validate now body")
  case (Next mk)
  show ?thesis
  proof (cases "customer_email (mk 0) \<in> set (map customer_email (rows (customers s)))")
    case True
    then show ?thesis
      by (simp add: customers_POST_def Next customers_insert_def customers_catch_unique
          rejected_statuses)
  next
    case False
    then show ?thesis
      by (simp add: customers_POST_def Next customers_insert_def db_insert_def Let_def)
  qed
next
  case (Return r)
  with rej_customers_POST_400[OF Return] show ?thesis by (simp add: customers_POST_def)
next
  case (Throw e)
  with customers_POST_never_Throw show ?thesis by blast
qed

lemma customers_POST_duplicate:
  assumes "emails_normalised s" and "c \<in> set (rows (customers s))"
    and "field body ''email'' = JStr x"
    and "toLowerCase (trim x) = toLowerCase (customer_email c)"
  shows "snd (customers_POST now body s) = s"
    and "resp_status (fst (customers_POST now body s)) = 400"
    and "\<not> missing_text (field body ''name'') \<Longrightarrow> \<not> missing_text (field body ''email'') \<Longrightarrow>
         \<not> missing_text (field body ''phone'') \<Longrightarrow> \<not> missing_text (field body ''address'') \<Longrightarrow>
         fst (customers_POST now body s) =
           Response 400 (Err ''Email already exists'' (Some ''DUPLICATE_EMAIL''))"
proof -
  have norm: "toLowerCase (trim (customer_email c)) = customer_email c"
    using assms(1,2) by (simp add: emails_normalised_def)
  have "toLowerCase (customer_email c) = customer_email c"
    by (metis norm toLowerCase_idem)
  then have "toLowerCase (trim x) = customer_email c" using assms(4) by simp
  then have eq: "toLowerCase (text_of (field body ''email'')) = customer_email c"
    by (simp add: assms(3))
  have dup: "customer_email (mk 0) \<in> set (map customer_email (rows (customers s)))"
    if "customers_POST_validate now body = Next mk" for mk
    using customers_POST_validate_Next(5)[OF that, of 0] eq assms(2) by auto
  from customers_POST_cases[of now body s] dup
  show "snd (customers_POST now body s) = s"
    and "resp_status (fst (customers_POST now body s)) = 400"
    by blast+
  assume "\<not> missing_text (field body ''name'')" "\<not> missing_text (field body ''email'')"
         "\<not> missing_text (field body ''phone'')" "\<not> missing_text (field body ''address'')"
  then obtain mk where v: "customers_POST_validate now body = Next mk"
    using customers_POST_validate_accepts by blast
  show "fst (customers_POST now body s) =
           Response 400 (Err ''Email already exists'' (Some ''DUPLICATE_EMAIL''))"
    using dup[OF v]
    by (simp add: customers_POST_def v customers_insert_def customers_catch_unique bad_request_def)
qed

lemma customers_POST_invariant:
  assumes "store_invariant s"
  shows "store_invariant (snd (customers_POST now body s))"
proof -
  from customers_POST_cases[of now body s] show ?thesis
  proof
    assume "snd (customers_POST now body s) = s \<and> resp_status (fst (customers_POST now body s)) = 400"
    with assms show ?thesis by simp
  next
    assume "\<exists>mk. customers_POST_validate now body = Next mk \<and>
      customer_email (mk 0) \<notin> set (map customer_email (rows (customers s))) \<and>
      customers_POST now body s =
        (Response 201 (Row (mk (seq (customers s) + 1))),
         s\<lparr>customers := (customers s)\<lparr>rows := rows (customers s) @ [mk (seq (customers s) + 1)],
                                 seq := seq (customers s) + 1\<rparr>\<rparr>)"
    then obtain mk where v: "customers_POST_validate now body = Next mk"
      and fresh: "customer_email (mk 0) \<notin> set (map customer_email (rows (customers s)))"
      and res: "snd (customers_POST now body s) =
         s\<lparr>customers := (customers s)\<lparr>rows := rows (customers s) @ [mk (seq (customers s) + 1)],
                                 seq := seq (customers s) + 1\<rparr>\<rparr>"
      by auto
    note n = customers_POST_validate_Next[OF v]
    have same: "customer_email (mk (seq (customers s) + 1)) = customer_email (mk 0)"
      by (simp add: n(5))
    have nrm: "toLowerCase (trim (customer_email (mk 0))) = customer_email (mk 0)"
      by (simp add: n(5) normalised_text[OF n(2)])
    have idn: "customer_id (mk (seq (customers s) + 1)) = seq (customers s) + 1" by (rule n(6))
    have newid: "seq (customers s) + 1 \<notin> customer_id ` set (rows (customers s))"
      using assms by (force simp: store_invariant_def customer_ids_def)
    show ?thesis
      using assms fresh newid unfolding res
      by (auto simp: store_invariant_def unique_keys_def emails_normalised_def customer_ids_def
          same nrm idn)
  qed
qed

lemma customers_set_keeps:
  "customer_id (customers_set u r) = customer_id r"
  "customer_email (customers_set u r) = set_column (cset_email u) (customer_email r)"
  by (simp_all add: customers_set_def)

lemma cput_email_normalised:
  "customers_PUT_validate body = Next u \<Longrightarrow> cset_email u = Some e \<Longrightarrow>
   toLowerCase (trim e) = e"
proof -
  let ?P = "\<lambda>u. \<forall>e. cset_email u = Some e \<longrightarrow> toLowerCase (trim e) = e"
  assume v: "customers_PUT_validate body = Next u" and e: "cset_email u = Some e"
  have steps: "\<forall>f\<in>set [cput_name body, cput_email body, cput_phone body, cput_address body,
            cput_latitude body, cput_longitude body]. \<forall>u u'. ?P u \<longrightarrow> f u = Next u' \<longrightarrow> ?P u'"
    by (auto simp: cput_name_def cput_email_def cput_phone_def cput_address_def
        cput_latitude_def cput_longitude_def Let_def normalised_text split: if_splits)
  have init: "?P \<lparr>cset_name = None, cset_email = None, cset_phone = None, cset_address = None,
        cset_latitude = None, cset_longitude = None\<rparr>" by simp
  have "?P u"
    by (rule chain_invariant[where P = ?P, OF steps init v[unfolded customers_PUT_validate_def]])
  with e show ?thesis by blast
qed

lemma update_keeps_distinct:
  assumes "distinct (map key xs)" and "distinct (map em xs)"
    and "e \<notin> set (map em (filter (\<lambda>r. key r \<noteq> n) xs))"
    and "\<And>r. em (f r) = e"
  shows "distinct (map em (map (\<lambda>r. if key r = n then f r else r) xs))"
  using assms(1-3)
proof (induction xs)
  case Nil
  show ?case by simp
next
  case (Cons x xs)
  from Cons.prems have p1: "distinct (map key xs)" and p2: "distinct (map em xs)"
    and p3: "e \<notin> set (map em (filter (\<lambda>r. key r \<noteq> n) xs))"
    by (simp_all split: if_splits)
  have IH: "distinct (map em (map (\<lambda>r. if key r = n then f r else r) xs))"
    by (rule Cons.IH[OF p1 p2 p3])
  show ?case
  proof (cases "key x = n")
    case True
    from Cons.prems(1) have "key x \<notin> key ` set xs" by simp
    with True have others: "\<forall>r\<in>set xs. key r \<noteq> n" by blast
    then have same: "map (\<lambda>r. if key r = n then f r else r) xs = xs"
      by (induction xs) auto
    have filt: "filter (\<lambda>r. key r \<noteq> n) xs = xs" using others by (induction xs) auto
    from Cons.prems(3) True filt have "e \<notin> set (map em xs)" by simp
    with Cons.prems(2) True same show ?thesis by (simp add: assms(4))
  next
    case False
    with Cons.prems(3) have ne: "em x \<noteq> e" by auto
    from Cons.prems(2) have fresh: "em x \<notin> em ` set xs" by simp
    have nin: "\<forall>r\<in>set xs. em (if key r = n then f r else r) \<noteq> em x"
    proof
      fix r assume r: "r \<in> set xs"
      show "em (if key r = n then f r else r) \<noteq> em x"
      proof (cases "key r = n")
        case True
        with ne show ?thesis by (simp add: assms(4))
      next
        case False
        from r have "em r \<in> em ` set xs" by (rule imageI)
        with fresh have "em r \<noteq> em x" by metis
        with False show ?thesis by simp
      qed
    qed
    from IH False nin show ?thesis by auto
  qed
qed

lemma customers_PUT_cases:
  "snd (customers_PUT ps body s) = s \<or>
   (\<exists>n u. customers_PUT_validate body = Next u \<and>
      (case cset_email u of None \<Rightarrow> True
       | Some e \<Rightarrow> e \<notin> set (map customer_email (filter (\<lambda>r. customer_id r \<noteq> n) (rows (customers s))))) \<and>
      snd (customers_PUT ps body s) =
        s\<lparr>customers := (customers s)\<lparr>rows :=
             map (\<lambda>r. if customer_id r = n then customers_set u r else r) (rows (customers s))\<rparr>\<rparr>)"
proof (cases "parse_id (get ps ''id'')")
  case None
  then show ?thesis by (simp add: customers_PUT_def)
next
  case (Some n)
  show ?thesis
  proof (cases "db_select customer_id n (customers s)")
    case Nil
    with Some show ?thesis by (simp add: customers_PUT_def)
  next
    case (Cons existing rest)
    show ?thesis
    proof (cases "customers_PUT_validate body")
      case (Next u)
      show ?thesis
      proof (cases "customer_updateData_empty u")
        case True
        with Some Cons Next show ?thesis by (simp add: customers_PUT_def)
      next
        case False
        show ?thesis
        proof (cases "cset_email u")
          case None
          have "snd (customers_PUT ps body s) =
            s\<lparr>customers := (customers s)\<lparr>rows :=
               map (\<lambda>r. if customer_id r = n then customers_set u r else r) (rows (customers s))\<rparr>\<rparr>"
            using Some Cons Next False None
            by (simp add: customers_PUT_def customers_write_def db_update_def)
          with Next None show ?thesis by auto
        next
          case (Some e)
          note e = Some
          show ?thesis
          proof (cases "e \<in> set (map customer_email (filter (\<lambda>r. customer_id r \<noteq> n) (rows (customers s))))")
            case True
            with \<open>parse_id (get ps ''id'') = Some n\<close> Cons Next False e show ?thesis
              by (simp add: customers_PUT_def customers_write_def)
          next
            case notin: False
            have "snd (customers_PUT ps body s) =
              s\<lparr>customers := (customers s)\<lparr>rows :=
                 map (\<lambda>r. if customer_id r = n then customers_set u r else r) (rows (customers s))\<rparr>\<rparr>"
              using \<open>parse_id (get ps ''id'') = Some n\<close> Cons Next False e notin
              by (simp add: customers_PUT_def customers_write_def db_update_def)
            with Next e notin show ?thesis by auto
          qed
        qed
      qed
    next
      case (Return r)
      with Some Cons show ?thesis by (simp add: customers_PUT_def)
    next
      case (Throw e)
      with Some Cons show ?thesis by (simp add: customers_PUT_def)
    qed
  qed
qed

lemma customers_PUT_invariant:
  assumes "store_invariant s"
  shows "store_invariant (snd (customers_PUT ps body s))"
proof -
  from customers_PUT_cases[of ps body s] show ?thesis
  proof
    assume "snd (customers_PUT ps body s) = s"
    with assms show ?thesis by simp
  next
    assume "\<exists>n u. customers_PUT_validate body = Next u \<and>
      (case cset_email u of None \<Rightarrow> True
       | Some e \<Rightarrow> e \<notin> set (map customer_email (filter (\<lambda>r. customer_id r \<noteq> n) (rows (customers s))))) \<and>
      snd (customers_PUT ps body s) =
        s\<lparr>customers := (customers s)\<lparr>rows :=
             map (\<lambda>r. if customer_id r = n then customers_set u r else r) (rows (customers s))\<rparr>\<rparr>"
    then obtain n u where v: "customers_PUT_validate body = Next u"
      and fresh: "case cset_email u of None \<Rightarrow> True
       | Some e \<Rightarrow> e \<notin> set (map customer_email (filter (\<lambda>r. customer_id r \<noteq> n) (rows (customers s))))"
      and res: "snd (customers_PUT ps body s) =
        s\<lparr>customers := (customers s)\<lparr>rows :=
             map (\<lambda>r. if customer_id r = n then customers_set u r else r) (rows (customers s))\<rparr>\<rparr>"
      by blast
    let ?xs = "rows (customers s)"
    let ?ys = "map (\<lambda>r. if customer_id r = n then customers_set u r else r) ?xs"
    have ids: "map customer_id ?ys = map customer_id ?xs"
      by (simp add: customers_set_keeps)
    have dk: "distinct (map customer_id ?xs)" and de: "distinct (map customer_email ?xs)"
      and nr: "\<forall>c\<in>set ?xs. toLowerCase (trim (customer_email c)) = customer_email c"
      and le: "\<forall>c\<in>set ?xs. customer_id c \<le> seq (customers s)"
      using assms
      by (simp_all add: store_invariant_def unique_keys_def emails_normalised_def customer_ids_def)
    have emails: "distinct (map customer_email ?ys) \<and>
        (\<forall>c\<in>set ?ys. toLowerCase (trim (customer_email c)) = customer_email c)"
    proof (cases "cset_email u")
      case None
      then have "map customer_email ?ys = map customer_email ?xs"
        by (simp add: customers_set_keeps set_column_def)
      then have "distinct (map customer_email ?ys)" using de by (simp only:)
      moreover have "\<forall>c\<in>set ?ys. toLowerCase (trim (customer_email c)) = customer_email c"
        using nr None by (auto simp: customers_set_keeps set_column_def)
      ultimately show ?thesis by blast
    next
      case (Some e)
      have fe: "\<And>r. customer_email (customers_set u r) = e"
        by (simp add: customers_set_keeps Some set_column_def)
      from fresh Some
      have "e \<notin> set (map customer_email (filter (\<lambda>r. customer_id r \<noteq> n) ?xs))" by simp
      from update_keeps_distinct[OF dk de this fe]
      have "distinct (map customer_email ?ys)" .
      moreover have "\<forall>c\<in>set ?ys. toLowerCase (trim (customer_email c)) = customer_email c"
        using nr cput_email_normalised[OF v Some] by (auto simp: fe)
      ultimately show ?thesis by simp
    qed
    have idle: "\<forall>c\<in>set ?ys. customer_id c \<le> seq (customers s)"
      using le by (auto simp: customers_set_keeps)
    have inv: "unique_keys s" using assms by (simp add: store_invariant_def)
    show ?thesis
      unfolding res using emails idle dk inv
      by (simp add: store_invariant_def unique_keys_def emails_normalised_def customer_ids_def ids
          del: map_map)
  qed
qed

lemma customers_DELETE_cases:
  "snd (customers_DELETE ps s) = s \<or>
   (\<exists>n. snd (customers_DELETE ps s) =
      s\<lparr>customers := (customers s)\<lparr>rows := filter (\<lambda>r. customer_id r \<noteq> n) (rows (customers s))\<rparr>\<rparr>)"
  by (auto simp: customers_DELETE_def db_delete_def split: option.splits list.splits)

lemma customers_DELETE_invariant:
  assumes "store_invariant s"
  shows "store_invariant (snd (customers_DELETE ps s))"
  using customers_DELETE_cases[of ps s] assms
  by (elim disjE exE)
     (simp_all add: store_invariant_def unique_keys_def emails_normalised_def customer_ids_def
        distinct_map_filter)

lemma api_invariant:
  assumes "store_invariant s"
  shows "store_invariant (snd (api now toISO req s))"
  using assms
  by (cases req)
     (simp_all add: answered_def shops_invariant menuItems_invariant offers_invariant
        orderItems_invariant receipts_invariant orders_POST_invariant orders_PUT_invariant
        orders_DELETE_invariant payments_POST_invariant payments_PUT_invariant
        payments_DELETE_invariant customers_POST_invariant customers_PUT_invariant
        customers_DELETE_invariant)

lemma store_invariant_empty: "store_invariant empty_store"
  by (simp add: store_invariant_def unique_keys_def emails_normalised_def customer_ids_def
      empty_store_def empty_table_def)

subsection \<open>The shape of error answers\<close>




subsection \<open>Values out of range\<close>




subsection \<open>Pagination\<close>

text \<open>
  Claim C6. In every list request, on every one of the eight endpoints, a supplied
  \<^verbatim>\<open>limit\<close> that parses to more than 100 becomes 100, an omitted \<^verbatim>\<open>limit\<close> is 10 and an
  omitted \<^verbatim>\<open>offset\<close> is 0. A request without \<^verbatim>\<open>id\<close> is a list request; each endpoint
  answers it with the page of its query that these two values select.
\<close>

theorem list_limit_clamped:
  "(get ps ''limit'' = Some l \<and> parseInt l = Some n \<and> 100 < n \<longrightarrow> page_limit ps = Some 100) \<and>
   (get ps ''limit'' = None \<longrightarrow> page_limit ps = Some 10) \<and>
   (get ps ''offset'' = None \<longrightarrow> page_offset ps = Some 0) \<and>
   (\<not> present (get ps ''id'') \<longrightarrow>
      shops_GET ps s = list_response ps (shops_query ps s) \<and>
      customers_GET ps s = list_response ps (customers_query ps s) \<and>
      menuItems_GET ps s = list_response ps (menuItems_query ps s) \<and>
      offers_GET now ps s = list_response ps (offers_query now ps s) \<and>
      orders_GET ps s = list_response ps (orders_query ps s) \<and>
      orderItems_GET ps s = list_response ps (orderItems_query ps s) \<and>
      payments_GET ps s = list_response ps (payments_query ps s) \<and>
      receipts_GET ps s = list_response ps (receipts_query ps s)) \<and>
   (page_limit ps = Some m \<and> page_offset ps = Some off \<and> 0 \<le> m \<longrightarrow>
      list_response ps xs = Response 200 (Rows (take (nat m) (drop (nat off) xs))))"
proof -
  have ten: "parseInt ''10'' = Some 10" by code_simp
  have zero: "parseInt ''0'' = Some 0" by code_simp
  have a: "get ps ''limit'' = Some l \<and> parseInt l = Some n \<and> 100 < n \<longrightarrow> page_limit ps = Some 100"
    by (simp add: page_limit_def)
  have b: "get ps ''limit'' = None \<longrightarrow> page_limit ps = Some 10"
    by (simp add: page_limit_def ten)
  have c: "get ps ''offset'' = None \<longrightarrow> page_offset ps = Some 0"
    by (simp add: page_offset_def zero)
  have d: "\<not> present (get ps ''id'') \<longrightarrow>
      shops_GET ps s = list_response ps (shops_query ps s) \<and>
      customers_GET ps s = list_response ps (customers_query ps s) \<and>
      menuItems_GET ps s = list_response ps (menuItems_query ps s) \<and>
      offers_GET now ps s = list_response ps (offers_query now ps s) \<and>
      orders_GET ps s = list_response ps (orders_query ps s) \<and>
      orderItems_GET ps s = list_response ps (orderItems_query ps s) \<and>
      payments_GET ps s = list_response ps (payments_query ps s) \<and>
      receipts_GET ps s = list_response ps (receipts_query ps s)"
    by (simp add: shops_GET_def customers_GET_def menuItems_GET_def offers_GET_def
        orders_GET_def orderItems_GET_def payments_GET_def receipts_GET_def)
  have e: "page_limit ps = Some m \<and> page_offset ps = Some off \<and> 0 \<le> m \<longrightarrow>
      list_response ps xs = Response 200 (Rows (take (nat m) (drop (nat off) xs)))"
    using list_response_page by blast
  from a b c d e show ?thesis by blast
qed

theorem list_limit_clamped_witness:
  "get [(''limit'', ''500'')] ''limit'' = Some ''500'' \<and> parseInt ''500'' = Some 500 \<and>
   page_limit [(''limit'', ''500'')] = Some 100 \<and>
   page_limit [] = Some 10 \<and> page_offset [] = Some 0 \<and>
   orders_GET [(''limit'', ''500'')] sample_store = Response 200 (Rows [sample_order]) \<and>
   payments_GET [] sample_store = Response 200 (Rows [sample_payment])"
proof -
  have p: "parseInt ''500'' = Some 500" by code_simp
  have g: "get [(''limit'', ''500'')] ''limit'' = Some ''500''" by (simp add: get_def)
  have h: "get [] ''limit'' = None" "get [] ''offset'' = None" "get [(''limit'', ''500'')] ''offset'' = None"
    "\<not> present (get [] ''id'')" "\<not> present (get [(''limit'', ''500'')] ''id'')"
    by (simp_all add: get_def present_def)
  have q1: "orders_query [(''limit'', ''500'')] sample_store = [sample_order]"
    by (simp add: orders_query_def get_def opt_cond_def sample_store_def empty_store_def
        empty_table_def)
  have q2: "payments_query [] sample_store = [sample_payment]"
    by (simp add: payments_query_def get_def opt_cond_def sample_store_def empty_store_def
        empty_table_def)
  note t1 = list_limit_clamped[of "[(''limit'', ''500'')]" "''500''" 500 sample_store undefined 100 0 "[sample_order]"]
  note t2 = list_limit_clamped[of "[]" undefined undefined sample_store undefined 10 0 "[sample_payment]"]
  show ?thesis using p g h q1 q2 t1 t2 by simp
qed

subsection \<open>Records that do not exist\<close>

text \<open>
  Claim C7 at the input where the code departs from it: an id that resolves to no offer.
  The three offers handlers answer 404 with \<^verbatim>\<open>{ error: 'Offer not found' }\<close> and no code,
  where the orders handler, like the six other routes, adds its not-found code.
\<close>

theorem offers_not_found_has_no_code:
  "offers_GET sample_now [(''id'', ''9'')] empty_store = Response 404 (Err ''Offer not found'' None) \<and>
   offers_PUT sample_toISO [(''id'', ''9'')] [] empty_store =
     (Response 404 (Err ''Offer not found'' None), empty_store) \<and>
   offers_DELETE [(''id'', ''9'')] empty_store =
     (Response 404 (Err ''Offer not found'' None), empty_store) \<and>
   orders_GET [(''id'', ''9'')] empty_store =
     Response 404 (Err ''Order not found'' (Some ''ORDER_NOT_FOUND''))"
proof -
  have p: "present (get [(''id'', ''9'')] ''id'')" by (simp add: present_def get_def)
  show ?thesis
    by (simp add: offers_GET_def offers_PUT_def offers_DELETE_def orders_GET_def p id_nine
        db_select_def empty_store_def empty_table_def not_found_def)
qed

subsection \<open>The status of an order is free text\<close>



subsection \<open>What an update of an order leaves alone\<close>

text \<open>
  Claim C9. After a successful update of an order (status 200), every order keeps its id,
  token number, subtotal and creation time; orders other than the addressed one are
  unchanged; in the addressed order every column whose member the body does not supply is
  unchanged, and \<^verbatim>\<open>updatedAt\<close> is the time of the request. No other table changes.
\<close>

theorem order_update_frame:
  assumes "orders_PUT now ps body s = (Response 200 b, s')"
  shows "\<exists>n. parse_id (get ps ''id'') = Some n \<and>
           s' = s\<lparr>orders := orders s'\<rparr> \<and> seq (orders s') = seq (orders s) \<and>
           list_all2 (\<lambda>old new.
               order_id new = order_id old \<and>
               order_tokenNumber new = order_tokenNumber old \<and>
               order_subtotal new = order_subtotal old \<and>
               order_createdAt new = order_createdAt old \<and>
               (order_id old \<noteq> n \<longrightarrow> new = old) \<and>
               (order_id old = n \<longrightarrow> order_updatedAt new = now) \<and>
               (field body ''customerId'' = JUndef \<longrightarrow> order_customerId new = order_customerId old) \<and>
               (field body ''status'' = JUndef \<longrightarrow> order_status new = order_status old) \<and>
               (field body ''deliveryMode'' = JUndef \<longrightarrow> order_deliveryMode new = order_deliveryMode old) \<and>
               (field body ''paymentStatus'' = JUndef \<longrightarrow>
                  order_paymentStatus new = order_paymentStatus old) \<and>
               (field body ''estimatedReadyTime'' = JUndef \<longrightarrow>
                  order_estimatedReadyTime new = order_estimatedReadyTime old) \<and>
               (field body ''discount'' = JUndef \<longrightarrow> order_discount new = order_discount old) \<and>
               (field body ''finalAmount'' = JUndef \<longrightarrow> order_finalAmount new = order_finalAmount old))
             (rows (orders s)) (rows (orders s'))"
proof -
  from assms obtain n x u where n: "parse_id (get ps ''id'') = Some n"
    and "db_select order_id n (orders s) = [x]"
    and u: "orders_PUT_validate now body = Next u"
    and s': "s' = s\<lparr>orders := (orders s)\<lparr>rows := map (\<lambda>r. if order_id r = n then orders_set u r else r) (rows (orders s))\<rparr>\<rparr>"
    by (rule orders_PUT_success)
  have un: "untouched now body u" using u by (rule orders_PUT_validate_untouched)
  have rows: "rows (orders s') = map (\<lambda>r. if order_id r = n then orders_set u r else r) (rows (orders s))"
    by (simp add: s')
  have frame: "\<And>r. field body ''customerId'' = JUndef \<Longrightarrow> order_customerId (orders_set u r) = order_customerId r"
    "\<And>r. field body ''status'' = JUndef \<Longrightarrow> order_status (orders_set u r) = order_status r"
    "\<And>r. field body ''deliveryMode'' = JUndef \<Longrightarrow> order_deliveryMode (orders_set u r) = order_deliveryMode r"
    "\<And>r. field body ''paymentStatus'' = JUndef \<Longrightarrow> order_paymentStatus (orders_set u r) = order_paymentStatus r"
    "\<And>r. field body ''estimatedReadyTime'' = JUndef \<Longrightarrow> order_estimatedReadyTime (orders_set u r) = order_estimatedReadyTime r"
    "\<And>r. field body ''discount'' = JUndef \<Longrightarrow> order_discount (orders_set u r) = order_discount r"
    "\<And>r. field body ''finalAmount'' = JUndef \<Longrightarrow> order_finalAmount (orders_set u r) = order_finalAmount r"
    using un by (simp_all add: untouched_def orders_set_def set_column_def)
  have now: "set_updatedAt u = now" using un by (simp add: untouched_def)
  have "s' = s\<lparr>orders := orders s'\<rparr>" by (simp add: s')
  moreover have "seq (orders s') = seq (orders s)" by (simp add: s')
  moreover have "list_all2 (\<lambda>old new.
               order_id new = order_id old \<and>
               order_tokenNumber new = order_tokenNumber old \<and>
               order_subtotal new = order_subtotal old \<and>
               order_createdAt new = order_createdAt old \<and>
               (order_id old \<noteq> n \<longrightarrow> new = old) \<and>
               (order_id old = n \<longrightarrow> order_updatedAt new = now) \<and>
               (field body ''customerId'' = JUndef \<longrightarrow> order_customerId new = order_customerId old) \<and>
               (field body ''status'' = JUndef \<longrightarrow> order_status new = order_status old) \<and>
               (field body ''deliveryMode'' = JUndef \<longrightarrow> order_deliveryMode new = order_deliveryMode old) \<and>
               (field body ''paymentStatus'' = JUndef \<longrightarrow>
                  order_paymentStatus new = order_paymentStatus old) \<and>
               (field body ''estimatedReadyTime'' = JUndef \<longrightarrow>
                  order_estimatedReadyTime new = order_estimatedReadyTime old) \<and>
               (field body ''discount'' = JUndef \<longrightarrow> order_discount new = order_discount old) \<and>
               (field body ''finalAmount'' = JUndef \<longrightarrow> order_finalAmount new = order_finalAmount old))
             (rows (orders s)) (rows (orders s'))"
    unfolding rows list_all2_map2
    by (rule list_all2_refl) (simp add: orders_set_keeps frame now)
  ultimately show ?thesis using n by blast
qed

theorem order_update_frame_witness:
  "orders_PUT ''2025-01-02T08:00:00.000Z'' [(''id'', ''1'')] [(''status'', JStr ''Ready'')]
      sample_store =
     (Response 200 (Row (sample_order\<lparr>order_status := JStr ''Ready'',
                           order_updatedAt := ''2025-01-02T08:00:00.000Z''\<rparr>)),
      sample_store\<lparr>orders := \<lparr>rows = [sample_order\<lparr>order_status := JStr ''Ready'',
                           order_updatedAt := ''2025-01-02T08:00:00.000Z''\<rparr>], seq = 1\<rparr>\<rparr>) \<and>
   order_tokenNumber (sample_order\<lparr>order_status := JStr ''Ready'',
                           order_updatedAt := ''2025-01-02T08:00:00.000Z''\<rparr>) = ''TKN123456007''"
proof -
  have tr: "trim ''Ready'' = ''Ready''" by (simp add: trim_def is_ws_def)
  have v: "orders_PUT_validate ''2025-01-02T08:00:00.000Z'' [(''status'', JStr ''Ready'')] =
      Next \<lparr>set_customerId = None, set_status = Some ''Ready'', set_deliveryMode = None,
        set_paymentStatus = None, set_estimatedReadyTime = None, set_discount = None,
        set_finalAmount = None, set_updatedAt = ''2025-01-02T08:00:00.000Z''\<rparr>"
    by (simp add: orders_PUT_validate_def bind_def put_customerId_def put_status_def
        put_deliveryMode_def put_paymentStatus_def put_estimatedReadyTime_def put_discount_def
        put_finalAmount_def field_def blank_JStr trimmed_def tr)
  have h: "orders_PUT ''2025-01-02T08:00:00.000Z'' [(''id'', ''1'')] [(''status'', JStr ''Ready'')]
      sample_store =
     (Response 200 (Row (sample_order\<lparr>order_status := JStr ''Ready'',
                           order_updatedAt := ''2025-01-02T08:00:00.000Z''\<rparr>)),
      sample_store\<lparr>orders := \<lparr>rows = [sample_order\<lparr>order_status := JStr ''Ready'',
                           order_updatedAt := ''2025-01-02T08:00:00.000Z''\<rparr>], seq = 1\<rparr>\<rparr>)"
    by (simp add: orders_PUT_def id_one v db_select_def db_update_def first_row_def
        sample_store_def empty_store_def sample_order_def orders_set_def set_column_def)
  from order_update_frame[OF h] h show ?thesis
    by (simp add: sample_store_def empty_store_def sample_order_def)
qed

subsection \<open>Updates that supply no field\<close>

text \<open>
  Claim C10. For an existing payment, an update whose body supplies no \<^verbatim>\<open>orderId\<close> and
  whose \<^verbatim>\<open>paymentMode\<close> and \<^verbatim>\<open>paymentStatus\<close> are absent or \<^verbatim>\<open>null\<close> is answered with
  status 400 and code \<^verbatim>\<open>NO_UPDATE_FIELDS\<close>, and the store is unchanged. The customers
  endpoint differs: for an existing customer an update that supplies none of its six
  fields is answered with status 200 and the existing record, the store unchanged.
\<close>

theorem payments_PUT_without_fields:
  assumes "parse_id (get ps ''id'') = Some n"
  shows "((\<exists>r\<in>set (rows (payments s)). payment_id r = n) \<and>
          field body ''orderId'' = JUndef \<and>
          (field body ''paymentMode'' = JUndef \<or> field body ''paymentMode'' = JNull) \<and>
          (field body ''paymentStatus'' = JUndef \<or> field body ''paymentStatus'' = JNull)
          \<longrightarrow> payments_PUT ps body s =
                (Response 400 (Err ''No valid fields to update'' (Some ''NO_UPDATE_FIELDS'')), s))
       \<and> ((\<exists>r\<in>set (rows (customers s)). customer_id r = n) \<and>
          field body ''name'' = JUndef \<and> field body ''email'' = JUndef \<and>
          field body ''phone'' = JUndef \<and> field body ''address'' = JUndef \<and>
          field body ''latitude'' = JUndef \<and> field body ''longitude'' = JUndef
          \<longrightarrow> (\<exists>r\<in>set (rows (customers s)). customer_id r = n \<and>
                 customers_PUT ps body s = (Response 200 (Row r), s)))"
  using payments_PUT_no_fields[OF assms, of s body] customers_PUT_no_fields[OF assms, of s body]
  by (simp add: bad_request_def)

theorem payments_PUT_without_fields_witness:
  "parse_id (get [(''id'', ''1'')] ''id'') = Some 1 \<and>
   payments_PUT [(''id'', ''1'')] [(''paymentMode'', JNull)] sample_store =
     (Response 400 (Err ''No valid fields to update'' (Some ''NO_UPDATE_FIELDS'')), sample_store) \<and>
   customers_PUT [(''id'', ''1'')] [(''paymentMode'', JNull)] sample_store =
     (Response 200 (Row sample_customer), sample_store)"
proof -
  have id: "parse_id (get [(''id'', ''1'')] ''id'') = Some 1" by code_simp
  show ?thesis
    using id payments_PUT_without_fields[OF id, of sample_store "[(''paymentMode'', JNull)]"]
    by (simp add: sample_store_def empty_store_def sample_payment_def sample_customer_def field_def)
qed

end
